theory Spec2Isabelle
  imports Main "HOL-Library.List_Lexorder" "HOL-Library.Char_ord" "HOL-Library.Word"
begin

section \<open>Schema (shared/schema.ts)\<close>

text \<open>
  Identifiers are the varchar primary keys of the tables, timestamps are read from a clock
  that is part of the database state. The JSON payload of an activity is an object whose
  values are null, strings, numbers or string arrays: these are the only shapes the routes
  write. The content of a comment is kept as JavaScript holds it, a sequence of UTF-16 code
  units, because the comment route trims it before it is stored.
\<close>

type_synonym ident = string
type_synonym timestamp = nat
type_synonym code_unit = "16 word"
type_synonym jsstring = "code_unit list"

datatype userRole = R_super_admin | R_admin | R_project_manager | R_member | R_guest
datatype taskType = T_task | T_bug | T_feature | T_challenge
datatype taskPriority = P_low | P_medium | P_high | P_urgent
datatype taskStatus = S_todo | S_in_progress | S_review | S_done
datatype projectVisibility = V_public | V_private

datatype jvalue = JNull | JString string | JNumber int | JStrings "string list"
type_synonym jobject = "(string \<times> jvalue) list"

record User =
  user_id :: ident
  user_email :: "string option"
  user_firstName :: "string option"
  user_lastName :: "string option"
  user_profileImageUrl :: "string option"
  user_role :: userRole
  user_bio :: "string option"
  user_country :: "string option"
  user_sdgAlignment :: "string list option"
  user_points :: int
  user_level :: int
  user_createdAt :: timestamp
  user_updatedAt :: timestamp

record Project =
  project_id :: ident
  project_name :: string
  project_description :: "string option"
  project_visibility :: projectVisibility
  project_sdgTags :: "string list option"
  project_ownerId :: ident
  project_createdAt :: timestamp
  project_updatedAt :: timestamp

record Column =
  column_id :: string
  column_name :: string
  column_order :: int

record Board =
  board_id :: ident
  board_name :: string
  board_description :: "string option"
  board_projectId :: ident
  board_columns :: "Column list"
  board_createdAt :: timestamp
  board_updatedAt :: timestamp

record Task =
  task_id :: ident
  task_title :: string
  task_description :: "string option"
  task_type :: taskType
  task_priority :: taskPriority
  task_status :: taskStatus
  task_boardId :: ident
  task_assigneeId :: "ident option"
  task_reporterId :: ident
  task_labels :: "string list option"
  task_estimationHours :: "int option"
  task_rewardPoints :: int
  task_dueDate :: "timestamp option"
  task_sdgLink :: "string option"
  task_progress :: int
  task_createdAt :: timestamp
  task_updatedAt :: timestamp

record TaskDependency =
  dependency_id :: ident
  dependency_taskId :: ident
  dependency_dependsOnTaskId :: ident
  dependency_createdAt :: timestamp

record Badge =
  badge_id :: ident
  badge_name :: string
  badge_description :: "string option"
  badge_icon :: "string option"
  badge_criteria :: "jobject option"
  badge_pointsRequired :: "int option"
  badge_isActive :: bool
  badge_createdAt :: timestamp

record UserBadge =
  userBadge_id :: ident
  userBadge_userId :: ident
  userBadge_badgeId :: ident
  userBadge_earnedAt :: timestamp

record ProjectMember =
  member_id :: ident
  member_projectId :: ident
  member_userId :: ident
  member_role :: string
  member_joinedAt :: timestamp

record TaskComment =
  comment_id :: ident
  comment_taskId :: ident
  comment_userId :: ident
  comment_content :: jsstring
  comment_createdAt :: timestamp

record Activity =
  activity_id :: ident
  activity_userId :: ident
  activity_type :: string
  activity_description :: string
  activity_metadata :: "jobject option"
  activity_projectId :: "ident option"
  activity_taskId :: "ident option"
  activity_createdAt :: timestamp

text \<open>The database: one list of rows per table, in insertion order, and the clock.\<close>

record db =
  users :: "User list"
  projects :: "Project list"
  boards :: "Board list"
  tasks :: "Task list"
  taskDependencies :: "TaskDependency list"
  badges :: "Badge list"
  userBadges :: "UserBadge list"
  projectMembers :: "ProjectMember list"
  taskComments :: "TaskComment list"
  activities :: "Activity list"
  clock :: timestamp

text \<open>
  Every statement of the storage layer either returns or throws; a throw is the left
  injection. The database rejects a row whose foreign key has no parent row, an unknown
  label of an enum column, a duplicate of a unique column, a number outside the range of
  an \<open>integer\<close> column and a string too long for its \<open>varchar(n)\<close> column; the query
  builder rejects an update that sets nothing; reading a property of \<open>undefined\<close> is
  JavaScript's TypeError, \<open>toISOString\<close> of an invalid date its RangeError, a failed
  schema parse is a ZodError.
\<close>

datatype error =
    ZodError | ForeignKeyViolation | UniqueViolation | InvalidEnumValue | TypeError
  | NumericValueOutOfRange | StringDataRightTruncation | NoValuesToSet | RangeError

text \<open>
  The column type \<open>integer\<close> holds the 32-bit signed numbers. An assignment to a
  \<open>varchar(n)\<close> column keeps a string of at most \<open>n\<close> characters, cuts a longer one
  whose excess is spaces only, and rejects any other. The values of a statement are
  checked when the statement is bound and planned, before any row is looked at.
\<close>

definition int4 :: "int \<Rightarrow> bool" where
  "int4 n = (- 2147483648 \<le> n \<and> n \<le> 2147483647)"

definition int4_opt :: "int option \<Rightarrow> bool" where
  "int4_opt n = (case n of None \<Rightarrow> True | Some v \<Rightarrow> int4 v)"

definition varchar :: "nat \<Rightarrow> string \<Rightarrow> string option" where
  "varchar n s =
     (if length s \<le> n then Some s
      else if list_all (\<lambda>c. c = CHR '' '') (drop n s) then Some (take n s)
      else None)"

text \<open>The same for a key of a partial row: a missing key is not checked.\<close>

definition varchar_opt :: "nat \<Rightarrow> string option \<Rightarrow> string option option" where
  "varchar_opt n s = (case s of None \<Rightarrow> Some None | Some v \<Rightarrow> map_option Some (varchar n v))"

text \<open>
  \<open>gen_random_uuid()\<close> is modelled by its contract: the default of a primary key is an
  identifier no row of the table carries yet.
\<close>

definition gen_random_uuid :: "ident list \<Rightarrow> ident" where
  "gen_random_uuid used =
     replicate (Suc (foldr (\<lambda>s n. max (length s) n) used 0)) (CHR ''u'')"

text \<open>JavaScript truthiness of an optional string: undefined, null and the empty string are falsy.\<close>

definition truthy :: "'a list option \<Rightarrow> bool" where
  "truthy s = (case s of None \<Rightarrow> False | Some v \<Rightarrow> v \<noteq> [])"

text \<open>A field of a partial row: undefined keeps the column, a value overwrites it.\<close>

definition upd :: "'a option \<Rightarrow> 'a \<Rightarrow> 'a" where
  "upd new old = (case new of None \<Rightarrow> old | Some v \<Rightarrow> v)"

text \<open>Template-literal rendering of an integer.\<close>

function show_nat :: "nat \<Rightarrow> string" where
  "show_nat n =
     (if n < 10 then [char_of (48 + n)]
      else show_nat (n div 10) @ [char_of (48 + n mod 10)])"
  by pat_completeness auto
termination
  by (relation "measure (\<lambda>n. n)") auto

declare show_nat.simps [simp del]

definition show_int :: "int \<Rightarrow> string" where
  "show_int i = (if i < 0 then CHR ''-'' # show_nat (nat (- i)) else show_nat (nat i))"

fun taskStatus_of :: "string \<Rightarrow> taskStatus option" where
  "taskStatus_of s =
     (if s = ''todo'' then Some S_todo
      else if s = ''in_progress'' then Some S_in_progress
      else if s = ''review'' then Some S_review
      else if s = ''done'' then Some S_done
      else None)"

fun userRole_of :: "string \<Rightarrow> userRole option" where
  "userRole_of s =
     (if s = ''super_admin'' then Some R_super_admin
      else if s = ''admin'' then Some R_admin
      else if s = ''project_manager'' then Some R_project_manager
      else if s = ''member'' then Some R_member
      else if s = ''guest'' then Some R_guest
      else None)"

fun taskStatus_str :: "taskStatus \<Rightarrow> string" where
  "taskStatus_str S_todo = ''todo''"
| "taskStatus_str S_in_progress = ''in_progress''"
| "taskStatus_str S_review = ''review''"
| "taskStatus_str S_done = ''done''"

fun taskPriority_str :: "taskPriority \<Rightarrow> string" where
  "taskPriority_str P_low = ''low''"
| "taskPriority_str P_medium = ''medium''"
| "taskPriority_str P_high = ''high''"
| "taskPriority_str P_urgent = ''urgent''"

fun taskType_str :: "taskType \<Rightarrow> string" where
  "taskType_str T_task = ''task''"
| "taskType_str T_bug = ''bug''"
| "taskType_str T_feature = ''feature''"
| "taskType_str T_challenge = ''challenge''"

section \<open>Storage layer (class DatabaseStorage)\<close>

subsection \<open>Insert and update payloads\<close>

text \<open>
  An insert payload leaves out what the table defaults. In a partial payload every key may
  be missing (\<open>None\<close>); a nullable column then has a second option for SQL NULL. The
  status of a partial task is the string the caller sent: the transition route passes it
  on unparsed.
\<close>

record UpsertUser =
  uu_id :: "ident option"
  uu_email :: "string option option"
  uu_firstName :: "string option option"
  uu_lastName :: "string option option"
  uu_profileImageUrl :: "string option option"

record InsertProject =
  ip_name :: string
  ip_description :: "string option"
  ip_visibility :: "projectVisibility option"
  ip_sdgTags :: "string list option"
  ip_ownerId :: ident

record PartialInsertProject =
  pip_name :: "string option"
  pip_description :: "string option option"
  pip_visibility :: "projectVisibility option"
  pip_sdgTags :: "string list option option"
  pip_ownerId :: "ident option"

record InsertBoard =
  ib_name :: string
  ib_description :: "string option"
  ib_projectId :: ident
  ib_columns :: "Column list option"

record PartialInsertBoard =
  pib_name :: "string option"
  pib_description :: "string option option"
  pib_projectId :: "ident option"
  pib_columns :: "Column list option"

record InsertTask =
  it_title :: string
  it_description :: "string option"
  it_type :: "taskType option"
  it_priority :: "taskPriority option"
  it_status :: "taskStatus option"
  it_boardId :: ident
  it_assigneeId :: "ident option"
  it_reporterId :: ident
  it_labels :: "string list option"
  it_estimationHours :: "int option"
  it_rewardPoints :: "int option"
  it_dueDate :: "timestamp option"
  it_sdgLink :: "string option"
  it_progress :: "int option"

record PartialInsertTask =
  pit_title :: "string option"
  pit_description :: "string option option"
  pit_type :: "taskType option"
  pit_priority :: "taskPriority option"
  pit_status :: "string option"
  pit_boardId :: "ident option"
  pit_assigneeId :: "ident option option"
  pit_reporterId :: "ident option"
  pit_labels :: "string list option option"
  pit_estimationHours :: "int option option"
  pit_rewardPoints :: "int option"
  pit_dueDate :: "timestamp option option"
  pit_sdgLink :: "string option option"
  pit_progress :: "int option"

record InsertBadge =
  ibg_name :: string
  ibg_description :: "string option"
  ibg_icon :: "string option"
  ibg_criteria :: "jobject option"
  ibg_pointsRequired :: "int option"
  ibg_isActive :: "bool option"

record PartialInsertBadge =
  pbg_name :: "string option"
  pbg_description :: "string option option"
  pbg_icon :: "string option option"
  pbg_criteria :: "jobject option option"
  pbg_pointsRequired :: "int option option"
  pbg_isActive :: "bool option"

record InsertActivity =
  ia_userId :: ident
  ia_type :: string
  ia_description :: string
  ia_metadata :: "jobject option"
  ia_projectId :: "ident option"
  ia_taskId :: "ident option"

definition no_changes :: PartialInsertTask where
  "no_changes =
     \<lparr>pit_title = None, pit_description = None, pit_type = None, pit_priority = None,
      pit_status = None, pit_boardId = None, pit_assigneeId = None, pit_reporterId = None,
      pit_labels = None, pit_estimationHours = None, pit_rewardPoints = None,
      pit_dueDate = None, pit_sdgLink = None, pit_progress = None\<rparr>"

subsection \<open>Constraints of the tables\<close>

definition user_exists :: "db \<Rightarrow> ident \<Rightarrow> bool" where
  "user_exists d i = (i \<in> set (map user_id (users d)))"

definition project_exists :: "db \<Rightarrow> ident \<Rightarrow> bool" where
  "project_exists d i = (i \<in> set (map project_id (projects d)))"

definition board_exists :: "db \<Rightarrow> ident \<Rightarrow> bool" where
  "board_exists d i = (i \<in> set (map board_id (boards d)))"

definition task_exists :: "db \<Rightarrow> ident \<Rightarrow> bool" where
  "task_exists d i = (i \<in> set (map task_id (tasks d)))"

definition badge_exists :: "db \<Rightarrow> ident \<Rightarrow> bool" where
  "badge_exists d i = (i \<in> set (map badge_id (badges d)))"

text \<open>A nullable reference is checked only when it is set.\<close>

definition ref_ok :: "(ident \<Rightarrow> bool) \<Rightarrow> ident option \<Rightarrow> bool" where
  "ref_ok ex r = (case r of None \<Rightarrow> True | Some i \<Rightarrow> ex i)"

text \<open>\<open>users.email\<close> is unique: no other row may carry the same non-null email.\<close>

definition email_taken :: "db \<Rightarrow> ident \<Rightarrow> string option \<Rightarrow> bool" where
  "email_taken d i e =
     (case e of None \<Rightarrow> False
      | Some a \<Rightarrow> list_ex (\<lambda>u. user_id u \<noteq> i \<and> user_email u = Some a) (users d))"

text \<open>The default of \<open>boards.columns\<close>.\<close>

definition default_columns :: "Column list" where
  "default_columns =
     [\<lparr>column_id = ''todo'', column_name = ''To Do'', column_order = 0\<rparr>,
      \<lparr>column_id = ''in_progress'', column_name = ''In Progress'', column_order = 1\<rparr>,
      \<lparr>column_id = ''review'', column_name = ''Review'', column_order = 2\<rparr>,
      \<lparr>column_id = ''done'', column_name = ''Done'', column_order = 3\<rparr>]"

subsection \<open>User operations\<close>

definition getUser :: "db \<Rightarrow> ident \<Rightarrow> User option" where
  "getUser d i = find (\<lambda>u. user_id u = i) (users d)"

text \<open>
  \<open>upsertUser\<close>: insert with the defaults of the table (role member, points 0, level 1);
  on a conflict on the id, overwrite the keys the payload carries and \<open>updatedAt\<close>.
\<close>

definition upsertUser :: "db \<Rightarrow> UpsertUser \<Rightarrow> error + (User \<times> db)" where
  "upsertUser d userData =
     (let i = (case uu_id userData of
                 None \<Rightarrow> gen_random_uuid (map user_id (users d))
               | Some v \<Rightarrow> v);
          now = clock d
      in case getUser d i of
           None \<Rightarrow>
             (let u = \<lparr>user_id = i,
                       user_email = upd (uu_email userData) None,
                       user_firstName = upd (uu_firstName userData) None,
                       user_lastName = upd (uu_lastName userData) None,
                       user_profileImageUrl = upd (uu_profileImageUrl userData) None,
                       user_role = R_member, user_bio = None, user_country = None,
                       user_sdgAlignment = None, user_points = 0, user_level = 1,
                       user_createdAt = now, user_updatedAt = now\<rparr>
              in if email_taken d i (user_email u) then Inl UniqueViolation
                 else Inr (u, d\<lparr>users := users d @ [u], clock := Suc now\<rparr>))
         | Some old \<Rightarrow>
             (let f = (\<lambda>x. x\<lparr>user_email := upd (uu_email userData) (user_email x),
                               user_firstName := upd (uu_firstName userData) (user_firstName x),
                               user_lastName := upd (uu_lastName userData) (user_lastName x),
                               user_profileImageUrl :=
                                 upd (uu_profileImageUrl userData) (user_profileImageUrl x),
                               user_updatedAt := now\<rparr>)
              in if email_taken d i (user_email (f old)) then Inl UniqueViolation
                 else Inr (f old,
                           d\<lparr>users := map (\<lambda>x. if user_id x = i then f x else x) (users d),
                             clock := Suc now\<rparr>)))"

text \<open>
  An update returns the first row it changed, \<open>undefined\<close> (\<open>None\<close>) when no row has the
  id. \<open>updateUserRole\<close> takes the role as the string (or \<open>undefined\<close>) its route read from
  the body: a string that is no label of the enum is rejected, an undefined role keeps the
  column.
\<close>

definition updateUserRole ::
  "db \<Rightarrow> ident \<Rightarrow> string option \<Rightarrow> error + (User option \<times> db)" where
  "updateUserRole d userId role =
     (if (case role of None \<Rightarrow> False | Some s \<Rightarrow> userRole_of s = None)
      then Inl InvalidEnumValue
      else let now = clock d;
               f = (\<lambda>u. u\<lparr>user_role := upd (Option.bind role userRole_of) (user_role u),
                           user_updatedAt := now\<rparr>)
           in Inr (map_option f (getUser d userId),
                   d\<lparr>users := map (\<lambda>u. if user_id u = userId then f u else u) (users d),
                     clock := Suc now\<rparr>))"

text \<open>
  \<open>updateUserPoints\<close>: both numbers go into \<open>integer\<close> columns. \<open>Math.floor(points / 100)\<close>
  on an integer is the floor division.
\<close>

definition updateUserPoints :: "db \<Rightarrow> ident \<Rightarrow> int \<Rightarrow> error + (User option \<times> db)" where
  "updateUserPoints d userId pts =
     (if \<not> (int4 pts \<and> int4 (pts div 100 + 1)) then Inl NumericValueOutOfRange
      else let now = clock d;
               f = (\<lambda>u. u\<lparr>user_points := pts, user_level := pts div 100 + 1,
                           user_updatedAt := now\<rparr>)
           in Inr (map_option f (getUser d userId),
                   d\<lparr>users := map (\<lambda>u. if user_id u = userId then f u else u) (users d),
                     clock := Suc now\<rparr>))"

subsection \<open>Project and board operations\<close>

definition getProject :: "db \<Rightarrow> ident \<Rightarrow> Project option" where
  "getProject d i = find (\<lambda>p. project_id p = i) (projects d)"

definition createProject :: "db \<Rightarrow> InsertProject \<Rightarrow> error + (Project \<times> db)" where
  "createProject d p =
     (case varchar 255 (ip_name p) of
        None \<Rightarrow> Inl StringDataRightTruncation
      | Some name \<Rightarrow>
          if \<not> user_exists d (ip_ownerId p) then Inl ForeignKeyViolation
          else let now = clock d;
                   row = \<lparr>project_id = gen_random_uuid (map project_id (projects d)),
                          project_name = name,
                          project_description = ip_description p,
                          project_visibility = upd (ip_visibility p) V_public,
                          project_sdgTags = ip_sdgTags p,
                          project_ownerId = ip_ownerId p,
                          project_createdAt = now, project_updatedAt = now\<rparr>
               in Inr (row, d\<lparr>projects := projects d @ [row], clock := Suc now\<rparr>))"

text \<open>\<open>.set({ ...project, updatedAt: new Date() })\<close> on the row with the id.\<close>

definition updateProject ::
  "db \<Rightarrow> ident \<Rightarrow> PartialInsertProject \<Rightarrow> error + (Project option \<times> db)" where
  "updateProject d i p =
     (case varchar_opt 255 (pip_name p) of
        None \<Rightarrow> Inl StringDataRightTruncation
      | Some name \<Rightarrow>
          (case getProject d i of
             None \<Rightarrow> Inr (None, d)
           | Some old \<Rightarrow>
               if \<not> ref_ok (user_exists d) (pip_ownerId p) then Inl ForeignKeyViolation
               else let now = clock d;
                        f = (\<lambda>x. x\<lparr>project_name := upd name (project_name x),
                                    project_description :=
                                      upd (pip_description p) (project_description x),
                                    project_visibility :=
                                      upd (pip_visibility p) (project_visibility x),
                                    project_sdgTags := upd (pip_sdgTags p) (project_sdgTags x),
                                    project_ownerId := upd (pip_ownerId p) (project_ownerId x),
                                    project_updatedAt := now\<rparr>)
                    in Inr (Some (f old),
                            d\<lparr>projects := map (\<lambda>x. if project_id x = i then f x else x)
                                               (projects d),
                              clock := Suc now\<rparr>)))"

text \<open>
  \<open>deleteProject\<close>: the references to \<open>projects.id\<close> have no delete action, so a project
  that a board, a member or an activity still points to cannot be deleted.
\<close>

definition deleteProject :: "db \<Rightarrow> ident \<Rightarrow> error + db" where
  "deleteProject d i =
     (if project_exists d i \<and>
         (list_ex (\<lambda>b. board_projectId b = i) (boards d) \<or>
          list_ex (\<lambda>m. member_projectId m = i) (projectMembers d) \<or>
          list_ex (\<lambda>a. activity_projectId a = Some i) (activities d))
      then Inl ForeignKeyViolation
      else Inr (d\<lparr>projects := filter (\<lambda>p. project_id p \<noteq> i) (projects d)\<rparr>))"

definition getBoard :: "db \<Rightarrow> ident \<Rightarrow> Board option" where
  "getBoard d i = find (\<lambda>b. board_id b = i) (boards d)"

definition createBoard :: "db \<Rightarrow> InsertBoard \<Rightarrow> error + (Board \<times> db)" where
  "createBoard d b =
     (case varchar 255 (ib_name b) of
        None \<Rightarrow> Inl StringDataRightTruncation
      | Some name \<Rightarrow>
          if \<not> project_exists d (ib_projectId b) then Inl ForeignKeyViolation
          else let now = clock d;
                   row = \<lparr>board_id = gen_random_uuid (map board_id (boards d)),
                          board_name = name,
                          board_description = ib_description b,
                          board_projectId = ib_projectId b,
                          board_columns = upd (ib_columns b) default_columns,
                          board_createdAt = now, board_updatedAt = now\<rparr>
               in Inr (row, d\<lparr>boards := boards d @ [row], clock := Suc now\<rparr>))"

definition updateBoard ::
  "db \<Rightarrow> ident \<Rightarrow> PartialInsertBoard \<Rightarrow> error + (Board option \<times> db)" where
  "updateBoard d i b =
     (case varchar_opt 255 (pib_name b) of
        None \<Rightarrow> Inl StringDataRightTruncation
      | Some name \<Rightarrow>
          (case getBoard d i of
             None \<Rightarrow> Inr (None, d)
           | Some old \<Rightarrow>
               if \<not> ref_ok (project_exists d) (pib_projectId b) then Inl ForeignKeyViolation
               else let now = clock d;
                        f = (\<lambda>x. x\<lparr>board_name := upd name (board_name x),
                                    board_description :=
                                      upd (pib_description b) (board_description x),
                                    board_projectId := upd (pib_projectId b) (board_projectId x),
                                    board_columns := upd (pib_columns b) (board_columns x),
                                    board_updatedAt := now\<rparr>)
                    in Inr (Some (f old),
                            d\<lparr>boards := map (\<lambda>x. if board_id x = i then f x else x) (boards d),
                              clock := Suc now\<rparr>)))"

definition getBoardsByProject :: "db \<Rightarrow> ident \<Rightarrow> Board list" where
  "getBoardsByProject d projectId =
     sort_key board_createdAt (filter (\<lambda>b. board_projectId b = projectId) (boards d))"

subsection \<open>Activity operations\<close>

text \<open>\<open>db.insert(activities).values(a).returning()\<close>, with the three references of the table.\<close>

definition insert_activities :: "db \<Rightarrow> InsertActivity \<Rightarrow> error + (Activity \<times> db)" where
  "insert_activities d a =
     (if \<not> user_exists d (ia_userId a) then Inl ForeignKeyViolation
      else if \<not> ref_ok (project_exists d) (ia_projectId a) then Inl ForeignKeyViolation
      else if \<not> ref_ok (task_exists d) (ia_taskId a) then Inl ForeignKeyViolation
      else let now = clock d;
               row = \<lparr>activity_id = gen_random_uuid (map activity_id (activities d)),
                      activity_userId = ia_userId a,
                      activity_type = ia_type a,
                      activity_description = ia_description a,
                      activity_metadata = ia_metadata a,
                      activity_projectId = ia_projectId a,
                      activity_taskId = ia_taskId a,
                      activity_createdAt = now\<rparr>
           in Inr (row, d\<lparr>activities := activities d @ [row], clock := Suc now\<rparr>))"

definition createActivity :: "db \<Rightarrow> InsertActivity \<Rightarrow> error + (Activity \<times> db)" where
  "createActivity d a = insert_activities d a"

subsection \<open>Task operations\<close>

definition getTask :: "db \<Rightarrow> ident \<Rightarrow> Task option" where
  "getTask d i = find (\<lambda>t. task_id t = i) (tasks d)"

definition createTask :: "db \<Rightarrow> InsertTask \<Rightarrow> error + (Task \<times> db)" where
  "createTask d t =
     (if \<not> (int4_opt (it_estimationHours t) \<and> int4_opt (it_rewardPoints t) \<and>
             int4_opt (it_progress t))
      then Inl NumericValueOutOfRange
      else case varchar 255 (it_title t) of
        None \<Rightarrow> Inl StringDataRightTruncation
      | Some title \<Rightarrow>
          if \<not> board_exists d (it_boardId t) then Inl ForeignKeyViolation
          else if \<not> ref_ok (user_exists d) (it_assigneeId t) then Inl ForeignKeyViolation
          else if \<not> user_exists d (it_reporterId t) then Inl ForeignKeyViolation
          else let now = clock d;
                   row = \<lparr>task_id = gen_random_uuid (map task_id (tasks d)),
                          task_title = title,
                          task_description = it_description t,
                          task_type = upd (it_type t) T_task,
                          task_priority = upd (it_priority t) P_medium,
                          task_status = upd (it_status t) S_todo,
                          task_boardId = it_boardId t,
                          task_assigneeId = it_assigneeId t,
                          task_reporterId = it_reporterId t,
                          task_labels = it_labels t,
                          task_estimationHours = it_estimationHours t,
                          task_rewardPoints = upd (it_rewardPoints t) 100,
                          task_dueDate = it_dueDate t,
                          task_sdgLink = it_sdgLink t,
                          task_progress = upd (it_progress t) 0,
                          task_createdAt = now, task_updatedAt = now\<rparr>
               in Inr (row, d\<lparr>tasks := tasks d @ [row], clock := Suc now\<rparr>))"

text \<open>\<open>.set({ ...task, updatedAt: new Date() })\<close> on one row.\<close>

definition set_task :: "PartialInsertTask \<Rightarrow> timestamp \<Rightarrow> Task \<Rightarrow> Task" where
  "set_task p now t =
     t\<lparr>task_title := upd (pit_title p) (task_title t),
       task_description := upd (pit_description p) (task_description t),
       task_type := upd (pit_type p) (task_type t),
       task_priority := upd (pit_priority p) (task_priority t),
       task_status := upd (Option.bind (pit_status p) taskStatus_of) (task_status t),
       task_boardId := upd (pit_boardId p) (task_boardId t),
       task_assigneeId := upd (pit_assigneeId p) (task_assigneeId t),
       task_reporterId := upd (pit_reporterId p) (task_reporterId t),
       task_labels := upd (pit_labels p) (task_labels t),
       task_estimationHours := upd (pit_estimationHours p) (task_estimationHours t),
       task_rewardPoints := upd (pit_rewardPoints p) (task_rewardPoints t),
       task_dueDate := upd (pit_dueDate p) (task_dueDate t),
       task_sdgLink := upd (pit_sdgLink p) (task_sdgLink t),
       task_progress := upd (pit_progress p) (task_progress t),
       task_updatedAt := now\<rparr>"

text \<open>
  The values of a partial task as the database takes them: a status outside the enum and
  a number outside \<open>integer\<close> are rejected, the title is fitted to \<open>varchar(255)\<close>.
\<close>

definition bind_task :: "PartialInsertTask \<Rightarrow> error + PartialInsertTask" where
  "bind_task p =
     (if (case pit_status p of None \<Rightarrow> False | Some s \<Rightarrow> taskStatus_of s = None)
      then Inl InvalidEnumValue
      else if \<not> (int4_opt (Option.bind (pit_estimationHours p) (\<lambda>h. h)) \<and>
                   int4_opt (pit_rewardPoints p) \<and> int4_opt (pit_progress p))
      then Inl NumericValueOutOfRange
      else case varchar_opt 255 (pit_title p) of
             None \<Rightarrow> Inl StringDataRightTruncation
           | Some title \<Rightarrow> Inr (p\<lparr>pit_title := title\<rparr>))"

text \<open>
  \<open>updateTask\<close>: the values are checked when the statement is bound; the references are
  checked on the row that is written; no row with the id writes nothing and returns
  \<open>undefined\<close>.
\<close>

definition updateTask ::
  "db \<Rightarrow> ident \<Rightarrow> PartialInsertTask \<Rightarrow> error + (Task option \<times> db)" where
  "updateTask d i task =
     (case bind_task task of
        Inl e \<Rightarrow> Inl e
      | Inr p \<Rightarrow>
          (case getTask d i of
             None \<Rightarrow> Inr (None, d)
           | Some old \<Rightarrow>
               if \<not> ref_ok (board_exists d) (pit_boardId p) then Inl ForeignKeyViolation
               else if \<not> ref_ok (user_exists d) (Option.bind (pit_assigneeId p) (\<lambda>a. a))
                 then Inl ForeignKeyViolation
               else if \<not> ref_ok (user_exists d) (pit_reporterId p) then Inl ForeignKeyViolation
               else let now = clock d
                    in Inr (Some (set_task p now old),
                            d\<lparr>tasks := map (\<lambda>t. if task_id t = i then set_task p now t else t)
                                            (tasks d),
                              clock := Suc now\<rparr>)))"

text \<open>
  \<open>deleteTask\<close>: the references to \<open>tasks.id\<close> are declared without a delete action, so a
  task that a comment, a dependency or an activity still points to cannot be deleted.
\<close>

definition deleteTask :: "db \<Rightarrow> ident \<Rightarrow> error + db" where
  "deleteTask d i =
     (if task_exists d i \<and>
         (list_ex (\<lambda>c. comment_taskId c = i) (taskComments d) \<or>
          list_ex (\<lambda>x. dependency_taskId x = i \<or> dependency_dependsOnTaskId x = i)
            (taskDependencies d) \<or>
          list_ex (\<lambda>a. activity_taskId a = Some i) (activities d))
      then Inl ForeignKeyViolation
      else Inr (d\<lparr>tasks := filter (\<lambda>t. task_id t \<noteq> i) (tasks d)\<rparr>))"

subsection \<open>Comment operations\<close>

definition getTaskComment :: "db \<Rightarrow> ident \<Rightarrow> TaskComment option" where
  "getTaskComment d i = find (\<lambda>c. comment_id c = i) (taskComments d)"

definition createTaskComment ::
  "db \<Rightarrow> ident \<Rightarrow> ident \<Rightarrow> jsstring \<Rightarrow> error + (TaskComment \<times> db)" where
  "createTaskComment d taskId userId content =
     (if \<not> task_exists d taskId then Inl ForeignKeyViolation
      else if \<not> user_exists d userId then Inl ForeignKeyViolation
      else let now = clock d;
               row = \<lparr>comment_id = gen_random_uuid (map comment_id (taskComments d)),
                      comment_taskId = taskId, comment_userId = userId,
                      comment_content = content, comment_createdAt = now\<rparr>
           in Inr (row, d\<lparr>taskComments := taskComments d @ [row], clock := Suc now\<rparr>))"

text \<open>
  \<open>updateTaskComment\<close> sets \<open>content\<close> and \<open>updatedAt\<close>; the table has no column
  \<open>updatedAt\<close>, and the query builder writes only the columns of the table.
\<close>

definition updateTaskComment :: "db \<Rightarrow> ident \<Rightarrow> jsstring \<Rightarrow> TaskComment option \<times> db" where
  "updateTaskComment d i content =
     (let f = (\<lambda>c. c\<lparr>comment_content := content\<rparr>)
      in (map_option f (getTaskComment d i),
          d\<lparr>taskComments := map (\<lambda>c. if comment_id c = i then f c else c) (taskComments d),
            clock := Suc (clock d)\<rparr>))"

definition deleteTaskComment :: "db \<Rightarrow> ident \<Rightarrow> db" where
  "deleteTaskComment d i = d\<lparr>taskComments := filter (\<lambda>c. comment_id c \<noteq> i) (taskComments d)\<rparr>"

subsection \<open>Badge operations\<close>

definition getBadges :: "db \<Rightarrow> Badge list" where
  "getBadges d = sort_key badge_name (filter (\<lambda>b. badge_isActive b = True) (badges d))"

definition getBadge :: "db \<Rightarrow> ident \<Rightarrow> Badge option" where
  "getBadge d i = find (\<lambda>b. badge_id b = i) (badges d)"

definition createBadge :: "db \<Rightarrow> InsertBadge \<Rightarrow> error + (Badge \<times> db)" where
  "createBadge d b =
     (if \<not> int4_opt (ibg_pointsRequired b) then Inl NumericValueOutOfRange
      else case varchar 255 (ibg_name b) of
        None \<Rightarrow> Inl StringDataRightTruncation
      | Some name \<Rightarrow>
          let now = clock d;
              row = \<lparr>badge_id = gen_random_uuid (map badge_id (badges d)),
                     badge_name = name,
                     badge_description = ibg_description b,
                     badge_icon = ibg_icon b,
                     badge_criteria = ibg_criteria b,
                     badge_pointsRequired = ibg_pointsRequired b,
                     badge_isActive = upd (ibg_isActive b) True,
                     badge_createdAt = now\<rparr>
          in Inr (row, d\<lparr>badges := badges d @ [row], clock := Suc now\<rparr>))"

text \<open>
  \<open>updateBadge\<close> hands the partial badge to \<open>.set\<close> as it is: with no key defined the
  query builder throws before anything is sent.
\<close>

definition updateBadge ::
  "db \<Rightarrow> ident \<Rightarrow> PartialInsertBadge \<Rightarrow> error + (Badge option \<times> db)" where
  "updateBadge d i b =
     (if pbg_name b = None \<and> pbg_description b = None \<and> pbg_icon b = None \<and>
         pbg_criteria b = None \<and> pbg_pointsRequired b = None \<and> pbg_isActive b = None
      then Inl NoValuesToSet
      else if \<not> int4_opt (Option.bind (pbg_pointsRequired b) (\<lambda>n. n))
      then Inl NumericValueOutOfRange
      else case varchar_opt 255 (pbg_name b) of
        None \<Rightarrow> Inl StringDataRightTruncation
      | Some name \<Rightarrow>
          let f = (\<lambda>x. x\<lparr>badge_name := upd name (badge_name x),
                          badge_description := upd (pbg_description b) (badge_description x),
                          badge_icon := upd (pbg_icon b) (badge_icon x),
                          badge_criteria := upd (pbg_criteria b) (badge_criteria x),
                          badge_pointsRequired :=
                            upd (pbg_pointsRequired b) (badge_pointsRequired x),
                          badge_isActive := upd (pbg_isActive b) (badge_isActive x)\<rparr>)
          in Inr (map_option f (getBadge d i),
                  d\<lparr>badges := map (\<lambda>x. if badge_id x = i then f x else x) (badges d)\<rparr>))"

definition deleteBadge :: "db \<Rightarrow> ident \<Rightarrow> db" where
  "deleteBadge d i =
     d\<lparr>badges := map (\<lambda>b. if badge_id b = i then b\<lparr>badge_isActive := False\<rparr> else b)
                     (badges d)\<rparr>"

definition awardBadge :: "db \<Rightarrow> ident \<Rightarrow> ident \<Rightarrow> error + (UserBadge \<times> db)" where
  "awardBadge d userId badgeId =
     (if \<not> user_exists d userId then Inl ForeignKeyViolation
      else if \<not> badge_exists d badgeId then Inl ForeignKeyViolation
      else let now = clock d;
               row = \<lparr>userBadge_id = gen_random_uuid (map userBadge_id (userBadges d)),
                      userBadge_userId = userId, userBadge_badgeId = badgeId,
                      userBadge_earnedAt = now\<rparr>
           in Inr (row, d\<lparr>userBadges := userBadges d @ [row], clock := Suc now\<rparr>))"

subsection \<open>Project member operations\<close>

text \<open>\<open>addProjectMember\<close>: the role defaults to \<open>member\<close> when the argument is undefined.\<close>

definition addProjectMember ::
  "db \<Rightarrow> ident \<Rightarrow> ident \<Rightarrow> string option \<Rightarrow> error + (ProjectMember \<times> db)" where
  "addProjectMember d projectId userId role =
     (if \<not> project_exists d projectId then Inl ForeignKeyViolation
      else if \<not> user_exists d userId then Inl ForeignKeyViolation
      else let now = clock d;
               row = \<lparr>member_id = gen_random_uuid (map member_id (projectMembers d)),
                      member_projectId = projectId, member_userId = userId,
                      member_role = upd role ''member'', member_joinedAt = now\<rparr>
           in Inr (row, d\<lparr>projectMembers := projectMembers d @ [row], clock := Suc now\<rparr>))"

definition removeProjectMember :: "db \<Rightarrow> ident \<Rightarrow> ident \<Rightarrow> db" where
  "removeProjectMember d projectId userId =
     d\<lparr>projectMembers :=
         filter (\<lambda>m. \<not> (member_projectId m = projectId \<and> member_userId m = userId))
                (projectMembers d)\<rparr>"

subsection \<open>Time tracking\<close>

text \<open>
  \<open>createTimeLog\<close> writes an activity. The time spent is a JavaScript number and the date a
  JavaScript Date; how the language prints a number in a template literal, writes it as
  JSON and prints a date (\<open>toISOString\<close> throws on an invalid date) are parameters.
\<close>

record ('n, 'dt) javascript =
  number_toString :: "'n \<Rightarrow> string"
  number_toJSON :: "'n \<Rightarrow> jvalue"
  date_toISOString :: "'dt \<Rightarrow> string option"

record ('n, 'dt) TimeLog =
  tl_taskId :: ident
  tl_userId :: ident
  tl_timeSpent :: 'n
  tl_description :: "string option"
  tl_date :: 'dt

record ('n, 'dt) TimeLogEntry =
  tle_id :: ident
  tle_taskId :: ident
  tle_userId :: ident
  tle_timeSpent :: 'n
  tle_description :: "string option"
  tle_date :: 'dt
  tle_createdAt :: timestamp

definition createTimeLog ::
  "('n, 'dt) javascript \<Rightarrow> db \<Rightarrow> ('n, 'dt) TimeLog
     \<Rightarrow> error + (('n, 'dt) TimeLogEntry \<times> db)" where
  "createTimeLog js d timeLog =
     (case date_toISOString js (tl_date timeLog) of
        None \<Rightarrow> Inl RangeError
      | Some isoString \<Rightarrow>
          (case insert_activities d
                  \<lparr>ia_userId = tl_userId timeLog,
                   ia_type = ''time_logged'',
                   ia_description =
                     ''Logged '' @ number_toString js (tl_timeSpent timeLog) @ '' hours'' @
                     (if truthy (tl_description timeLog)
                      then '': '' @ upd (tl_description timeLog) [] else []),
                   ia_metadata = Some (
                     [(''timeSpent'', number_toJSON js (tl_timeSpent timeLog))] @
                     (case tl_description timeLog of None \<Rightarrow> []
                      | Some v \<Rightarrow> [(''description'', JString v)]) @
                     [(''date'', JString isoString)]),
                   ia_projectId = None,
                   ia_taskId = Some (tl_taskId timeLog)\<rparr> of
             Inl e \<Rightarrow> Inl e
           | Inr (activity, d1) \<Rightarrow>
               Inr (\<lparr>tle_id = activity_id activity,
                     tle_taskId = tl_taskId timeLog,
                     tle_userId = tl_userId timeLog,
                     tle_timeSpent = tl_timeSpent timeLog,
                     tle_description = tl_description timeLog,
                     tle_date = tl_date timeLog,
                     tle_createdAt = activity_createdAt activity\<rparr>, d1)))"

subsection \<open>Advanced search\<close>

text \<open>
  The parameters of \<open>searchTasks\<close>. A filter is applied when its parameter is truthy.
  SQL's LIKE is the database's operator and is a parameter of the model
  (\<open>like value pattern\<close>); on a NULL description it is not true. Comparing an enum column
  with a string that is not one of its labels is rejected by the database.
\<close>

record SearchParams =
  sp_query :: "string option"
  sp_assigneeId :: "string option"
  sp_reporterId :: "string option"
  sp_status :: "string option"
  sp_priority :: "string option"
  sp_type :: "string option"
  sp_projectId :: "string option"
  sp_limit :: nat
  sp_offset :: nat

text \<open>The columns the project branch selects: a task row without \<open>dueDate\<close> and \<open>progress\<close>.\<close>

record TaskSelection =
  sel_id :: ident
  sel_title :: string
  sel_description :: "string option"
  sel_status :: taskStatus
  sel_priority :: taskPriority
  sel_type :: taskType
  sel_assigneeId :: "ident option"
  sel_reporterId :: ident
  sel_boardId :: ident
  sel_rewardPoints :: int
  sel_estimationHours :: "int option"
  sel_sdgLink :: "string option"
  sel_labels :: "string list option"
  sel_createdAt :: timestamp
  sel_updatedAt :: timestamp

datatype searchResult = TaskRows "Task list" | SelectedRows "TaskSelection list"

definition select_columns :: "Task \<Rightarrow> TaskSelection" where
  "select_columns t =
     \<lparr>sel_id = task_id t, sel_title = task_title t, sel_description = task_description t,
      sel_status = task_status t, sel_priority = task_priority t, sel_type = task_type t,
      sel_assigneeId = task_assigneeId t, sel_reporterId = task_reporterId t,
      sel_boardId = task_boardId t, sel_rewardPoints = task_rewardPoints t,
      sel_estimationHours = task_estimationHours t, sel_sdgLink = task_sdgLink t,
      sel_labels = task_labels t, sel_createdAt = task_createdAt t,
      sel_updatedAt = task_updatedAt t\<rparr>"

definition enum_ok :: "(string \<Rightarrow> bool) \<Rightarrow> string option \<Rightarrow> bool" where
  "enum_ok label p = (truthy p \<longrightarrow> label (upd p []))"

definition is_taskStatus :: "string \<Rightarrow> bool" where
  "is_taskStatus s = (s \<in> set (map taskStatus_str [S_todo, S_in_progress, S_review, S_done]))"

definition is_taskPriority :: "string \<Rightarrow> bool" where
  "is_taskPriority s = (s \<in> set (map taskPriority_str [P_low, P_medium, P_high, P_urgent]))"

definition is_taskType :: "string \<Rightarrow> bool" where
  "is_taskType s = (s \<in> set (map taskType_str [T_task, T_bug, T_feature, T_challenge]))"

text \<open>The list \<open>conditions\<close> the function builds: one predicate per truthy parameter.\<close>

definition conditions ::
  "(string \<Rightarrow> string \<Rightarrow> bool) \<Rightarrow> SearchParams \<Rightarrow> (Task \<Rightarrow> bool) list" where
  "conditions like params =
     (if truthy (sp_query params)
      then [\<lambda>t. like (task_title t) (''%'' @ upd (sp_query params) [] @ ''%'') \<or>
                 (case task_description t of None \<Rightarrow> False
                  | Some v \<Rightarrow> like v (''%'' @ upd (sp_query params) [] @ ''%''))]
      else []) @
     (if truthy (sp_assigneeId params)
      then [\<lambda>t. task_assigneeId t = sp_assigneeId params] else []) @
     (if truthy (sp_reporterId params)
      then [\<lambda>t. Some (task_reporterId t) = sp_reporterId params] else []) @
     (if truthy (sp_status params)
      then [\<lambda>t. Some (taskStatus_str (task_status t)) = sp_status params] else []) @
     (if truthy (sp_priority params)
      then [\<lambda>t. Some (taskPriority_str (task_priority t)) = sp_priority params] else []) @
     (if truthy (sp_type params)
      then [\<lambda>t. Some (taskType_str (task_type t)) = sp_type params] else [])"

definition and_all :: "(Task \<Rightarrow> bool) list \<Rightarrow> Task \<Rightarrow> bool" where
  "and_all cs t = list_all (\<lambda>c. c t) cs"

text \<open>
  \<open>.orderBy(desc(tasks.updatedAt)).limit(l).offset(o)\<close>. Rows with the same \<open>updatedAt\<close>
  stay in the order in which the table holds them.
\<close>

definition page :: "SearchParams \<Rightarrow> Task list \<Rightarrow> Task list" where
  "page params rows =
     take (sp_limit params)
       (drop (sp_offset params) (rev (sort_key task_updatedAt (rev rows))))"

text \<open>\<open>tasks INNER JOIN boards ON tasks.board_id = boards.id\<close>, as pairs.\<close>

definition tasks_join_boards :: "db \<Rightarrow> (Task \<times> Board) list" where
  "tasks_join_boards d =
     concat (map (\<lambda>t. map (\<lambda>b. (t, b)) (filter (\<lambda>b. task_boardId t = board_id b) (boards d)))
                 (tasks d))"

definition searchTasks ::
  "(string \<Rightarrow> string \<Rightarrow> bool) \<Rightarrow> db \<Rightarrow> SearchParams \<Rightarrow> error + searchResult" where
  "searchTasks like d params =
     (if \<not> (enum_ok is_taskStatus (sp_status params) \<and>
             enum_ok is_taskPriority (sp_priority params) \<and>
             enum_ok is_taskType (sp_type params))
      then Inl InvalidEnumValue
      else if truthy (sp_projectId params)
      then Inr (SelectedRows (map select_columns (page params
             (map fst (filter (\<lambda>(t, b). Some (board_projectId b) = sp_projectId params \<and>
                                          and_all (conditions like params) t)
                              (tasks_join_boards d))))))
      else if \<not> List.null (conditions like params)
      then Inr (TaskRows (page params (filter (and_all (conditions like params)) (tasks d))))
      else Inr (TaskRows (page params (tasks d))))"

subsection \<open>Task dependencies\<close>

text \<open>The objects \<open>createTaskDependency\<close> and \<open>getTaskDependencies\<close> return.\<close>

record Dependency =
  dep_id :: ident
  dep_taskId :: "ident option"
  dep_dependsOnTaskId :: "jvalue option"
  dep_createdAt :: timestamp

definition createTaskDependency ::
  "db \<Rightarrow> ident \<Rightarrow> ident \<Rightarrow> error + (Dependency \<times> db)" where
  "createTaskDependency d taskId dependsOnTaskId =
     (case insert_activities d
             \<lparr>ia_userId = [],
              ia_type = ''dependency_created'',
              ia_description = ''Task dependency created'',
              ia_metadata = Some [(''dependsOnTaskId'', JString dependsOnTaskId)],
              ia_projectId = None,
              ia_taskId = Some taskId\<rparr> of
        Inl e \<Rightarrow> Inl e
      | Inr (activity, d1) \<Rightarrow>
          Inr (\<lparr>dep_id = activity_id activity,
                dep_taskId = Some taskId,
                dep_dependsOnTaskId = Some (JString dependsOnTaskId),
                dep_createdAt = activity_createdAt activity\<rparr>, d1))"

definition getTaskDependencies :: "db \<Rightarrow> ident \<Rightarrow> Dependency list" where
  "getTaskDependencies d taskId =
     map (\<lambda>dep. \<lparr>dep_id = activity_id dep,
                  dep_taskId = activity_taskId dep,
                  dep_dependsOnTaskId =
                    (case activity_metadata dep of None \<Rightarrow> None
                     | Some m \<Rightarrow> map_of m ''dependsOnTaskId''),
                  dep_createdAt = activity_createdAt dep\<rparr>)
         (filter (\<lambda>a. activity_taskId a = Some taskId \<and> activity_type a = ''dependency_created'')
                 (activities d))"

section \<open>Routes (registerRoutes)\<close>

text \<open>
  A handler takes the database and the request and returns the response with the database
  it leaves behind. No handler opens a transaction: what was written before a throw stays
  written. \<open>Json x\<close> is \<open>res.json(x)\<close>, \<open>Failure c m\<close> is
  \<open>res.status(c).json({ message: m })\<close>. The schema parsers of the routes
  (\<open>insertTaskSchema.partial().parse\<close> and the like) are parameters: \<open>None\<close> is a
  thrown ZodError.
\<close>

datatype 'a response = Json 'a | Failure nat string

definition task_completed :: "Task \<Rightarrow> ident \<Rightarrow> InsertActivity" where
  "task_completed task assigneeId =
     \<lparr>ia_userId = assigneeId,
      ia_type = ''task_completed'',
      ia_description = ''Completed task \"'' @ task_title task @ ''\" and earned '' @
                       show_int (task_rewardPoints task) @ '' points'',
      ia_metadata = Some [(''taskTitle'', JString (task_title task)),
                          (''pointsEarned'', JNumber (task_rewardPoints task))],
      ia_projectId = None,
      ia_taskId = Some (task_id task)\<rparr>"

text \<open>\<open>PUT /api/tasks/:id\<close>, the generic update.\<close>

definition putTask ::
  "('body \<Rightarrow> PartialInsertTask option) \<Rightarrow> db \<Rightarrow> ident \<Rightarrow> ident \<Rightarrow> 'body
     \<Rightarrow> Task response \<times> db" where
  "putTask parse d userId i body =
     (case parse body of
        None \<Rightarrow> (Failure 400 ''Invalid task data'', d)
      | Some taskData \<Rightarrow>
          (let oldTask = getTask d i
           in case updateTask d i taskData of
                Inl e \<Rightarrow> (Failure 500 ''Failed to update task'', d)
              | Inr (None, d1) \<Rightarrow> (Failure 500 ''Failed to update task'', d1)
              | Inr (Some task, d1) \<Rightarrow>
                  if map_option task_status oldTask \<noteq> Some S_done \<and>
                     task_status task = S_done \<and> truthy (task_assigneeId task)
                  then (case task_assigneeId task of
                          None \<Rightarrow> (Json task, d1)
                        | Some a \<Rightarrow>
                            (case getUser d1 a of
                               None \<Rightarrow> (Json task, d1)
                             | Some assignee \<Rightarrow>
                                 (let newPoints = user_points assignee + task_rewardPoints task
                                  in case updateUserPoints d1 a newPoints of
                                       Inl e \<Rightarrow> (Failure 500 ''Failed to update task'', d1)
                                     | Inr (_, d2) \<Rightarrow>
                                         (case createActivity d2 (task_completed task a) of
                                            Inl e \<Rightarrow> (Failure 500 ''Failed to update task'', d2)
                                          | Inr (_, d3) \<Rightarrow> (Json task, d3)))))
                  else (Json task, d1)))"

text \<open>
  \<open>PUT /api/tasks/:id/transition\<close>. The body's \<open>status\<close> and \<open>comment\<close> are taken as
  they come; \<open>undefined\<close> in a template literal prints as the word, and an undefined key
  is left out of the stored JSON.
\<close>

definition status_changed ::
  "ident \<Rightarrow> Task option \<Rightarrow> Task \<Rightarrow> string option \<Rightarrow> string option \<Rightarrow> InsertActivity" where
  "status_changed userId oldTask task status comment =
     \<lparr>ia_userId = userId,
      ia_type = ''status_changed'',
      ia_description =
        ''Changed task status from '' @
        (case oldTask of None \<Rightarrow> ''undefined'' | Some t \<Rightarrow> taskStatus_str (task_status t)) @
        '' to '' @ (case status of None \<Rightarrow> ''undefined'' | Some s \<Rightarrow> s),
      ia_metadata = Some (
        (case oldTask of None \<Rightarrow> []
         | Some t \<Rightarrow> [(''oldStatus'', JString (taskStatus_str (task_status t)))]) @
        (case status of None \<Rightarrow> [] | Some s \<Rightarrow> [(''newStatus'', JString s)]) @
        [(''comment'', if truthy comment then JString (upd comment []) else JNull)]),
      ia_projectId = None,
      ia_taskId = Some (task_id task)\<rparr>"

definition transitionTask ::
  "db \<Rightarrow> ident \<Rightarrow> ident \<Rightarrow> string option \<Rightarrow> string option \<Rightarrow> Task response \<times> db" where
  "transitionTask d userId i status comment =
     (let oldTask = getTask d i
      in case updateTask d i (no_changes\<lparr>pit_status := status\<rparr>) of
           Inl e \<Rightarrow> (Failure 500 ''Failed to transition task'', d)
         | Inr (None, d1) \<Rightarrow> (Failure 500 ''Failed to transition task'', d1)
         | Inr (Some task, d1) \<Rightarrow>
             (case createActivity d1 (status_changed userId oldTask task status comment) of
                Inl e \<Rightarrow> (Failure 500 ''Failed to transition task'', d1)
              | Inr (_, d2) \<Rightarrow>
                  if map_option task_status oldTask \<noteq> Some S_done \<and>
                     status = Some ''done'' \<and> truthy (task_assigneeId task)
                  then (case task_assigneeId task of
                          None \<Rightarrow> (Json task, d2)
                        | Some a \<Rightarrow>
                            (case getUser d2 a of
                               None \<Rightarrow> (Json task, d2)
                             | Some assignee \<Rightarrow>
                                 (let newPoints = user_points assignee + task_rewardPoints task
                                  in case updateUserPoints d2 a newPoints of
                                       Inl e \<Rightarrow> (Failure 500 ''Failed to transition task'', d2)
                                     | Inr (_, d3) \<Rightarrow>
                                         (case createActivity d3 (task_completed task a) of
                                            Inl e \<Rightarrow>
                                              (Failure 500 ''Failed to transition task'', d3)
                                          | Inr (_, d4) \<Rightarrow> (Json task, d4)))))
                  else (Json task, d2)))"

text \<open>\<open>POST /api/projects\<close>: the project, its default board, the activity.\<close>

definition postProject ::
  "('body \<Rightarrow> InsertProject option) \<Rightarrow> db \<Rightarrow> ident \<Rightarrow> 'body \<Rightarrow> Project response \<times> db" where
  "postProject parse d userId body =
     (case parse body of
        None \<Rightarrow> (Failure 400 ''Invalid project data'', d)
      | Some p \<Rightarrow>
          (case createProject d (p\<lparr>ip_ownerId := userId\<rparr>) of
             Inl e \<Rightarrow> (Failure 500 ''Failed to create project'', d)
           | Inr (project, d1) \<Rightarrow>
               (case createBoard d1
                       \<lparr>ib_name = ''Main Board'',
                        ib_description = Some ''Default project board'',
                        ib_projectId = project_id project,
                        ib_columns = None\<rparr> of
                  Inl e \<Rightarrow> (Failure 500 ''Failed to create project'', d1)
                | Inr (_, d2) \<Rightarrow>
                    (case createActivity d2
                            \<lparr>ia_userId = userId,
                             ia_type = ''project_created'',
                             ia_description = ''Created project \"'' @ project_name project @ ''\"'',
                             ia_metadata = Some [(''projectName'', JString (project_name project))],
                             ia_projectId = Some (project_id project),
                             ia_taskId = None\<rparr> of
                       Inl e \<Rightarrow> (Failure 500 ''Failed to create project'', d2)
                     | Inr (_, d3) \<Rightarrow> (Json project, d3)))))"

text \<open>
  \<open>PUT /api/projects/:id\<close> (with no row of the id the handler answers
  \<open>res.json(undefined)\<close>) and \<open>DELETE /api/projects/:id\<close>.
\<close>

definition putProject ::
  "('body \<Rightarrow> PartialInsertProject option) \<Rightarrow> db \<Rightarrow> ident \<Rightarrow> 'body
     \<Rightarrow> Project option response \<times> db" where
  "putProject parse d i body =
     (case parse body of
        None \<Rightarrow> (Failure 400 ''Invalid project data'', d)
      | Some p \<Rightarrow>
          (case updateProject d i p of
             Inl e \<Rightarrow> (Failure 500 ''Failed to update project'', d)
           | Inr (project, d1) \<Rightarrow> (Json project, d1)))"

definition deleteProjectRoute :: "db \<Rightarrow> ident \<Rightarrow> string response \<times> db" where
  "deleteProjectRoute d i =
     (case deleteProject d i of
        Inl e \<Rightarrow> (Failure 500 ''Failed to delete project'', d)
      | Inr d1 \<Rightarrow> (Json ''Project deleted successfully'', d1))"

text \<open>\<open>POST /api/projects/:projectId/boards\<close>.\<close>

definition postBoard ::
  "('body \<Rightarrow> InsertBoard option) \<Rightarrow> db \<Rightarrow> ident \<Rightarrow> 'body \<Rightarrow> Board response \<times> db" where
  "postBoard parse d projectId body =
     (case parse body of
        None \<Rightarrow> (Failure 400 ''Invalid board data'', d)
      | Some b \<Rightarrow>
          (case createBoard d (b\<lparr>ib_projectId := projectId\<rparr>) of
             Inl e \<Rightarrow> (Failure 500 ''Failed to create board'', d)
           | Inr (board, d1) \<Rightarrow> (Json board, d1)))"

text \<open>\<open>POST /api/boards/:boardId/tasks\<close>.\<close>

definition postTask ::
  "('body \<Rightarrow> InsertTask option) \<Rightarrow> db \<Rightarrow> ident \<Rightarrow> ident \<Rightarrow> 'body \<Rightarrow> Task response \<times> db" where
  "postTask parse d userId boardId body =
     (case parse body of
        None \<Rightarrow> (Failure 400 ''Invalid task data'', d)
      | Some t \<Rightarrow>
          (case createTask d (t\<lparr>it_boardId := boardId, it_reporterId := userId\<rparr>) of
             Inl e \<Rightarrow> (Failure 500 ''Failed to create task'', d)
           | Inr (task, d1) \<Rightarrow>
               (case createActivity d1
                       \<lparr>ia_userId = userId,
                        ia_type = ''task_created'',
                        ia_description = ''Created task \"'' @ task_title task @ ''\"'',
                        ia_metadata = Some [(''taskTitle'', JString (task_title task))],
                        ia_projectId = None,
                        ia_taskId = Some (task_id task)\<rparr> of
                  Inl e \<Rightarrow> (Failure 500 ''Failed to create task'', d1)
                | Inr (_, d2) \<Rightarrow> (Json task, d2))))"

text \<open>\<open>DELETE /api/tasks/:id\<close>; the response carries only a message.\<close>

definition deleteTaskRoute :: "db \<Rightarrow> ident \<Rightarrow> string response \<times> db" where
  "deleteTaskRoute d i =
     (case deleteTask d i of
        Inl e \<Rightarrow> (Failure 500 ''Failed to delete task'', d)
      | Inr d1 \<Rightarrow> (Json ''Task deleted successfully'', d1))"

text \<open>
  \<open>PUT /api/tasks/:id/assign\<close>. The body's \<open>assigneeId\<close> is undefined (\<open>None\<close>), null
  (\<open>Some None\<close>) or a string. With no row of that id and nothing to log, the handler
  answers \<open>res.json(undefined)\<close>.
\<close>

definition assignTask ::
  "db \<Rightarrow> ident \<Rightarrow> ident \<Rightarrow> ident option option \<Rightarrow> Task option response \<times> db" where
  "assignTask d userId i assigneeId =
     (case updateTask d i (no_changes\<lparr>pit_assigneeId := assigneeId\<rparr>) of
        Inl e \<Rightarrow> (Failure 500 ''Failed to assign task'', d)
      | Inr (None, d1) \<Rightarrow>
          if truthy (Option.bind assigneeId (\<lambda>a. a))
          then (Failure 500 ''Failed to assign task'', d1)
          else (Json None, d1)
      | Inr (Some task, d1) \<Rightarrow>
          if truthy (Option.bind assigneeId (\<lambda>a. a))
          then (case createActivity d1
                       \<lparr>ia_userId = userId,
                        ia_type = ''task_assigned'',
                        ia_description = ''Assigned task \"'' @ task_title task @ ''\" to user'',
                        ia_metadata = Some [(''taskTitle'', JString (task_title task)),
                                            (''assigneeId'',
                                             JString (upd (Option.bind assigneeId (\<lambda>a. a)) []))],
                        ia_projectId = None,
                        ia_taskId = Some (task_id task)\<rparr> of
                  Inl e \<Rightarrow> (Failure 500 ''Failed to assign task'', d1)
                | Inr (_, d2) \<Rightarrow> (Json (Some task), d2))
          else (Json (Some task), d1))"

text \<open>\<open>PUT /api/tasks/:id/labels\<close>.\<close>

definition putLabels ::
  "db \<Rightarrow> ident \<Rightarrow> ident \<Rightarrow> string list option option \<Rightarrow> Task response \<times> db" where
  "putLabels d userId i labels =
     (case updateTask d i (no_changes\<lparr>pit_labels := labels\<rparr>) of
        Inl e \<Rightarrow> (Failure 500 ''Failed to update labels'', d)
      | Inr (None, d1) \<Rightarrow> (Failure 500 ''Failed to update labels'', d1)
      | Inr (Some task, d1) \<Rightarrow>
          (case createActivity d1
                  \<lparr>ia_userId = userId,
                   ia_type = ''labels_updated'',
                   ia_description = ''Updated task labels'',
                   ia_metadata = Some (case labels of None \<Rightarrow> []
                                       | Some None \<Rightarrow> [(''labels'', JNull)]
                                       | Some (Some ls) \<Rightarrow> [(''labels'', JStrings ls)]),
                   ia_projectId = None,
                   ia_taskId = Some (task_id task)\<rparr> of
             Inl e \<Rightarrow> (Failure 500 ''Failed to update labels'', d1)
           | Inr (_, d2) \<Rightarrow> (Json task, d2)))"

text \<open>
  \<open>POST /api/tasks/:taskId/comments\<close>. \<open>String.prototype.trim\<close> removes from both ends
  the code units of the language's white space and line terminators: tab, line feed,
  vertical tab, form feed, carriage return, space, no-break space, U+1680, U+2000 to
  U+200A, U+2028, U+2029, U+202F, U+205F, U+3000 and U+FEFF.
\<close>

definition is_space :: "code_unit \<Rightarrow> bool" where
  "is_space c =
     (c \<in> set [0x09, 0x0A, 0x0B, 0x0C, 0x0D, 0x20, 0xA0, 0x1680, 0x2000, 0x2001, 0x2002,
                0x2003, 0x2004, 0x2005, 0x2006, 0x2007, 0x2008, 0x2009, 0x200A, 0x2028,
                0x2029, 0x202F, 0x205F, 0x3000, 0xFEFF])"

definition trim :: "jsstring \<Rightarrow> jsstring" where
  "trim s = rev (dropWhile is_space (rev (dropWhile is_space s)))"

definition postComment ::
  "db \<Rightarrow> ident \<Rightarrow> ident \<Rightarrow> jsstring option \<Rightarrow> TaskComment response \<times> db" where
  "postComment d userId taskId content =
     (if \<not> truthy (map_option trim content)
      then (Failure 400 ''Comment content is required'', d)
      else case createTaskComment d taskId userId (trim (upd content [])) of
             Inl e \<Rightarrow> (Failure 500 ''Failed to create comment'', d)
           | Inr (comment, d1) \<Rightarrow>
               (case createActivity d1
                       \<lparr>ia_userId = userId,
                        ia_type = ''comment_added'',
                        ia_description = ''Added comment to task'',
                        ia_metadata = Some [(''commentId'', JString (comment_id comment))],
                        ia_projectId = None,
                        ia_taskId = Some taskId\<rparr> of
                  Inl e \<Rightarrow> (Failure 500 ''Failed to create comment'', d1)
                | Inr (_, d2) \<Rightarrow> (Json comment, d2)))"

text \<open>\<open>POST /api/tasks/:id/dependencies\<close>.\<close>

definition postDependency ::
  "db \<Rightarrow> ident \<Rightarrow> ident \<Rightarrow> string option \<Rightarrow> Dependency response \<times> db" where
  "postDependency d userId i dependsOnTaskId =
     (if \<not> truthy dependsOnTaskId
      then (Failure 400 ''Dependency task ID is required'', d)
      else case createTaskDependency d i (upd dependsOnTaskId []) of
             Inl e \<Rightarrow> (Failure 500 ''Failed to create dependency'', d)
           | Inr (dependency, d1) \<Rightarrow> (Json dependency, d1))"

section \<open>Requests as sequences of statements\<close>

text \<open>
  A handler is an \<open>async\<close> function: it runs up to its next \<open>await\<close> of a storage call,
  the statement is executed on the database, and the handler goes on with the result.
  Between two statements of one request the statements of another request may be
  executed. A \<open>thread\<close> is a request that waits for its next statement, with the local
  variables it holds; \<open>Responded\<close> is a request that has sent its response.
\<close>

datatype thread =
    Put_getTask ident PartialInsertTask
  | Put_updateTask ident PartialInsertTask "Task option"
  | Transition_getTask ident ident "string option" "string option"
  | Transition_updateTask ident ident "string option" "string option" "Task option"
  | Transition_createActivity ident "Task option" Task "string option" "string option"
  | Award_getUser string Task ident
  | Award_updateUserPoints string Task ident User
  | Award_createActivity string Task ident
  | Responded "Task response"

text \<open>One statement of a request, and the synchronous code up to the next one.\<close>

fun step :: "db \<Rightarrow> thread \<Rightarrow> thread \<times> db" where
  "step d (Put_getTask i taskData) = (Put_updateTask i taskData (getTask d i), d)"
| "step d (Put_updateTask i taskData oldTask) =
     (case updateTask d i taskData of
        Inl e \<Rightarrow> (Responded (Failure 500 ''Failed to update task''), d)
      | Inr (None, d1) \<Rightarrow> (Responded (Failure 500 ''Failed to update task''), d1)
      | Inr (Some task, d1) \<Rightarrow>
          if map_option task_status oldTask \<noteq> Some S_done \<and>
             task_status task = S_done \<and> truthy (task_assigneeId task)
          then (case task_assigneeId task of
                  None \<Rightarrow> (Responded (Json task), d1)
                | Some a \<Rightarrow> (Award_getUser ''Failed to update task'' task a, d1))
          else (Responded (Json task), d1))"
| "step d (Transition_getTask userId i status comment) =
     (Transition_updateTask userId i status comment (getTask d i), d)"
| "step d (Transition_updateTask userId i status comment oldTask) =
     (case updateTask d i (no_changes\<lparr>pit_status := status\<rparr>) of
        Inl e \<Rightarrow> (Responded (Failure 500 ''Failed to transition task''), d)
      | Inr (None, d1) \<Rightarrow> (Responded (Failure 500 ''Failed to transition task''), d1)
      | Inr (Some task, d1) \<Rightarrow> (Transition_createActivity userId oldTask task status comment, d1))"
| "step d (Transition_createActivity userId oldTask task status comment) =
     (case createActivity d (status_changed userId oldTask task status comment) of
        Inl e \<Rightarrow> (Responded (Failure 500 ''Failed to transition task''), d)
      | Inr (_, d1) \<Rightarrow>
          if map_option task_status oldTask \<noteq> Some S_done \<and>
             status = Some ''done'' \<and> truthy (task_assigneeId task)
          then (case task_assigneeId task of
                  None \<Rightarrow> (Responded (Json task), d1)
                | Some a \<Rightarrow> (Award_getUser ''Failed to transition task'' task a, d1))
          else (Responded (Json task), d1))"
| "step d (Award_getUser msg task a) =
     (case getUser d a of
        None \<Rightarrow> (Responded (Json task), d)
      | Some assignee \<Rightarrow> (Award_updateUserPoints msg task a assignee, d))"
| "step d (Award_updateUserPoints msg task a assignee) =
     (case updateUserPoints d a (user_points assignee + task_rewardPoints task) of
        Inl e \<Rightarrow> (Responded (Failure 500 msg), d)
      | Inr (_, d1) \<Rightarrow> (Award_createActivity msg task a, d1))"
| "step d (Award_createActivity msg task a) =
     (case createActivity d (task_completed task a) of
        Inl e \<Rightarrow> (Responded (Failure 500 msg), d)
      | Inr (_, d1) \<Rightarrow> (Responded (Json task), d1))"
| "step d (Responded r) = (Responded r, d)"

text \<open>A request alone: \<open>n\<close> statements in a row.\<close>

fun steps :: "nat \<Rightarrow> thread \<times> db \<Rightarrow> thread \<times> db" where
  "steps 0 c = c"
| "steps (Suc n) (t, d) = steps n (step d t)"

text \<open>
  Two requests in flight: the schedule says whose statement the database executes next
  (\<open>True\<close> for the first request).
\<close>

fun interleave :: "bool list \<Rightarrow> thread \<times> thread \<times> db \<Rightarrow> thread \<times> thread \<times> db" where
  "interleave [] c = c"
| "interleave (True # sched) (t1, t2, d) =
     (let (t1', d') = step d t1 in interleave sched (t1', t2, d'))"
| "interleave (False # sched) (t1, t2, d) =
     (let (t2', d') = step d t2 in interleave sched (t1, t2', d'))"

section \<open>Completing a task\<close>




definition points_of :: "db \<Rightarrow> ident \<Rightarrow> int option" where
  "points_of d a = map_option user_points (getUser d a)"

section \<open>Points and levels\<close>

text \<open>
  The methods of the storage layer that write (every method of the class that is not a
  plain select), as calls, and the database after a call; a call that throws writes
  nothing.
\<close>

datatype ('n, 'dt) storage_call =
    Call_upsertUser UpsertUser
  | Call_createProject InsertProject
  | Call_updateProject ident PartialInsertProject
  | Call_deleteProject ident
  | Call_createBoard InsertBoard
  | Call_updateBoard ident PartialInsertBoard
  | Call_createTask InsertTask
  | Call_updateTask ident PartialInsertTask
  | Call_deleteTask ident
  | Call_createBadge InsertBadge
  | Call_updateBadge ident PartialInsertBadge
  | Call_deleteBadge ident
  | Call_awardBadge ident ident
  | Call_addProjectMember ident ident "string option"
  | Call_removeProjectMember ident ident
  | Call_createActivity InsertActivity
  | Call_updateUserRole ident "string option"
  | Call_updateUserPoints ident int
  | Call_createTaskComment ident ident jsstring
  | Call_updateTaskComment ident jsstring
  | Call_deleteTaskComment ident
  | Call_createTimeLog "('n, 'dt) TimeLog"
  | Call_createTaskDependency ident ident

definition written :: "db \<Rightarrow> error + ('a \<times> db) \<Rightarrow> db" where
  "written d r = (case r of Inl e \<Rightarrow> d | Inr (_, d') \<Rightarrow> d')"

fun after :: "('n, 'dt) javascript \<Rightarrow> db \<Rightarrow> ('n, 'dt) storage_call \<Rightarrow> db" where
  "after js d (Call_upsertUser userData) = written d (upsertUser d userData)"
| "after js d (Call_createProject p) = written d (createProject d p)"
| "after js d (Call_updateProject i p) = written d (updateProject d i p)"
| "after js d (Call_deleteProject i) =
     (case deleteProject d i of Inl e \<Rightarrow> d | Inr d' \<Rightarrow> d')"
| "after js d (Call_createBoard b) = written d (createBoard d b)"
| "after js d (Call_updateBoard i b) = written d (updateBoard d i b)"
| "after js d (Call_createTask t) = written d (createTask d t)"
| "after js d (Call_updateTask i p) = written d (updateTask d i p)"
| "after js d (Call_deleteTask i) =
     (case deleteTask d i of Inl e \<Rightarrow> d | Inr d' \<Rightarrow> d')"
| "after js d (Call_createBadge b) = written d (createBadge d b)"
| "after js d (Call_updateBadge i b) = written d (updateBadge d i b)"
| "after js d (Call_deleteBadge i) = deleteBadge d i"
| "after js d (Call_awardBadge userId badgeId) = written d (awardBadge d userId badgeId)"
| "after js d (Call_addProjectMember projectId userId role) =
     written d (addProjectMember d projectId userId role)"
| "after js d (Call_removeProjectMember projectId userId) =
     removeProjectMember d projectId userId"
| "after js d (Call_createActivity a) = written d (createActivity d a)"
| "after js d (Call_updateUserRole userId role) = written d (updateUserRole d userId role)"
| "after js d (Call_updateUserPoints userId pts) = written d (updateUserPoints d userId pts)"
| "after js d (Call_createTaskComment taskId userId content) =
     written d (createTaskComment d taskId userId content)"
| "after js d (Call_updateTaskComment i content) = snd (updateTaskComment d i content)"
| "after js d (Call_deleteTaskComment i) = deleteTaskComment d i"
| "after js d (Call_createTimeLog timeLog) = written d (createTimeLog js d timeLog)"
| "after js d (Call_createTaskDependency taskId dependsOnTaskId) =
     written d (createTaskDependency d taskId dependsOnTaskId)"

text \<open>The level formula on one row, and what a row says about points and level.\<close>

definition level_ok :: "User \<Rightarrow> bool" where
  "level_ok u = (user_level u = user_points u div 100 + 1)"

definition standing :: "User \<Rightarrow> ident \<times> int \<times> int" where
  "standing u = (user_id u, user_points u, user_level u)"

section \<open>Requests and the activity log\<close>

text \<open>
  The requests that write a project, a board or a task, that comment on a task or record
  a dependency of it. \<open>handle\<close> runs the handler of a request and says whether it
  answered with \<open>res.json\<close> of its result. The first identifier of a request that has an
  actor is the authenticated user.
\<close>

datatype 'body request =
    POST_projects ident 'body
  | PUT_project ident 'body
  | DELETE_project ident
  | POST_boards ident 'body
  | POST_tasks ident ident 'body
  | PUT_task ident ident 'body
  | DELETE_task ident
  | PUT_assign ident ident "ident option option"
  | PUT_transition ident ident "string option" "string option"
  | PUT_labels ident ident "string list option option"
  | POST_comments ident ident "jsstring option"
  | POST_dependencies ident ident "string option"

definition ok :: "'a response \<Rightarrow> bool" where
  "ok r = (case r of Json _ \<Rightarrow> True | Failure _ _ \<Rightarrow> False)"

fun handle ::
  "('body \<Rightarrow> InsertProject option) \<Rightarrow> ('body \<Rightarrow> PartialInsertProject option) \<Rightarrow>
   ('body \<Rightarrow> InsertBoard option) \<Rightarrow> ('body \<Rightarrow> InsertTask option) \<Rightarrow>
   ('body \<Rightarrow> PartialInsertTask option) \<Rightarrow> db \<Rightarrow> 'body request \<Rightarrow> bool \<times> db" where
  "handle pp ppp pb pt ppt d (POST_projects userId body) =
     (case postProject pp d userId body of (r, d') \<Rightarrow> (ok r, d'))"
| "handle pp ppp pb pt ppt d (PUT_project i body) =
     (case putProject ppp d i body of (r, d') \<Rightarrow> (ok r, d'))"
| "handle pp ppp pb pt ppt d (DELETE_project i) =
     (case deleteProjectRoute d i of (r, d') \<Rightarrow> (ok r, d'))"
| "handle pp ppp pb pt ppt d (POST_boards projectId body) =
     (case postBoard pb d projectId body of (r, d') \<Rightarrow> (ok r, d'))"
| "handle pp ppp pb pt ppt d (POST_tasks userId boardId body) =
     (case postTask pt d userId boardId body of (r, d') \<Rightarrow> (ok r, d'))"
| "handle pp ppp pb pt ppt d (PUT_task userId i body) =
     (case putTask ppt d userId i body of (r, d') \<Rightarrow> (ok r, d'))"
| "handle pp ppp pb pt ppt d (DELETE_task i) =
     (case deleteTaskRoute d i of (r, d') \<Rightarrow> (ok r, d'))"
| "handle pp ppp pb pt ppt d (PUT_assign userId i assigneeId) =
     (case assignTask d userId i assigneeId of (r, d') \<Rightarrow> (ok r, d'))"
| "handle pp ppp pb pt ppt d (PUT_transition userId i status comment) =
     (case transitionTask d userId i status comment of (r, d') \<Rightarrow> (ok r, d'))"
| "handle pp ppp pb pt ppt d (PUT_labels userId i labels) =
     (case putLabels d userId i labels of (r, d') \<Rightarrow> (ok r, d'))"
| "handle pp ppp pb pt ppt d (POST_comments userId taskId content) =
     (case postComment d userId taskId content of (r, d') \<Rightarrow> (ok r, d'))"
| "handle pp ppp pb pt ppt d (POST_dependencies userId i dependsOnTaskId) =
     (case postDependency d userId i dependsOnTaskId of (r, d') \<Rightarrow> (ok r, d'))"

text \<open>
  The request took the task from a status other than done to done, and the task then has
  an assignee (a non-empty id) with a row in \<open>users\<close>: the condition under which both
  routes award the points.
\<close>

definition completed_by :: "db \<Rightarrow> db \<Rightarrow> ident \<Rightarrow> bool" where
  "completed_by d d' i =
     (map_option task_status (getTask d i) \<noteq> Some S_done \<and>
      (case getTask d' i of
         None \<Rightarrow> False
       | Some t \<Rightarrow>
           task_status t = S_done \<and>
           (case task_assigneeId t of None \<Rightarrow> False | Some a \<Rightarrow> a \<noteq> [] \<and> user_exists d a)))"

text \<open>
  What a record of the log says about its event: every column but the generated id, the
  time and the user.
\<close>

record Entry =
  entry_type :: string
  entry_description :: string
  entry_metadata :: "jobject option"
  entry_projectId :: "ident option"
  entry_taskId :: "ident option"

definition logged :: "Activity \<Rightarrow> Entry" where
  "logged a =
     \<lparr>entry_type = activity_type a, entry_description = activity_description a,
      entry_metadata = activity_metadata a, entry_projectId = activity_projectId a,
      entry_taskId = activity_taskId a\<rparr>"

section \<open>A small database\<close>

text \<open>
  Two users, one project with its board, and two open tasks assigned to the second user,
  worth 100 and 50 points.
\<close>

definition mk_user :: "ident \<Rightarrow> int \<Rightarrow> int \<Rightarrow> User" where
  "mk_user i pts lvl =
     \<lparr>user_id = i, user_email = None, user_firstName = None, user_lastName = None,
      user_profileImageUrl = None, user_role = R_member, user_bio = None,
      user_country = None, user_sdgAlignment = None, user_points = pts, user_level = lvl,
      user_createdAt = 0, user_updatedAt = 0\<rparr>"

definition mk_task :: "ident \<Rightarrow> string \<Rightarrow> taskStatus \<Rightarrow> ident option \<Rightarrow> int \<Rightarrow> Task" where
  "mk_task i title st assignee reward =
     \<lparr>task_id = i, task_title = title, task_description = None, task_type = T_task,
      task_priority = P_medium, task_status = st, task_boardId = ''b1'',
      task_assigneeId = assignee, task_reporterId = ''u1'', task_labels = None,
      task_estimationHours = None, task_rewardPoints = reward, task_dueDate = None,
      task_sdgLink = None, task_progress = 0, task_createdAt = 2, task_updatedAt = 2\<rparr>"

definition db0 :: db where
  "db0 =
     \<lparr>users = [mk_user ''u1'' 0 1, mk_user ''u3'' 0 1],
      projects = [\<lparr>project_id = ''p1'', project_name = ''Climate Action'',
                   project_description = None, project_visibility = V_public,
                   project_sdgTags = None, project_ownerId = ''u1'',
                   project_createdAt = 1, project_updatedAt = 1\<rparr>],
      boards = [\<lparr>board_id = ''b1'', board_name = ''Main Board'',
                 board_description = Some ''Default project board'',
                 board_projectId = ''p1'', board_columns = default_columns,
                 board_createdAt = 1, board_updatedAt = 1\<rparr>],
      tasks = [mk_task ''t1'' ''Plant trees'' S_todo (Some ''u3'') 100,
               mk_task ''t2'' ''Water trees'' S_todo (Some ''u3'') 50],
      taskDependencies = [],
      badges = [],
      userBadges = [],
      projectMembers = [],
      taskComments = [],
      activities = [],
      clock = 3\<rparr>"

text \<open>The same database with two badges, the first awarded to the second user.\<close>

definition mk_badge :: "ident \<Rightarrow> string \<Rightarrow> bool \<Rightarrow> Badge" where
  "mk_badge i n active =
     \<lparr>badge_id = i, badge_name = n, badge_description = None, badge_icon = None,
      badge_criteria = None, badge_pointsRequired = Some 100, badge_isActive = active,
      badge_createdAt = 2\<rparr>"

definition db_badges :: db where
  "db_badges =
     db0\<lparr>badges := [mk_badge ''g1'' ''Pioneer'' True, mk_badge ''g2'' ''Helper'' True],
         userBadges := [\<lparr>userBadge_id = ''a1'', userBadge_userId = ''u3'',
                         userBadge_badgeId = ''g1'', userBadge_earnedAt = 2\<rparr>]\<rparr>"

text \<open>A search with no filter: the first fifty tasks.\<close>

definition search0 :: SearchParams where
  "search0 =
     \<lparr>sp_query = None, sp_assigneeId = None, sp_reporterId = None, sp_status = None,
      sp_priority = None, sp_type = None, sp_projectId = None, sp_limit = 50, sp_offset = 0\<rparr>"

text \<open>The same database where the first task has a due date and is 40 percent done.\<close>

definition db_due :: db where
  "db_due =
     db0\<lparr>tasks := [(mk_task ''t1'' ''Plant trees'' S_todo (Some ''u3'') 100)
                       \<lparr>task_dueDate := Some 9, task_progress := 40\<rparr>,
                     mk_task ''t2'' ''Water trees'' S_todo (Some ''u3'') 50]\<rparr>"

text \<open>The same database with one more user, whose id is the empty string.\<close>

definition db_anon :: db where
  "db_anon = db0\<lparr>users := users db0 @ [mk_user [] 0 1]\<rparr>"



text \<open>
  Two requests on the small database: each completes one of the two tasks of the second
  user through the generic update (or the transition route). A schedule lets the first
  request run to its end before the second, or lets both read the user before either
  writes the new total.
\<close>

definition update_done :: "ident \<Rightarrow> thread" where
  "update_done i = Put_getTask i (no_changes\<lparr>pit_status := Some ''done''\<rparr>)"

definition transition_done :: "ident \<Rightarrow> thread" where
  "transition_done i = Transition_getTask ''u1'' i (Some ''done'') None"

definition first_then_second :: "nat \<Rightarrow> bool list" where
  "first_then_second n = replicate n True @ replicate n False"

definition second_then_first :: "nat \<Rightarrow> bool list" where
  "second_then_first n = replicate n False @ replicate n True"

definition both_read_first_writes_first :: "nat \<Rightarrow> bool list" where
  "both_read_first_writes_first n =
     replicate n True @ replicate n False @ [True, True, False, False]"

definition both_read_second_writes_first :: "nat \<Rightarrow> bool list" where
  "both_read_second_writes_first n =
     replicate n True @ replicate n False @ [False, False, True, True]"

text \<open>The points of the second user and the two responses when a schedule is over.\<close>

definition outcome :: "thread \<times> thread \<times> db \<Rightarrow> int option \<times> bool \<times> bool" where
  "outcome c =
     (case c of (t1, t2, d) \<Rightarrow>
        (points_of d ''u3'',
         (case t1 of Responded (Json _) \<Rightarrow> True | _ \<Rightarrow> False),
         (case t2 of Responded (Json _) \<Rightarrow> True | _ \<Rightarrow> False)))"

section \<open>Facts about the storage layer\<close>

lemma foldr_max_length:
  "s \<in> set used \<Longrightarrow> length s \<le> foldr (\<lambda>s n. max (length s) n) used 0"
  by (induction used) auto

lemma gen_random_uuid_fresh: "gen_random_uuid used \<notin> set used"
proof
  assume "gen_random_uuid used \<in> set used"
  from foldr_max_length [OF this] show False
    by (simp add: gen_random_uuid_def)
qed

lemma getUser_Some: "getUser d i = Some u \<Longrightarrow> user_id u = i \<and> u \<in> set (users d)"
  unfolding getUser_def by (auto simp: find_Some_iff)

lemma getUser_None: "getUser d i = None \<longleftrightarrow> \<not> user_exists d i"
  unfolding getUser_def user_exists_def by (auto simp: find_None_iff)

lemma getTask_Some: "getTask d i = Some t \<Longrightarrow> task_id t = i \<and> t \<in> set (tasks d)"
  unfolding getTask_def by (auto simp: find_Some_iff)


lemma find_map_upd:
  "find (\<lambda>x. k x = i) xs = Some y \<Longrightarrow> (\<And>x. k (f x) = k x) \<Longrightarrow>
   find (\<lambda>x. k x = i) (map (\<lambda>x. if k x = i then f x else x) xs) = Some (f y)"
  by (induction xs) (auto split: if_splits)


lemma find_map_upd_None:
  "find (\<lambda>x. k x = i) xs = None \<Longrightarrow> map (\<lambda>x. if k x = i then f x else x) xs = xs"
  by (induction xs) (auto split: if_splits)

lemma map_key_map_upd:
  "(\<And>x. k (f x) = k x) \<Longrightarrow> map k (map (\<lambda>x. if k x = i then f x else x) xs) = map k xs"
  by (induction xs) auto

lemma int4_level: "int4 pts \<Longrightarrow> int4 (pts div 100 + 1)"
  unfolding int4_def by presburger

lemma varchar_short: "length s \<le> n \<Longrightarrow> varchar n s = Some s"
  by (simp add: varchar_def)

lemma bind_task_Inr:
  assumes "bind_task p = Inr q"
  shows "q = p\<lparr>pit_title := pit_title q\<rparr> \<and>
         (case pit_status p of None \<Rightarrow> True | Some s \<Rightarrow> taskStatus_of s \<noteq> None)"
  using assms unfolding bind_task_def
  by (auto split: if_splits option.splits)

lemma bind_task_fields:
  assumes "bind_task p = Inr q"
  shows "pit_status q = pit_status p" "pit_assigneeId q = pit_assigneeId p"
        "pit_rewardPoints q = pit_rewardPoints p" "pit_boardId q = pit_boardId p"
        "pit_reporterId q = pit_reporterId p" "pit_labels q = pit_labels p"
proof -
  from bind_task_Inr [OF assms] have q: "q = p\<lparr>pit_title := pit_title q\<rparr>" by simp
  show "pit_status q = pit_status p" by (subst q) simp
  show "pit_assigneeId q = pit_assigneeId p" by (subst q) simp
  show "pit_rewardPoints q = pit_rewardPoints p" by (subst q) simp
  show "pit_boardId q = pit_boardId p" by (subst q) simp
  show "pit_reporterId q = pit_reporterId p" by (subst q) simp
  show "pit_labels q = pit_labels p" by (subst q) simp
qed

lemma bind_task_untitled:
  assumes "pit_title p = None"
      and "case pit_status p of None \<Rightarrow> True | Some s \<Rightarrow> taskStatus_of s \<noteq> None"
      and "pit_estimationHours p = None" "pit_rewardPoints p = None" "pit_progress p = None"
  shows "bind_task p = Inr p"
  using assms unfolding bind_task_def
  by (auto simp: int4_opt_def varchar_opt_def split: option.splits)

lemma updateTask_Inr:
  assumes "updateTask d i p = Inr (Some t, d1)"
  shows "\<exists>old q. bind_task p = Inr q \<and> getTask d i = Some old \<and> t = set_task q (clock d) old \<and>
           d1 = d\<lparr>tasks := map (\<lambda>x. if task_id x = i then set_task q (clock d) x else x) (tasks d),
                  clock := Suc (clock d)\<rparr>"
  using assms unfolding updateTask_def
  by (auto split: if_splits option.splits sum.splits simp: Let_def)

lemma updateTask_Inr_None:
  assumes "updateTask d i p = Inr (None, d1)"
  shows "d1 = d \<and> getTask d i = None"
  using assms unfolding updateTask_def
  by (auto split: if_splits option.splits sum.splits simp: Let_def)

lemma createActivity_Inr:
  assumes "createActivity d a = Inr (r, d1)"
  shows "d1 = d\<lparr>activities := activities d @ [r], clock := Suc (clock d)\<rparr> \<and>
         user_exists d (ia_userId a) \<and> activity_userId r = ia_userId a \<and>
         activity_type r = ia_type a \<and> activity_description r = ia_description a \<and>
         activity_metadata r = ia_metadata a \<and> activity_projectId r = ia_projectId a \<and>
         activity_taskId r = ia_taskId a"
  using assms unfolding createActivity_def insert_activities_def
  by (auto split: if_splits simp: Let_def)


lemma createActivity_Inl:
  "createActivity d a = Inl e \<Longrightarrow>
     \<not> user_exists d (ia_userId a) \<or> \<not> ref_ok (project_exists d) (ia_projectId a) \<or>
     \<not> ref_ok (task_exists d) (ia_taskId a)"
  unfolding createActivity_def insert_activities_def
  by (auto split: if_splits simp: Let_def)

lemma set_task_id [simp]: "task_id (set_task p now t) = task_id t"
  by (simp add: set_task_def)

lemma set_task_status_only:
  "set_task (no_changes\<lparr>pit_status := Some ''done''\<rparr>) now t =
     t\<lparr>task_status := S_done, task_updatedAt := now\<rparr>"
  by (simp add: set_task_def no_changes_def upd_def)

lemma updateUserPoints_Inl:
  "updateUserPoints d a pts = Inl e \<Longrightarrow> \<not> int4 pts \<and> e = NumericValueOutOfRange"
  unfolding updateUserPoints_def using int4_level [of pts]
  by (auto split: if_splits simp: Let_def)

lemma updateUserPoints_int4:
  "int4 pts \<Longrightarrow> \<exists>r d'. updateUserPoints d a pts = Inr (r, d')"
  unfolding updateUserPoints_def using int4_level [of pts]
  by (simp add: Let_def)

lemma updateUserPoints_Inr:
  assumes "updateUserPoints d a pts = Inr (r, d')"
  shows "int4 pts"
    and "users d' =
           map (\<lambda>u. if user_id u = a
                     then u\<lparr>user_points := pts, user_level := pts div 100 + 1,
                            user_updatedAt := clock d\<rparr>
                     else u) (users d)"
    and "d'\<lparr>users := users d, clock := clock d\<rparr> = d"
    and "clock d' = Suc (clock d)"
    and "r = map_option (\<lambda>u. u\<lparr>user_points := pts, user_level := pts div 100 + 1,
                                     user_updatedAt := clock d\<rparr>) (getUser d a)"
  using assms unfolding updateUserPoints_def
  by (auto split: if_splits simp: Let_def)

lemma frame_updateUserPoints:
  assumes "updateUserPoints d a pts = Inr (r, d')"
  shows "tasks d' = tasks d" "activities d' = activities d" "projects d' = projects d"
        "boards d' = boards d"
  using assms unfolding updateUserPoints_def
  by (auto split: if_splits simp: Let_def)





lemma updateTask_succeeds:
  assumes "getTask d i = Some old"
      and "bind_task p = Inr q"
      and "ref_ok (board_exists d) (pit_boardId p)"
      and "ref_ok (user_exists d) (Option.bind (pit_assigneeId p) (\<lambda>a. a))"
      and "ref_ok (user_exists d) (pit_reporterId p)"
  shows "updateTask d i p =
           Inr (Some (set_task q (clock d) old),
                d\<lparr>tasks := map (\<lambda>x. if task_id x = i then set_task q (clock d) x else x) (tasks d),
                  clock := Suc (clock d)\<rparr>)"
  using assms bind_task_fields [OF assms(2)] unfolding updateTask_def
  by (auto simp: Let_def split: option.splits)

lemma no_changes_sel [simp]:
  "pit_title no_changes = None" "pit_description no_changes = None"
  "pit_type no_changes = None" "pit_priority no_changes = None"
  "pit_status no_changes = None" "pit_boardId no_changes = None"
  "pit_assigneeId no_changes = None" "pit_reporterId no_changes = None"
  "pit_labels no_changes = None" "pit_estimationHours no_changes = None"
  "pit_rewardPoints no_changes = None" "pit_dueDate no_changes = None"
  "pit_sdgLink no_changes = None" "pit_progress no_changes = None"
  by (simp_all add: no_changes_def)

lemma task_ids_after_update:
  "map task_id (map (\<lambda>x. if task_id x = i then set_task p now x else x) ts) = map task_id ts"
  by (rule map_key_map_upd) simp

lemma task_exists_after_update:
  "task_exists (d\<lparr>tasks := map (\<lambda>x. if task_id x = i then set_task p now x else x) (tasks d),
                 clock := c\<rparr>) j = task_exists d j"
proof -
  have "tasks (d\<lparr>tasks := map (\<lambda>x. if task_id x = i then set_task p now x else x) (tasks d),
                 clock := c\<rparr>) = map (\<lambda>x. if task_id x = i then set_task p now x else x) (tasks d)"
    by simp
  then show ?thesis
    unfolding task_exists_def by (simp only: task_ids_after_update)
qed

lemma getTask_after_update:
  "getTask d i = Some old \<Longrightarrow>
   getTask (d\<lparr>tasks := map (\<lambda>x. if task_id x = i then set_task p now x else x) (tasks d),
              clock := c\<rparr>) i = Some (set_task p now old)"
  unfolding getTask_def
  by (simp add: find_map_upd [where k = task_id])

lemma bind_task_done:
  "bind_task (no_changes\<lparr>pit_status := Some ''done''\<rparr>) = Inr (no_changes\<lparr>pit_status := Some ''done''\<rparr>)"
  by (rule bind_task_untitled) simp_all





section \<open>The claims\<close>

subsection \<open>Points for a completed task\<close>






subsection \<open>The level formula\<close>

lemma written_simps [simp]:
  "written d (Inl e) = d" "written d (Inr (x, d')) = d'"
  by (simp_all add: written_def)

lemma users_createProject: "users (written d (createProject d p)) = users d"
  by (auto simp: written_def createProject_def Let_def split: option.splits)

lemma users_updateProject: "users (written d (updateProject d i p)) = users d"
  by (auto simp: written_def updateProject_def Let_def split: option.splits)

lemma users_deleteProject:
  "users (case deleteProject d i of Inl e \<Rightarrow> d | Inr d' \<Rightarrow> d') = users d"
  by (auto simp: deleteProject_def)

lemma users_createBoard: "users (written d (createBoard d b)) = users d"
  by (auto simp: written_def createBoard_def Let_def split: option.splits)

lemma users_updateBoard: "users (written d (updateBoard d i b)) = users d"
  by (auto simp: written_def updateBoard_def Let_def split: option.splits)

lemma users_createTask: "users (written d (createTask d t)) = users d"
  by (auto simp: written_def createTask_def Let_def split: option.splits)

lemma users_updateTask: "users (written d (updateTask d i p)) = users d"
  by (auto simp: written_def updateTask_def Let_def split: option.splits sum.splits)

lemma users_deleteTask:
  "users (case deleteTask d i of Inl e \<Rightarrow> d | Inr d' \<Rightarrow> d') = users d"
  by (auto simp: deleteTask_def)

lemma users_createBadge: "users (written d (createBadge d b)) = users d"
  by (auto simp: written_def createBadge_def Let_def split: option.splits)

lemma users_updateBadge: "users (written d (updateBadge d i b)) = users d"
  by (auto simp: written_def updateBadge_def Let_def split: option.splits)

lemma users_deleteBadge: "users (deleteBadge d i) = users d"
  by (simp add: deleteBadge_def)

lemma users_awardBadge: "users (written d (awardBadge d u b)) = users d"
  by (auto simp: written_def awardBadge_def Let_def)

lemma users_addProjectMember: "users (written d (addProjectMember d p u r)) = users d"
  by (auto simp: written_def addProjectMember_def Let_def)

lemma users_removeProjectMember: "users (removeProjectMember d p u) = users d"
  by (simp add: removeProjectMember_def)

lemma users_insert_activities: "users (written d (insert_activities d a)) = users d"
  by (auto simp: written_def insert_activities_def Let_def)

lemma users_createActivity: "users (written d (createActivity d a)) = users d"
  by (simp add: createActivity_def users_insert_activities)

lemma users_createTaskComment: "users (written d (createTaskComment d t u c)) = users d"
  by (auto simp: written_def createTaskComment_def Let_def)

lemma users_updateTaskComment: "users (snd (updateTaskComment d i c)) = users d"
  by (simp add: updateTaskComment_def Let_def)

lemma users_deleteTaskComment: "users (deleteTaskComment d i) = users d"
  by (simp add: deleteTaskComment_def)

lemma users_createTimeLog: "users (written d (createTimeLog js d timeLog)) = users d"
proof (cases "date_toISOString js (tl_date timeLog)")
  case None
  then show ?thesis by (simp add: createTimeLog_def)
next
  case (Some s)
  show ?thesis
    using users_insert_activities
      [of d "\<lparr>ia_userId = tl_userId timeLog,
                   ia_type = ''time_logged'',
                   ia_description =
                     ''Logged '' @ number_toString js (tl_timeSpent timeLog) @ '' hours'' @
                     (if truthy (tl_description timeLog)
                      then '': '' @ upd (tl_description timeLog) [] else []),
                   ia_metadata = Some (
                     [(''timeSpent'', number_toJSON js (tl_timeSpent timeLog))] @
                     (case tl_description timeLog of None \<Rightarrow> []
                      | Some v \<Rightarrow> [(''description'', JString v)]) @
                     [(''date'', JString s)]),
                   ia_projectId = None,
                   ia_taskId = Some (tl_taskId timeLog)\<rparr>"]
    unfolding createTimeLog_def Some
    by (auto simp: written_def split: sum.splits)
qed

lemma users_createTaskDependency: "users (written d (createTaskDependency d t x)) = users d"
  using users_insert_activities
      [of d "\<lparr>ia_userId = [],
              ia_type = ''dependency_created'',
              ia_description = ''Task dependency created'',
              ia_metadata = Some [(''dependsOnTaskId'', JString x)],
              ia_projectId = None,
              ia_taskId = Some t\<rparr>"]
  unfolding createTaskDependency_def
  by (auto simp: written_def split: sum.splits)

lemmas users_unchanged =
  users_createProject users_updateProject users_deleteProject users_createBoard
  users_updateBoard users_createTask users_updateTask users_deleteTask users_createBadge
  users_updateBadge users_deleteBadge users_awardBadge users_addProjectMember
  users_removeProjectMember users_createActivity users_createTaskComment
  users_updateTaskComment users_deleteTaskComment users_createTimeLog
  users_createTaskDependency

lemma standing_upsertUser:
  assumes "upsertUser d userData = Inr (u, d')"
  shows "(getUser d (user_id u) = None \<and> user_points u = 0 \<and> user_level u = 1 \<and>
          map standing (users d') = map standing (users d) @ [(user_id u, 0, 1)]) \<or>
         (getUser d (user_id u) \<noteq> None \<and> map standing (users d') = map standing (users d))"
proof -
  define i where "i = (case uu_id userData of None \<Rightarrow> gen_random_uuid (map user_id (users d)) | Some v \<Rightarrow> v)"
  show ?thesis
  proof (cases "getUser d i")
    case None
    with assms show ?thesis
      unfolding upsertUser_def i_def [symmetric]
      by (auto simp: Let_def standing_def split: if_splits)
  next
    case (Some old)
    have id: "user_id old = i" using getUser_Some [OF Some] by simp
    from assms Some id show ?thesis
      unfolding upsertUser_def i_def [symmetric]
      by (auto simp: Let_def standing_def split: if_splits)
  qed
qed

lemma standing_updateUserRole:
  "map standing (users (written d (updateUserRole d i r))) = map standing (users d)"
  by (simp add: updateUserRole_def Let_def standing_def)

lemma standing_after:
  assumes "\<forall>i p. c \<noteq> Call_updateUserPoints i p"
  shows "\<exists>new. map standing (users (after js d c)) = map standing (users d) @ new \<and>
               (\<forall>s \<in> set new. snd s = (0, 1))"
proof (cases c)
  case (Call_upsertUser userData)
  then show ?thesis
    using standing_upsertUser [of d userData]
    by (auto simp: written_def split: sum.splits)
next
  case (Call_updateUserRole i r)
  then show ?thesis by (simp add: standing_updateUserRole)
next
  case (Call_updateUserPoints i p)
  then show ?thesis using assms by simp
qed (simp_all add: users_unchanged)

lemma level_ok_standing:
  "map standing xs = map standing ys @ new \<Longrightarrow> \<forall>s \<in> set new. snd s = (0, 1) \<Longrightarrow>
   \<forall>x \<in> set ys. level_ok x \<Longrightarrow> x \<in> set xs \<Longrightarrow> level_ok x"
proof -
  assume eq: "map standing xs = map standing ys @ new" and new: "\<forall>s \<in> set new. snd s = (0, 1)"
     and ys: "\<forall>x \<in> set ys. level_ok x" and x: "x \<in> set xs"
  from x have "standing x \<in> set (map standing xs)" by simp
  then have "standing x \<in> standing ` set ys \<or> standing x \<in> set new" unfolding eq by auto
  then show "level_ok x"
  proof
    assume "standing x \<in> standing ` set ys"
    then obtain y where "y \<in> set ys" "standing x = standing y" by auto
    with ys show ?thesis by (auto simp: level_ok_def standing_def)
  next
    assume "standing x \<in> set new"
    with new have "snd (standing x) = (0, 1)" by blast
    then show ?thesis by (simp add: level_ok_def standing_def)
  qed
qed

lemma updateUserPoints_rows:
  assumes run: "updateUserPoints d userId pts = Inr (r, d')" and x: "x \<in> set (users d')"
  shows "if user_id x = userId
         then user_points x = pts \<and> user_level x = pts div 100 + 1
         else x \<in> set (users d)"
proof -
  define f :: "User \<Rightarrow> User" where "f = (\<lambda>u. u\<lparr>user_points := pts, user_level := pts div 100 + 1,
                      user_updatedAt := clock d\<rparr>)"
  from x obtain u where u: "u \<in> set (users d)"
    and xu: "x = (if user_id u = userId then f u else u)"
    unfolding updateUserPoints_Inr(2) [OF run] f_def by (auto simp only: set_map image_iff)
  have id: "user_id (f u) = user_id u" by (simp add: f_def)
  show ?thesis
  proof (cases "user_id u = userId")
    case True
    then have "x = f u" using xu by simp
    then show ?thesis using True by (simp add: f_def)
  next
    case False
    then have "x = u" using xu by simp
    then show ?thesis using False u by simp
  qed
qed

lemma updateUserPoints_returns:
  assumes "updateUserPoints d userId pts = Inr (Some x, d')"
  shows "user_points x = pts \<and> user_level x = pts div 100 + 1"
proof -
  from updateUserPoints_Inr(5) [OF assms] obtain u where
    "x = u\<lparr>user_points := pts, user_level := pts div 100 + 1, user_updatedAt := clock d\<rparr>"
    by (cases "getUser d userId") auto
  then show ?thesis by simp
qed

lemma level_ok_updateUserPoints:
  assumes inv: "\<forall>x \<in> set (users d). level_ok x"
  shows "\<forall>x \<in> set (users (written d (updateUserPoints d userId pts))). level_ok x"
proof (cases "updateUserPoints d userId pts")
  case (Inl e)
  then show ?thesis using inv by simp
next
  case (Inr p)
  obtain r d' where p: "p = (r, d')" by (cases p)
  show ?thesis
  proof
    fix x assume "x \<in> set (users (written d (updateUserPoints d userId pts)))"
    then have x: "x \<in> set (users d')" by (simp add: Inr p)
    from updateUserPoints_rows [OF Inr [unfolded p] x] inv show "level_ok x"
      by (cases "user_id x = userId") (simp_all add: level_ok_def)
  qed
qed

lemma fresh_user:
  assumes "upsertUser d userData = Inr (u, d')" and "getUser d (user_id u) = None"
  shows "user_points u = 0 \<and> user_level u = 1"
  using standing_upsertUser [OF assms(1)] assms(2) by simp

text \<open>
  C2. A user row created by \<open>upsertUser\<close> starts with 0 points at level 1.
  \<open>updateUserPoints\<close> is accepted exactly when the points are a number of the 32-bit
  column; it then writes the points together with the level \<open>points div 100 + 1\<close>, on the
  rows with the id and in what it returns, and leaves the other rows as they are;
  otherwise it throws and writes nothing. Any other writing call of the storage layer
  leaves the points and the level of every existing row as they are and adds at most rows
  with 0 points at level 1. Hence, if every row satisfies \<open>level = points div 100 + 1\<close>
  before a call, every row does after it.
\<close>

theorem level_formula_invariant:
  "(case upsertUser d userData of
      Inl e \<Rightarrow> True
    | Inr (u, d') \<Rightarrow> getUser d (user_id u) = None \<longrightarrow> user_points u = 0 \<and> user_level u = 1) \<and>
   (case updateUserPoints d userId pts of
      Inl e \<Rightarrow> \<not> int4 pts
    | Inr (r, d') \<Rightarrow>
        int4 pts \<and>
        (\<forall>x \<in> set (users d').
           if user_id x = userId
           then user_points x = pts \<and> user_level x = pts div 100 + 1
           else x \<in> set (users d)) \<and>
        (\<forall>x. r = Some x \<longrightarrow> user_points x = pts \<and> user_level x = pts div 100 + 1)) \<and>
   ((\<forall>i p. c \<noteq> Call_updateUserPoints i p) \<longrightarrow>
      (\<exists>new. map standing (users (after js d c)) = map standing (users d) @ new \<and>
             (\<forall>s \<in> set new. snd s = (0, 1)))) \<and>
   ((\<forall>x \<in> set (users d). level_ok x) \<longrightarrow> (\<forall>x \<in> set (users (after js d c)). level_ok x))"
proof (intro conjI)
  show "case upsertUser d userData of
      Inl e \<Rightarrow> True
    | Inr (u, d') \<Rightarrow> getUser d (user_id u) = None \<longrightarrow> user_points u = 0 \<and> user_level u = 1"
  proof (cases "upsertUser d userData")
    case (Inl e)
    then show ?thesis by simp
  next
    case (Inr r)
    obtain u d' where r: "r = (u, d')" by (cases r)
    show ?thesis unfolding Inr r using fresh_user [OF Inr [unfolded r]] by simp
  qed
next
  show "case updateUserPoints d userId pts of
      Inl e \<Rightarrow> \<not> int4 pts
    | Inr (r, d') \<Rightarrow>
        int4 pts \<and>
        (\<forall>x \<in> set (users d').
           if user_id x = userId
           then user_points x = pts \<and> user_level x = pts div 100 + 1
           else x \<in> set (users d)) \<and>
        (\<forall>x. r = Some x \<longrightarrow> user_points x = pts \<and> user_level x = pts div 100 + 1)"
  proof (cases "updateUserPoints d userId pts")
    case (Inl e)
    then show ?thesis using updateUserPoints_Inl [OF Inl] by simp
  next
    case (Inr p)
    obtain r d' where p: "p = (r, d')" by (cases p)
    note run = Inr [unfolded p]
    have 1: "int4 pts" by (rule updateUserPoints_Inr(1) [OF run])
    have 2: "\<forall>x \<in> set (users d').
           if user_id x = userId
           then user_points x = pts \<and> user_level x = pts div 100 + 1
           else x \<in> set (users d)"
      by (intro ballI) (rule updateUserPoints_rows [OF run])
    have 3: "\<forall>x. r = Some x \<longrightarrow> user_points x = pts \<and> user_level x = pts div 100 + 1"
      using updateUserPoints_returns [of d userId pts _ d'] run by blast
    show ?thesis unfolding Inr p using 1 2 3 by simp
  qed
next
  show "(\<forall>i p. c \<noteq> Call_updateUserPoints i p) \<longrightarrow>
      (\<exists>new. map standing (users (after js d c)) = map standing (users d) @ new \<and>
             (\<forall>s \<in> set new. snd s = (0, 1)))"
    by (intro impI) (rule standing_after)
next
  show "(\<forall>x \<in> set (users d). level_ok x) \<longrightarrow> (\<forall>x \<in> set (users (after js d c)). level_ok x)"
  proof (intro impI)
    assume inv: "\<forall>x \<in> set (users d). level_ok x"
    show "\<forall>x \<in> set (users (after js d c)). level_ok x"
    proof (cases "\<exists>i p. c = Call_updateUserPoints i p")
      case True
      then obtain i p where "c = Call_updateUserPoints i p" by auto
      then show ?thesis using level_ok_updateUserPoints [OF inv] by simp
    next
      case False
      then have "\<forall>i p. c \<noteq> Call_updateUserPoints i p" by simp
      from standing_after [OF this, of js d] obtain new where
        n: "map standing (users (after js d c)) = map standing (users d) @ new"
           "\<forall>s \<in> set new. snd s = (0, 1)"
        by auto
      show ?thesis
      proof
        fix x assume "x \<in> set (users (after js d c))"
        from level_ok_standing [OF n inv this] show "level_ok x" .
      qed
    qed
  qed
qed

theorem level_formula_invariant_witness:
  "(\<exists>u d'. upsertUser db0 \<lparr>uu_id = Some ''u9'', uu_email = None, uu_firstName = None,
                            uu_lastName = None, uu_profileImageUrl = None\<rparr> = Inr (u, d') \<and>
            getUser db0 (user_id u) = None \<and> user_points u = 0 \<and> user_level u = 1) \<and>
   (\<exists>r d'. updateUserPoints db0 ''u3'' 250 = Inr (r, d') \<and> int4 250 \<and>
            list_all (\<lambda>x. if user_id x = ''u3'' then user_points x = 250 \<and> user_level x = 3
                           else x \<in> set (users db0)) (users d')) \<and>
   (\<exists>e. updateUserPoints db0 ''u3'' 2147483648 = Inl e) \<and>
   \<not> int4 2147483648 \<and>
   list_all level_ok (users db0) \<and>
   list_all level_ok
     (users (after \<lparr>number_toString = show_int, number_toJSON = JNumber,
                    date_toISOString = (\<lambda>t. Some (show_nat t))\<rparr>
               db0 (Call_updateUserPoints ''u3'' 250))) \<and>
   list_all level_ok
     (users (after \<lparr>number_toString = show_int, number_toJSON = JNumber,
                    date_toISOString = (\<lambda>t. Some (show_nat t))\<rparr>
               db0 (Call_updateUserRole ''u3'' (Some ''admin''))))"
proof -
  let ?nu = "\<lparr>uu_id = Some ''u9'', uu_email = None, uu_firstName = None,
              uu_lastName = None, uu_profileImageUrl = None\<rparr>"
  let ?js = "\<lparr>number_toString = show_int, number_toJSON = JNumber,
              date_toISOString = (\<lambda>t. Some (show_nat t))\<rparr>"
  note i1 = level_formula_invariant
    [where d = db0 and userData = ?nu and userId = "''u3''" and pts = 250 and
       c = "Call_updateUserPoints ''u3'' 250" and js = ?js]
  note i2 = level_formula_invariant
    [where d = db0 and userData = ?nu and userId = "''u3''" and pts = 2147483648 and
       c = "Call_updateUserRole ''u3'' (Some ''admin'')" and js = ?js]
  have fresh: "getUser db0 ''u9'' = None"
    by (simp add: db0_def getUser_def mk_user_def)
  obtain u d' where ud: "upsertUser db0 ?nu = Inr (u, d')" and id: "user_id u = ''u9''"
    by (simp add: upsertUser_def fresh Let_def email_taken_def upd_def)
  from i1 ud fresh id have a: "user_points u = 0 \<and> user_level u = 1" by simp
  have f: "int4 250" by (simp add: int4_def)
  from updateUserPoints_int4 [OF f] obtain r d2 where
    run: "updateUserPoints db0 ''u3'' 250 = Inr (r, d2)" by blast
  from i1 have "\<forall>x \<in> set (users d2).
           if user_id x = ''u3''
           then user_points x = 250 \<and> user_level x = 250 div 100 + 1
           else x \<in> set (users db0)"
    unfolding run by simp
  then have b: "list_all (\<lambda>x. if user_id x = ''u3'' then user_points x = 250 \<and> user_level x = 3
                           else x \<in> set (users db0)) (users d2)"
    by (simp add: list_all_iff)
  have n: "\<not> int4 2147483648" by (simp add: int4_def)
  from i2 n obtain e where rej: "updateUserPoints db0 ''u3'' 2147483648 = Inl e"
    by (cases "updateUserPoints db0 ''u3'' 2147483648") auto
  have inv0: "\<forall>x \<in> set (users db0). level_ok x"
    by (simp add: db0_def mk_user_def level_ok_def)
  from i1 inv0 have c: "\<forall>x \<in> set (users (after ?js db0 (Call_updateUserPoints ''u3'' 250))). level_ok x"
    by blast
  from i2 inv0 have d: "\<forall>x \<in> set (users (after ?js db0 (Call_updateUserRole ''u3'' (Some ''admin'')))). level_ok x"
    by blast
  have 1: "\<exists>u d'. upsertUser db0 ?nu = Inr (u, d') \<and>
            getUser db0 (user_id u) = None \<and> user_points u = 0 \<and> user_level u = 1"
    using ud fresh id a by (intro exI [of _ u] exI [of _ d']) simp
  have 2: "\<exists>r d'. updateUserPoints db0 ''u3'' 250 = Inr (r, d') \<and> int4 250 \<and>
            list_all (\<lambda>x. if user_id x = ''u3'' then user_points x = 250 \<and> user_level x = 3
                           else x \<in> set (users db0)) (users d')"
    using run f b by (intro exI [of _ r] exI [of _ d2] conjI)
  have 3: "\<exists>e. updateUserPoints db0 ''u3'' 2147483648 = Inl e" using rej by (intro exI)
  show ?thesis
    using 1 2 3 n inv0 c d unfolding list_all_iff by (intro conjI)
qed

text \<open>
  On the small database the call with 2147483648 points, one more than the column holds,
  throws: the row of the user keeps 0 points at level 1, where the claim has the call
  write the points and level 21474837.
\<close>

theorem level_write_rejected_counterexample:
  "updateUserPoints db0 ''u3'' 2147483648 = Inl NumericValueOutOfRange \<and>
   map standing (users (after \<lparr>number_toString = show_int, number_toJSON = JNumber,
                                date_toISOString = (\<lambda>t. Some (show_nat t))\<rparr>
                          db0 (Call_updateUserPoints ''u3'' 2147483648))) =
     [(''u1'', 0, 1), (''u3'', 0, 1)] \<and>
   2147483648 div 100 + 1 = (21474837 :: int)"
  by code_simp

subsection \<open>Deactivating a badge\<close>

lemma in_set_map: "x \<in> set xs \<Longrightarrow> f x \<in> set (map f xs)"
  by auto

lemma badges_deleteBadge:
  "badges (deleteBadge d i) =
     map (\<lambda>b. if badge_id b = i then b\<lparr>badge_isActive := False\<rparr> else b) (badges d)"
  by (simp add: deleteBadge_def)

lemma deleteBadge_frame: "(deleteBadge d i)\<lparr>badges := badges d\<rparr> = d"
  by (simp add: deleteBadge_def)

lemma getBadges_set:
  "set (getBadges d) = {b \<in> set (badges d). badge_isActive b}"
  by (auto simp: getBadges_def)

text \<open>
  C6. \<open>deleteBadge\<close> on the id of a badge \<open>B\<close> leaves in the table the row \<open>B\<close> with
  \<open>isActive\<close> false and every other field as it was; no row with that id is in the
  result of \<open>getBadges\<close>, which holds exactly the active rows; the ids of the table, the
  rows with another id, the table \<open>userBadges\<close> and every other table are unchanged.
\<close>

theorem deleteBadge_deactivates:
  "(\<forall>B \<in> set (badges d). badge_id B = i \<longrightarrow>
      B\<lparr>badge_isActive := False\<rparr> \<in> set (badges (deleteBadge d i))) \<and>
   getBadge (deleteBadge d i) i =
     map_option (\<lambda>B. B\<lparr>badge_isActive := False\<rparr>) (getBadge d i) \<and>
   (\<forall>b \<in> set (getBadges (deleteBadge d i)). badge_id b \<noteq> i) \<and>
   set (getBadges d) = {b \<in> set (badges d). badge_isActive b} \<and>
   map badge_id (badges (deleteBadge d i)) = map badge_id (badges d) \<and>
   (\<forall>B \<in> set (badges d). badge_id B \<noteq> i \<longrightarrow> B \<in> set (badges (deleteBadge d i))) \<and>
   userBadges (deleteBadge d i) = userBadges d \<and>
   (deleteBadge d i)\<lparr>badges := badges d\<rparr> = d"
proof (intro conjI)
  show "\<forall>B \<in> set (badges d). badge_id B = i \<longrightarrow>
      B\<lparr>badge_isActive := False\<rparr> \<in> set (badges (deleteBadge d i))"
  proof (intro ballI impI)
    fix B assume "B \<in> set (badges d)" "badge_id B = i"
    then have "(\<lambda>b. if badge_id b = i then b\<lparr>badge_isActive := False\<rparr> else b) B
                 \<in> set (badges (deleteBadge d i))"
      unfolding badges_deleteBadge by (intro in_set_map)
    then show "B\<lparr>badge_isActive := False\<rparr> \<in> set (badges (deleteBadge d i))"
      using \<open>badge_id B = i\<close> by simp
  qed
next
  show "getBadge (deleteBadge d i) i =
     map_option (\<lambda>B. B\<lparr>badge_isActive := False\<rparr>) (getBadge d i)"
  proof (cases "getBadge d i")
    case None
    then show ?thesis
      unfolding getBadge_def badges_deleteBadge
      by (simp add: find_map_upd_None [where k = badge_id])
  next
    case (Some B)
    then show ?thesis
      unfolding getBadge_def badges_deleteBadge
      by (simp add: find_map_upd [where k = badge_id])
  qed
next
  show "\<forall>b \<in> set (getBadges (deleteBadge d i)). badge_id b \<noteq> i"
  proof
    fix b assume "b \<in> set (getBadges (deleteBadge d i))"
    then have act: "badge_isActive b" and "b \<in> set (badges (deleteBadge d i))"
      unfolding getBadges_set by simp_all
    then obtain B where B: "B \<in> set (badges d)"
      and b: "b = (if badge_id B = i then B\<lparr>badge_isActive := False\<rparr> else B)"
      unfolding badges_deleteBadge by (auto simp only: set_map image_iff)
    show "badge_id b \<noteq> i"
    proof (cases "badge_id B = i")
      case True
      then show ?thesis using b act by simp
    next
      case False
      then show ?thesis using b by simp
    qed
  qed
next
  show "set (getBadges d) = {b \<in> set (badges d). badge_isActive b}" by (rule getBadges_set)
next
  show "map badge_id (badges (deleteBadge d i)) = map badge_id (badges d)"
    unfolding badges_deleteBadge by (rule map_key_map_upd) simp
next
  show "\<forall>B \<in> set (badges d). badge_id B \<noteq> i \<longrightarrow> B \<in> set (badges (deleteBadge d i))"
  proof (intro ballI impI)
    fix B assume "B \<in> set (badges d)" "badge_id B \<noteq> i"
    then have "(\<lambda>b. if badge_id b = i then b\<lparr>badge_isActive := False\<rparr> else b) B
                 \<in> set (badges (deleteBadge d i))"
      unfolding badges_deleteBadge by (intro in_set_map)
    then show "B \<in> set (badges (deleteBadge d i))"
      using \<open>badge_id B \<noteq> i\<close> by simp
  qed
next
  show "userBadges (deleteBadge d i) = userBadges d" by (simp add: deleteBadge_def)
next
  show "(deleteBadge d i)\<lparr>badges := badges d\<rparr> = d" by (rule deleteBadge_frame)
qed

theorem deleteBadge_deactivates_witness:
  "mk_badge ''g1'' ''Pioneer'' True \<in> set (badges db_badges) \<and>
   badge_id (mk_badge ''g1'' ''Pioneer'' True) = ''g1'' \<and>
   mk_badge ''g1'' ''Pioneer'' True \<in> set (getBadges db_badges) \<and>
   mk_badge ''g1'' ''Pioneer'' False \<in> set (badges (deleteBadge db_badges ''g1'')) \<and>
   map badge_id (getBadges (deleteBadge db_badges ''g1'')) = [''g2''] \<and>
   mk_badge ''g2'' ''Helper'' True \<in> set (badges (deleteBadge db_badges ''g1'')) \<and>
   userBadges (deleteBadge db_badges ''g1'') = userBadges db_badges \<and>
   userBadges db_badges \<noteq> []"
proof -
  note inst = deleteBadge_deactivates [of db_badges "''g1''"]
  have m1: "mk_badge ''g1'' ''Pioneer'' True \<in> set (badges db_badges)"
    by (simp add: db_badges_def)
  have m2: "mk_badge ''g2'' ''Helper'' True \<in> set (badges db_badges)"
    by (simp add: db_badges_def)
  have i1: "badge_id (mk_badge ''g1'' ''Pioneer'' True) = ''g1''"
    and i2: "badge_id (mk_badge ''g2'' ''Helper'' True) \<noteq> ''g1''"
    by (simp_all add: mk_badge_def)
  have e: "(mk_badge ''g1'' ''Pioneer'' True)\<lparr>badge_isActive := False\<rparr> =
           mk_badge ''g1'' ''Pioneer'' False"
    by (simp add: mk_badge_def)
  from inst m1 i1 have a: "mk_badge ''g1'' ''Pioneer'' False \<in> set (badges (deleteBadge db_badges ''g1''))"
    unfolding e [symmetric] by blast
  from inst m2 i2 have b: "mk_badge ''g2'' ''Helper'' True \<in> set (badges (deleteBadge db_badges ''g1''))"
    by blast
  from inst have c: "userBadges (deleteBadge db_badges ''g1'') = userBadges db_badges" by blast
  have g0: "mk_badge ''g1'' ''Pioneer'' True \<in> set (getBadges db_badges)"
    by (simp add: getBadges_set db_badges_def mk_badge_def)
  have g1: "map badge_id (getBadges (deleteBadge db_badges ''g1'')) = [''g2'']"
    by (simp add: getBadges_def deleteBadge_def db_badges_def mk_badge_def)
  have n: "userBadges db_badges \<noteq> []" by (simp add: db_badges_def)
  show ?thesis using m1 i1 g0 a g1 b c n by blast
qed

subsection \<open>The default board of a project\<close>

lemma createProject_Inr:
  assumes "createProject d p = Inr (project, d1)"
  shows "d1 = d\<lparr>projects := projects d @ [project], clock := Suc (clock d)\<rparr> \<and>
         project_id project \<notin> set (map project_id (projects d)) \<and>
         varchar 255 (ip_name p) = Some (project_name project) \<and>
         project_ownerId project = ip_ownerId p \<and>
         user_exists d (ip_ownerId p)"
  using assms gen_random_uuid_fresh [of "map project_id (projects d)"]
  unfolding createProject_def
  by (auto simp: Let_def split: if_splits option.splits)

lemma createBoard_Inr:
  assumes "createBoard d b = Inr (board, d1)"
  shows "d1 = d\<lparr>boards := boards d @ [board], clock := Suc (clock d)\<rparr> \<and>
         board_projectId board = ib_projectId b \<and>
         varchar 255 (ib_name b) = Some (board_name board) \<and>
         board_columns board = upd (ib_columns b) default_columns \<and>
         board_description board = ib_description b \<and>
         project_exists d (ib_projectId b)"
  using assms unfolding createBoard_def
  by (auto simp: Let_def split: if_splits option.splits)

lemma createBoard_succeeds:
  assumes "project_exists d (ib_projectId b)" and "length (ib_name b) \<le> 255"
  shows "\<exists>board. createBoard d b = Inr (board, d\<lparr>boards := boards d @ [board], clock := Suc (clock d)\<rparr>)"
  using assms unfolding createBoard_def by (simp add: Let_def varchar_short)

lemma sort_key_single: "sort_key f [x] = [x]"
  by simp

text \<open>
  C5. Let every board of the database belong to an existing project (the foreign key of
  \<open>boards\<close>). Whatever the request body, \<open>POST /api/projects\<close> either creates nothing and
  does not answer with a project, or adds exactly one project \<open>p\<close>, which is the project of
  a successful answer, and then exactly one board has \<open>projectId = p.id\<close>: it is named
  Main Board and has the four default columns. This holds also when the activity write
  after it fails.
\<close>

theorem project_creation_default_board:
  assumes fk: "\<forall>b \<in> set (boards d). project_exists d (board_projectId b)"
      and run: "postProject parse d userId body = (r, d')"
  shows "(projects d' = projects d \<and> boards d' = boards d \<and> (\<forall>p. r \<noteq> Json p)) \<or>
         (\<exists>project b.
            projects d' = projects d @ [project] \<and> (\<forall>p. r = Json p \<longrightarrow> p = project) \<and>
            filter (\<lambda>x. board_projectId x = project_id project) (boards d') = [b] \<and>
            getBoardsByProject d' (project_id project) = [b] \<and>
            board_name b = ''Main Board'' \<and>
            board_columns b = default_columns \<and>
            map column_id (board_columns b) = [''todo'', ''in_progress'', ''review'', ''done''])"
proof (cases "parse body")
  case None
  then show ?thesis using run by (auto simp: postProject_def)
next
  case (Some p)
  show ?thesis
  proof (cases "createProject d (p\<lparr>ip_ownerId := userId\<rparr>)")
    case (Inl e)
    then show ?thesis using run Some by (auto simp: postProject_def)
  next
    case (Inr pr)
    obtain project d1 where pr: "pr = (project, d1)" by (cases pr)
    note cp = createProject_Inr [OF Inr [unfolded pr]]
    then have d1: "d1 = d\<lparr>projects := projects d @ [project], clock := Suc (clock d)\<rparr>"
      and fresh: "project_id project \<notin> set (map project_id (projects d))" by simp_all
    let ?ib = "\<lparr>ib_name = ''Main Board'', ib_description = Some ''Default project board'',
                ib_projectId = project_id project, ib_columns = None\<rparr>"
    have "project_exists d1 (ib_projectId ?ib)" by (simp add: d1 project_exists_def)
    moreover have "length (ib_name ?ib) \<le> 255" by simp
    ultimately obtain b where
      cb: "createBoard d1 ?ib = Inr (b, d1\<lparr>boards := boards d1 @ [b], clock := Suc (clock d1)\<rparr>)"
      using createBoard_succeeds [of d1 ?ib] by blast
    let ?d2 = "d1\<lparr>boards := boards d1 @ [b], clock := Suc (clock d1)\<rparr>"
    note bf = createBoard_Inr [OF cb]
    have none: "filter (\<lambda>x. board_projectId x = project_id project) (boards d) = []"
    proof -
      have "board_projectId x \<noteq> project_id project" if "x \<in> set (boards d)" for x
      proof
        assume "board_projectId x = project_id project"
        moreover from fk that have "project_exists d (board_projectId x)" by blast
        ultimately show False using fresh unfolding project_exists_def by simp
      qed
      then show ?thesis by (simp add: filter_empty_conv)
    qed
    have one: "filter (\<lambda>x. board_projectId x = project_id project) (boards ?d2) = [b]"
      using none bf by (simp add: d1)
    have cols: "board_columns b = default_columns" "board_name b = ''Main Board''"
      using bf by (simp_all add: upd_def varchar_def)
    have out: "(r = Json project \<or> (\<exists>m. r = Failure 500 m)) \<and> projects d' = projects ?d2 \<and> boards d' = boards ?d2"
    proof (cases "createActivity ?d2
                            \<lparr>ia_userId = userId,
                             ia_type = ''project_created'',
                             ia_description = ''Created project \"'' @ project_name project @ ''\"'',
                             ia_metadata = Some [(''projectName'', JString (project_name project))],
                             ia_projectId = Some (project_id project),
                             ia_taskId = None\<rparr>")
      case (Inl e)
      then show ?thesis using run Some Inr pr cb by (auto simp: postProject_def)
    next
      case (Inr ar)
      obtain a d3 where ar: "ar = (a, d3)" by (cases ar)
      from createActivity_Inr [OF Inr [unfolded ar]] have "projects d3 = projects ?d2" "boards d3 = boards ?d2"
        by simp_all
      then show ?thesis using run Some \<open>createProject d (p\<lparr>ip_ownerId := userId\<rparr>) = Inr pr\<close> pr cb Inr ar
        by (auto simp: postProject_def)
    qed
    have "projects d' = projects d @ [project]" using out by (simp add: d1)
    moreover have "\<forall>p. r = Json p \<longrightarrow> p = project" using out by auto
    moreover have "filter (\<lambda>x. board_projectId x = project_id project) (boards d') = [b]"
      using out one by simp
    moreover from this have "getBoardsByProject d' (project_id project) = [b]"
      by (simp add: getBoardsByProject_def)
    moreover have "map column_id (board_columns b) = [''todo'', ''in_progress'', ''review'', ''done'']"
      using cols by (simp add: default_columns_def)
    ultimately show ?thesis using cols
      by (intro disjI2 exI [of _ project] exI [of _ b]) simp
  qed
qed

theorem project_creation_default_board_witness:
  "list_all (\<lambda>b. project_exists db0 (board_projectId b)) (boards db0) \<and>
   (\<exists>project d' b.
      postProject (\<lambda>body. Some \<lparr>ip_name = body, ip_description = None, ip_visibility = None,
                                ip_sdgTags = None, ip_ownerId = []\<rparr>)
        db0 ''u1'' ''Clean Water'' = (Json project, d') \<and>
      project_name project = ''Clean Water'' \<and>
      getBoardsByProject d' (project_id project) = [b] \<and>
      board_name b = ''Main Board'' \<and>
      board_columns b = default_columns)"
proof -
  let ?parse = "\<lambda>body. Some \<lparr>ip_name = body, ip_description = None, ip_visibility = None,
                                ip_sdgTags = None, ip_ownerId = []\<rparr>"
  obtain r d' where run: "postProject ?parse db0 ''u1'' ''Clean Water'' = (r, d')"
    by (cases "postProject ?parse db0 ''u1'' ''Clean Water''")
  have fk: "\<forall>b \<in> set (boards db0). project_exists db0 (board_projectId b)"
    by (simp add: db0_def project_exists_def)
  have "case fst (postProject ?parse db0 ''u1'' ''Clean Water'') of
          Json p \<Rightarrow> project_name p = ''Clean Water'' | Failure c m \<Rightarrow> False"
    by code_simp
  then obtain p where r: "r = Json p" and n: "project_name p = ''Clean Water''"
    using run by (cases r) simp_all
  from project_creation_default_board [OF fk run] r n run fk
  show ?thesis by (auto simp: list_all_iff)
qed

subsection \<open>Search within a project\<close>

lemma set_page: "set (page params rows) \<subseteq> set rows"
proof -
  have "set (take (sp_limit params)
               (drop (sp_offset params) (rev (sort_key task_updatedAt (rev rows)))))
          \<subseteq> set (rev (sort_key task_updatedAt (rev rows)))"
    by (meson set_take_subset set_drop_subset subset_trans)
  then show ?thesis by (simp add: page_def)
qed

lemma set_tasks_join_boards:
  "(t, b) \<in> set (tasks_join_boards d) \<longleftrightarrow>
     t \<in> set (tasks d) \<and> b \<in> set (boards d) \<and> task_boardId t = board_id b"
  by (auto simp: tasks_join_boards_def)

lemma and_all_conditions:
  "and_all (conditions like params) t \<longleftrightarrow>
     (truthy (sp_query params) \<longrightarrow>
        like (task_title t) (''%'' @ upd (sp_query params) [] @ ''%'') \<or>
        (\<exists>v. task_description t = Some v \<and> like v (''%'' @ upd (sp_query params) [] @ ''%''))) \<and>
     (truthy (sp_assigneeId params) \<longrightarrow> task_assigneeId t = sp_assigneeId params) \<and>
     (truthy (sp_reporterId params) \<longrightarrow> Some (task_reporterId t) = sp_reporterId params) \<and>
     (truthy (sp_status params) \<longrightarrow> Some (taskStatus_str (task_status t)) = sp_status params) \<and>
     (truthy (sp_priority params) \<longrightarrow>
        Some (taskPriority_str (task_priority t)) = sp_priority params) \<and>
     (truthy (sp_type params) \<longrightarrow> Some (taskType_str (task_type t)) = sp_type params)"
  by (auto simp: and_all_def conditions_def split: option.splits)

lemma searchTasks_project_branch:
  assumes "truthy (sp_projectId params)" and "searchTasks like d params = Inr res"
  shows "res = SelectedRows (map select_columns (page params
           (map fst (filter (\<lambda>(t, b). Some (board_projectId b) = sp_projectId params \<and>
                                        and_all (conditions like params) t)
                            (tasks_join_boards d)))))"
  using assms unfolding searchTasks_def by (simp split: if_splits)

lemma set_project_matches:
  "t \<in> set (map fst (filter (\<lambda>(t, b). Some (board_projectId b) = Some P \<and> and_all cs t)
                           (tasks_join_boards d))) \<longleftrightarrow>
   t \<in> set (tasks d) \<and>
   (\<exists>b \<in> set (boards d). board_id b = task_boardId t \<and> board_projectId b = P) \<and>
   and_all cs t"
proof -
  have "t \<in> set (map fst (filter (\<lambda>(t, b). Some (board_projectId b) = Some P \<and> and_all cs t)
                           (tasks_join_boards d))) \<longleftrightarrow>
        (\<exists>b. (t, b) \<in> set (tasks_join_boards d) \<and> board_projectId b = P \<and> and_all cs t)"
    by (auto simp: image_iff)
  also have "\<dots> \<longleftrightarrow> t \<in> set (tasks d) \<and>
     (\<exists>b \<in> set (boards d). board_id b = task_boardId t \<and> board_projectId b = P) \<and> and_all cs t"
    unfolding set_tasks_join_boards by auto
  finally show ?thesis .
qed

text \<open>
  C4. When \<open>searchTasks\<close> is called with a project id \<open>P\<close> that is not the empty string
  and returns, the result is a page of the selected columns of exactly the tasks that lie
  on a board of project \<open>P\<close> and satisfy every filter whose parameter is supplied (text
  on title or description, assignee, reporter, status, priority, type); so every row of
  the result belongs to a board whose \<open>projectId\<close> is \<open>P\<close>, whatever the other filters.
\<close>

theorem search_scoped_to_project:
  assumes P: "sp_projectId params = Some P" and ne: "P \<noteq> []"
      and res: "searchTasks like d params = Inr res"
  shows "\<exists>M. res = SelectedRows (map select_columns (page params M)) \<and>
           (\<forall>t. t \<in> set M \<longleftrightarrow>
              t \<in> set (tasks d) \<and>
              (\<exists>b \<in> set (boards d). board_id b = task_boardId t \<and> board_projectId b = P) \<and>
              (truthy (sp_query params) \<longrightarrow>
                 like (task_title t) (''%'' @ upd (sp_query params) [] @ ''%'') \<or>
                 (\<exists>v. task_description t = Some v \<and>
                      like v (''%'' @ upd (sp_query params) [] @ ''%''))) \<and>
              (truthy (sp_assigneeId params) \<longrightarrow> task_assigneeId t = sp_assigneeId params) \<and>
              (truthy (sp_reporterId params) \<longrightarrow>
                 Some (task_reporterId t) = sp_reporterId params) \<and>
              (truthy (sp_status params) \<longrightarrow>
                 Some (taskStatus_str (task_status t)) = sp_status params) \<and>
              (truthy (sp_priority params) \<longrightarrow>
                 Some (taskPriority_str (task_priority t)) = sp_priority params) \<and>
              (truthy (sp_type params) \<longrightarrow>
                 Some (taskType_str (task_type t)) = sp_type params)) \<and>
           (\<forall>r \<in> set (map select_columns (page params M)).
              \<exists>b \<in> set (boards d). board_id b = sel_boardId r \<and> board_projectId b = P)"
proof -
  let ?M = "map fst (filter (\<lambda>(t, b). Some (board_projectId b) = Some P \<and>
                                        and_all (conditions like params) t)
                            (tasks_join_boards d))"
  have tr: "truthy (sp_projectId params)" using P ne by (simp add: truthy_def)
  have 1: "res = SelectedRows (map select_columns (page params ?M))"
    using searchTasks_project_branch [OF tr res] unfolding P .
  have 2: "t \<in> set ?M \<longleftrightarrow>
              t \<in> set (tasks d) \<and>
              (\<exists>b \<in> set (boards d). board_id b = task_boardId t \<and> board_projectId b = P) \<and>
              (truthy (sp_query params) \<longrightarrow>
                 like (task_title t) (''%'' @ upd (sp_query params) [] @ ''%'') \<or>
                 (\<exists>v. task_description t = Some v \<and>
                      like v (''%'' @ upd (sp_query params) [] @ ''%''))) \<and>
              (truthy (sp_assigneeId params) \<longrightarrow> task_assigneeId t = sp_assigneeId params) \<and>
              (truthy (sp_reporterId params) \<longrightarrow>
                 Some (task_reporterId t) = sp_reporterId params) \<and>
              (truthy (sp_status params) \<longrightarrow>
                 Some (taskStatus_str (task_status t)) = sp_status params) \<and>
              (truthy (sp_priority params) \<longrightarrow>
                 Some (taskPriority_str (task_priority t)) = sp_priority params) \<and>
              (truthy (sp_type params) \<longrightarrow>
                 Some (taskType_str (task_type t)) = sp_type params)" for t
    unfolding set_project_matches [of t P "conditions like params" d]
      and_all_conditions [of like params t] ..
  have 3: "\<exists>b \<in> set (boards d). board_id b = sel_boardId r \<and> board_projectId b = P"
    if "r \<in> set (map select_columns (page params ?M))" for r
  proof -
    from that obtain t where t: "t \<in> set (page params ?M)" and r: "r = select_columns t"
      by auto
    from t set_page have "t \<in> set ?M" by blast
    then have "\<exists>b \<in> set (boards d). board_id b = task_boardId t \<and> board_projectId b = P"
      unfolding set_project_matches by blast
    then show ?thesis by (simp add: r select_columns_def)
  qed
  show ?thesis
    apply (rule exI [of _ ?M])
    apply (intro conjI allI ballI)
      apply (rule 1)
     apply (rule 2)
    apply (erule 3)
    done
qed

theorem search_scoped_to_project_witness:
  "sp_projectId (search0\<lparr>sp_projectId := Some ''p1'', sp_status := Some ''todo''\<rparr>) = Some ''p1'' \<and>
   ''p1'' \<noteq> [] \<and>
   (\<exists>rows. searchTasks (\<lambda>v pat. True) db0
              (search0\<lparr>sp_projectId := Some ''p1'', sp_status := Some ''todo''\<rparr>) =
              Inr (SelectedRows rows) \<and>
           map sel_id rows = [''t1'', ''t2''] \<and>
           (\<forall>r \<in> set rows.
              \<exists>b \<in> set (boards db0). board_id b = sel_boardId r \<and> board_projectId b = ''p1''))"
proof -
  let ?params = "search0\<lparr>sp_projectId := Some ''p1'', sp_status := Some ''todo''\<rparr>"
  have P: "sp_projectId ?params = Some ''p1''" by simp
  have ne: "''p1'' \<noteq> []" by simp
  have ev: "case searchTasks (\<lambda>v pat. True) db0 ?params of
              Inr (SelectedRows rows) \<Rightarrow> map sel_id rows = [''t1'', ''t2'']
            | _ \<Rightarrow> False"
    by code_simp
  then obtain rows where res: "searchTasks (\<lambda>v pat. True) db0 ?params = Inr (SelectedRows rows)"
    and ids: "map sel_id rows = [''t1'', ''t2'']"
    by (auto split: sum.splits searchResult.splits)
  from search_scoped_to_project [OF P ne res] have all:
    "\<forall>r \<in> set rows. \<exists>b \<in> set (boards db0). board_id b = sel_boardId r \<and> board_projectId b = ''p1''"
    by auto
  show ?thesis
    by (intro conjI exI [of _ rows]) (fact P ne res ids all)+
qed

text \<open>
  With the empty string as project id the filter is not applied: the search over the small
  database returns both tasks, which lie on board b1 of project p1, and no board belongs
  to a project whose id is the empty string.
\<close>

theorem search_empty_project_id_counterexample:
  "(case searchTasks (\<lambda>v pat. True) db0 (search0\<lparr>sp_projectId := Some []\<rparr>) of
      Inr (TaskRows rows) \<Rightarrow> map task_id rows
    | _ \<Rightarrow> []) = [''t1'', ''t2''] \<and>
   (case searchTasks (\<lambda>v pat. True) db0 (search0\<lparr>sp_projectId := Some []\<rparr>) of
      Inr (TaskRows rows) \<Rightarrow> map task_boardId rows
    | _ \<Rightarrow> []) = [''b1'', ''b1''] \<and>
   map (\<lambda>b. (board_id b, board_projectId b)) (boards db0) = [(''b1'', ''p1'')]"
  by code_simp

subsection \<open>The columns of a project search\<close>

lemma searchTasks_plain_branch:
  assumes "\<not> truthy (sp_projectId params)" and "searchTasks like d params = Inr res"
  shows "\<exists>rows. res = TaskRows rows \<and> set rows \<subseteq> set (tasks d)"
proof (cases "List.null (conditions like params)")
  case True
  with assms have "res = TaskRows (page params (tasks d))"
    unfolding searchTasks_def by (simp split: if_splits)
  then show ?thesis using set_page by blast
next
  case False
  with assms have "res = TaskRows (page params (filter (and_all (conditions like params)) (tasks d)))"
    unfolding searchTasks_def by (simp split: if_splits)
  moreover have "set (page params (filter (and_all (conditions like params)) (tasks d))) \<subseteq> set (tasks d)"
    using set_page [of params "filter (and_all (conditions like params)) (tasks d)"] by auto
  ultimately show ?thesis by blast
qed

text \<open>
  C10. When \<open>searchTasks\<close> returns and the project filter is applied (the parameter is
  truthy), every record of the result is the selection of the fifteen named columns of a
  task of the table; the record type has no \<open>dueDate\<close> and no \<open>progress\<close>, and the
  selection is the same whatever these two fields of the task hold. When the parameter
  is not supplied the result consists of full rows of the table \<open>tasks\<close>, with their
  \<open>dueDate\<close> and \<open>progress\<close>.
\<close>

theorem search_selected_columns:
  assumes res: "searchTasks like d params = Inr res"
  shows "(truthy (sp_projectId params) \<longrightarrow>
           (\<exists>rows. res = SelectedRows rows \<and>
              (\<forall>r \<in> set rows. \<exists>t \<in> set (tasks d).
                 sel_id r = task_id t \<and> sel_title r = task_title t \<and>
                 sel_description r = task_description t \<and> sel_status r = task_status t \<and>
                 sel_priority r = task_priority t \<and> sel_type r = task_type t \<and>
                 sel_assigneeId r = task_assigneeId t \<and> sel_reporterId r = task_reporterId t \<and>
                 sel_boardId r = task_boardId t \<and> sel_rewardPoints r = task_rewardPoints t \<and>
                 sel_estimationHours r = task_estimationHours t \<and>
                 sel_sdgLink r = task_sdgLink t \<and> sel_labels r = task_labels t \<and>
                 sel_createdAt r = task_createdAt t \<and> sel_updatedAt r = task_updatedAt t \<and>
                 (\<forall>due prog. r = select_columns (t\<lparr>task_dueDate := due, task_progress := prog\<rparr>))))) \<and>
         (\<not> truthy (sp_projectId params) \<longrightarrow>
           (\<exists>rows. res = TaskRows rows \<and> set rows \<subseteq> set (tasks d)))"
proof (intro conjI impI)
  assume tr: "truthy (sp_projectId params)"
  let ?M = "map fst (filter (\<lambda>(t, b). Some (board_projectId b) = sp_projectId params \<and>
                                        and_all (conditions like params) t)
                            (tasks_join_boards d))"
  have r: "res = SelectedRows (map select_columns (page params ?M))"
    by (rule searchTasks_project_branch [OF tr res])
  have sub: "set ?M \<subseteq> set (tasks d)"
    by (auto simp: set_tasks_join_boards)
  have "\<exists>t \<in> set (tasks d).
                 sel_id r = task_id t \<and> sel_title r = task_title t \<and>
                 sel_description r = task_description t \<and> sel_status r = task_status t \<and>
                 sel_priority r = task_priority t \<and> sel_type r = task_type t \<and>
                 sel_assigneeId r = task_assigneeId t \<and> sel_reporterId r = task_reporterId t \<and>
                 sel_boardId r = task_boardId t \<and> sel_rewardPoints r = task_rewardPoints t \<and>
                 sel_estimationHours r = task_estimationHours t \<and>
                 sel_sdgLink r = task_sdgLink t \<and> sel_labels r = task_labels t \<and>
                 sel_createdAt r = task_createdAt t \<and> sel_updatedAt r = task_updatedAt t \<and>
                 (\<forall>due prog. r = select_columns (t\<lparr>task_dueDate := due, task_progress := prog\<rparr>))"
    if "r \<in> set (map select_columns (page params ?M))" for r
  proof -
    from that obtain t where t: "t \<in> set (page params ?M)" and rt: "r = select_columns t"
      by auto
    from t set_page sub have "t \<in> set (tasks d)" by blast
    then show ?thesis
      by (intro bexI [of _ t]) (simp_all add: rt select_columns_def)
  qed
  then show "\<exists>rows. res = SelectedRows rows \<and>
              (\<forall>r \<in> set rows. \<exists>t \<in> set (tasks d).
                 sel_id r = task_id t \<and> sel_title r = task_title t \<and>
                 sel_description r = task_description t \<and> sel_status r = task_status t \<and>
                 sel_priority r = task_priority t \<and> sel_type r = task_type t \<and>
                 sel_assigneeId r = task_assigneeId t \<and> sel_reporterId r = task_reporterId t \<and>
                 sel_boardId r = task_boardId t \<and> sel_rewardPoints r = task_rewardPoints t \<and>
                 sel_estimationHours r = task_estimationHours t \<and>
                 sel_sdgLink r = task_sdgLink t \<and> sel_labels r = task_labels t \<and>
                 sel_createdAt r = task_createdAt t \<and> sel_updatedAt r = task_updatedAt t \<and>
                 (\<forall>due prog. r = select_columns (t\<lparr>task_dueDate := due, task_progress := prog\<rparr>)))"
    unfolding r by (intro exI [of _ "map select_columns (page params ?M)"] conjI refl ballI)
next
  assume "\<not> truthy (sp_projectId params)"
  from searchTasks_plain_branch [OF this res]
  show "\<exists>rows. res = TaskRows rows \<and> set rows \<subseteq> set (tasks d)" .
qed

theorem search_selected_columns_witness:
  "truthy (sp_projectId (search0\<lparr>sp_projectId := Some ''p1''\<rparr>)) \<and>
   (\<exists>rows. searchTasks (\<lambda>v pat. True) db_due (search0\<lparr>sp_projectId := Some ''p1''\<rparr>) =
              Inr (SelectedRows rows) \<and>
           map sel_id rows = [''t1'', ''t2''] \<and>
           (\<forall>r \<in> set rows. \<exists>t \<in> set (tasks db_due).
              r = select_columns (t\<lparr>task_dueDate := None, task_progress := 0\<rparr>))) \<and>
   \<not> truthy (sp_projectId search0) \<and>
   (\<exists>rows. searchTasks (\<lambda>v pat. True) db_due search0 = Inr (TaskRows rows) \<and>
           map task_dueDate rows = [Some 9, None] \<and> map task_progress rows = [40, 0] \<and>
           set rows \<subseteq> set (tasks db_due))"
proof -
  let ?p1 = "search0\<lparr>sp_projectId := Some ''p1''\<rparr>"
  have t1: "truthy (sp_projectId ?p1)" by (simp add: truthy_def)
  have t2: "\<not> truthy (sp_projectId search0)" by (simp add: truthy_def search0_def)
  have "case searchTasks (\<lambda>v pat. True) db_due ?p1 of
          Inr (SelectedRows rows) \<Rightarrow> map sel_id rows = [''t1'', ''t2''] | _ \<Rightarrow> False"
    by code_simp
  then obtain rows1 where r1: "searchTasks (\<lambda>v pat. True) db_due ?p1 = Inr (SelectedRows rows1)"
    and ids: "map sel_id rows1 = [''t1'', ''t2'']"
    by (auto split: sum.splits searchResult.splits)
  have "case searchTasks (\<lambda>v pat. True) db_due search0 of
          Inr (TaskRows rows) \<Rightarrow>
            map task_dueDate rows = [Some 9, None] \<and> map task_progress rows = [40, 0]
        | _ \<Rightarrow> False"
    by code_simp
  then obtain rows2 where r2: "searchTasks (\<lambda>v pat. True) db_due search0 = Inr (TaskRows rows2)"
    and due: "map task_dueDate rows2 = [Some 9, None]" and prog: "map task_progress rows2 = [40, 0]"
    by (auto split: sum.splits searchResult.splits)
  from search_selected_columns [OF r1] t1 have sel:
    "\<forall>r \<in> set rows1. \<exists>t \<in> set (tasks db_due).
        r = select_columns (t\<lparr>task_dueDate := None, task_progress := 0\<rparr>)"
    by fastforce
  from search_selected_columns [OF r2] t2 have sub: "set rows2 \<subseteq> set (tasks db_due)"
    by auto
  show ?thesis
    apply (intro conjI)
       apply (rule t1)
      apply (rule exI [of _ rows1])
      apply (intro conjI)
        apply (rule r1)
       apply (rule ids)
      apply (rule sel)
     apply (rule t2)
    apply (rule exI [of _ rows2])
    apply (intro conjI)
       apply (rule r2)
      apply (rule due)
     apply (rule prog)
    apply (rule sub)
    done
qed

subsection \<open>Task dependencies in the activity log\<close>

lemma taskDependencies_written:
  "taskDependencies (written d (upsertUser d userData)) = taskDependencies d"
  "taskDependencies (written d (createProject d p)) = taskDependencies d"
  "taskDependencies (written d (updateProject d i pp)) = taskDependencies d"
  "taskDependencies (written d (createBoard d b)) = taskDependencies d"
  "taskDependencies (written d (updateBoard d i pb)) = taskDependencies d"
  "taskDependencies (written d (createTask d t)) = taskDependencies d"
  "taskDependencies (written d (updateTask d i pt)) = taskDependencies d"
  "taskDependencies (written d (createBadge d g)) = taskDependencies d"
  "taskDependencies (written d (updateBadge d i pg)) = taskDependencies d"
  "taskDependencies (written d (awardBadge d u bi)) = taskDependencies d"
  "taskDependencies (written d (addProjectMember d pi u r)) = taskDependencies d"
  "taskDependencies (written d (insert_activities d a)) = taskDependencies d"
  "taskDependencies (written d (updateUserPoints d u n)) = taskDependencies d"
  "taskDependencies (written d (updateUserRole d u ro)) = taskDependencies d"
  "taskDependencies (written d (createTaskComment d ti u c)) = taskDependencies d"
  by (auto simp: written_def upsertUser_def createProject_def updateProject_def
        createBoard_def updateBoard_def createTask_def updateTask_def createBadge_def
        updateBadge_def awardBadge_def addProjectMember_def insert_activities_def
        updateUserPoints_def updateUserRole_def createTaskComment_def Let_def
      split: if_splits option.splits sum.splits)

lemma taskDependencies_after: "taskDependencies (after js d c) = taskDependencies d"
proof (cases c)
  case (Call_deleteProject i)
  then show ?thesis by (auto simp: deleteProject_def)
next
  case (Call_deleteTask i)
  then show ?thesis by (auto simp: deleteTask_def)
next
  case (Call_createTimeLog timeLog)
  show ?thesis
  proof (cases "date_toISOString js (tl_date timeLog)")
    case None
    then show ?thesis by (simp add: Call_createTimeLog createTimeLog_def)
  next
    case (Some s)
    show ?thesis
      using taskDependencies_written(12)
        [of d "\<lparr>ia_userId = tl_userId timeLog,
                   ia_type = ''time_logged'',
                   ia_description =
                     ''Logged '' @ number_toString js (tl_timeSpent timeLog) @ '' hours'' @
                     (if truthy (tl_description timeLog)
                      then '': '' @ upd (tl_description timeLog) [] else []),
                   ia_metadata = Some (
                     [(''timeSpent'', number_toJSON js (tl_timeSpent timeLog))] @
                     (case tl_description timeLog of None \<Rightarrow> []
                      | Some v \<Rightarrow> [(''description'', JString v)]) @
                     [(''date'', JString s)]),
                   ia_projectId = None,
                   ia_taskId = Some (tl_taskId timeLog)\<rparr>"]
      unfolding Call_createTimeLog after.simps createTimeLog_def Some
      by (auto simp: written_def split: sum.splits)
  qed
next
  case (Call_createTaskDependency t x)
  show ?thesis
    using taskDependencies_written(12)
      [of d "\<lparr>ia_userId = [],
              ia_type = ''dependency_created'',
              ia_description = ''Task dependency created'',
              ia_metadata = Some [(''dependsOnTaskId'', JString x)],
              ia_projectId = None,
              ia_taskId = Some t\<rparr>"]
    unfolding Call_createTaskDependency after.simps createTaskDependency_def
    by (auto simp: written_def split: sum.splits)
qed (simp_all add: taskDependencies_written createActivity_def deleteBadge_def
       removeProjectMember_def updateTaskComment_def deleteTaskComment_def
       Let_def)

lemma createTaskDependency_Inl:
  assumes "createTaskDependency d t x = Inl e"
  shows "\<not> (user_exists d [] \<and> task_exists d t)"
  using assms unfolding createTaskDependency_def insert_activities_def
  by (auto simp: Let_def ref_ok_def split: if_splits)

lemma createTaskDependency_Inr:
  assumes "createTaskDependency d t x = Inr (dep, d')"
  shows "user_exists d [] \<and> task_exists d t \<and>
         (\<exists>a. d' = d\<lparr>activities := activities d @ [a], clock := Suc (clock d)\<rparr> \<and>
              activity_type a = ''dependency_created'' \<and> activity_userId a = [] \<and>
              activity_taskId a = Some t \<and>
              activity_metadata a = Some [(''dependsOnTaskId'', JString x)] \<and>
              dep = \<lparr>dep_id = activity_id a, dep_taskId = Some t,
                     dep_dependsOnTaskId = Some (JString x),
                     dep_createdAt = activity_createdAt a\<rparr>)"
  using assms unfolding createTaskDependency_def insert_activities_def
  by (auto simp: Let_def ref_ok_def split: if_splits)

text \<open>
  No call of the storage layer writes the table \<open>taskDependencies\<close>.
  \<open>createTaskDependency t x\<close> inserts into \<open>activities\<close> with the empty string as
  \<open>userId\<close>; the foreign keys of the table accept the row exactly when \<open>users\<close> has a row
  whose id is the empty string and the task \<open>t\<close> exists. Only then is the activity
  appended and the entry returned among those a following \<open>getTaskDependencies t\<close>
  returns; otherwise the call throws and nothing is written.
\<close>

lemma dependency_round_trip:
  "taskDependencies (after js d c) = taskDependencies d \<and>
   (case createTaskDependency d t x of
      Inl e \<Rightarrow> \<not> (user_exists d [] \<and> task_exists d t)
    | Inr (dep, d') \<Rightarrow>
        user_exists d [] \<and> task_exists d t \<and>
        taskDependencies d' = taskDependencies d \<and>
        (\<exists>a. activities d' = activities d @ [a] \<and>
             activity_type a = ''dependency_created'' \<and> activity_userId a = [] \<and>
             activity_taskId a = Some t \<and>
             activity_metadata a = Some [(''dependsOnTaskId'', JString x)]) \<and>
        dep_taskId dep = Some t \<and> dep_dependsOnTaskId dep = Some (JString x) \<and>
        dep \<in> set (getTaskDependencies d' t))"
proof (intro conjI)
  show "taskDependencies (after js d c) = taskDependencies d" by (rule taskDependencies_after)
next
  show "case createTaskDependency d t x of
      Inl e \<Rightarrow> \<not> (user_exists d [] \<and> task_exists d t)
    | Inr (dep, d') \<Rightarrow>
        user_exists d [] \<and> task_exists d t \<and>
        taskDependencies d' = taskDependencies d \<and>
        (\<exists>a. activities d' = activities d @ [a] \<and>
             activity_type a = ''dependency_created'' \<and> activity_userId a = [] \<and>
             activity_taskId a = Some t \<and>
             activity_metadata a = Some [(''dependsOnTaskId'', JString x)]) \<and>
        dep_taskId dep = Some t \<and> dep_dependsOnTaskId dep = Some (JString x) \<and>
        dep \<in> set (getTaskDependencies d' t)"
  proof (cases "createTaskDependency d t x")
    case (Inl e)
    then show ?thesis using createTaskDependency_Inl [OF Inl] by simp
  next
    case (Inr r)
    obtain dep d' where r: "r = (dep, d')" by (cases r)
    from createTaskDependency_Inr [OF Inr [unfolded r]] obtain a where
      ex: "user_exists d []" "task_exists d t"
      and d': "d' = d\<lparr>activities := activities d @ [a], clock := Suc (clock d)\<rparr>"
      and a: "activity_type a = ''dependency_created''" "activity_userId a = []"
             "activity_taskId a = Some t"
             "activity_metadata a = Some [(''dependsOnTaskId'', JString x)]"
      and dep: "dep = \<lparr>dep_id = activity_id a, dep_taskId = Some t,
                     dep_dependsOnTaskId = Some (JString x),
                     dep_createdAt = activity_createdAt a\<rparr>"
      by blast
    have mem: "dep \<in> set (getTaskDependencies d' t)"
      unfolding getTaskDependencies_def d' dep using a by (simp add: image_iff)
    have act: "\<exists>a. activities d' = activities d @ [a] \<and>
             activity_type a = ''dependency_created'' \<and> activity_userId a = [] \<and>
             activity_taskId a = Some t \<and>
             activity_metadata a = Some [(''dependsOnTaskId'', JString x)]"
      using a d' by (intro exI [of _ a]) simp
    show ?thesis unfolding Inr r using ex act mem by (simp add: dep d')
  qed
qed

text \<open>
  C9. \<open>createTaskDependency\<close> is to append a \<open>dependency_created\<close> activity that a
  following \<open>getTaskDependencies\<close> returns. It writes the empty string as user id, which
  the source marks as to be filled by the calling code. In the small database, where the
  users are u1 and u3 and both tasks exist, the insert violates the foreign key of
  \<open>activities.userId\<close>: the call throws, the route answers 500, nothing is recorded and
  \<open>getTaskDependencies\<close> returns nothing. Only with a user whose id is the empty string
  does the same call record the dependency and return it.
\<close>

theorem dependency_insert_rejected:
  "map user_id (users db0) = [''u1'', ''u3''] \<and>
   map task_id (tasks db0) = [''t1'', ''t2''] \<and>
   createTaskDependency db0 ''t1'' ''t2'' = Inl ForeignKeyViolation \<and>
   postDependency db0 ''u1'' ''t1'' (Some ''t2'') =
     (Failure 500 ''Failed to create dependency'', db0) \<and>
   getTaskDependencies db0 ''t1'' = [] \<and>
   map user_id (users db_anon) = [''u1'', ''u3'', []] \<and>
   (case createTaskDependency db_anon ''t1'' ''t2'' of
      Inl e \<Rightarrow> False
    | Inr (dep, d') \<Rightarrow>
        getTaskDependencies d' ''t1'' = [dep] \<and> dep_taskId dep = Some ''t1'' \<and>
        dep_dependsOnTaskId dep = Some (JString ''t2'') \<and> taskDependencies d' = [])"
  by code_simp

subsection \<open>A failing activity write\<close>

text \<open>
  C7. On the transition route, when the status update has succeeded and the write of the
  \<open>status_changed\<close> activity throws, the handler answers 500 with the message
  \<open>Failed to transition task\<close>, not with the updated task; the database is the one the
  update left: the new status stays (nothing is rolled back), no activity is recorded and
  no points are awarded.
\<close>

theorem activity_failure_answers_500:
  assumes upd1: "updateTask d i (no_changes\<lparr>pit_status := status\<rparr>) = Inr (Some task, d1)"
      and act: "createActivity d1 (status_changed userId (getTask d i) task status comment) = Inl e"
  shows "transitionTask d userId i status comment =
           (Failure 500 ''Failed to transition task'', d1) \<and>
         getTask d1 i = Some task \<and>
         (\<exists>old. getTask d i = Some old \<and>
            task_status task = upd (Option.bind status taskStatus_of) (task_status old)) \<and>
         users d1 = users d \<and> activities d1 = activities d"
proof -
  from updateTask_Inr [OF upd1] obtain old q where
    old: "getTask d i = Some old"
    and q: "bind_task (no_changes\<lparr>pit_status := status\<rparr>) = Inr q"
    and t: "task = set_task q (clock d) old"
    and d1: "d1 = d\<lparr>tasks := map (\<lambda>x. if task_id x = i then set_task q (clock d) x else x) (tasks d),
                  clock := Suc (clock d)\<rparr>"
    by blast
  have 1: "transitionTask d userId i status comment = (Failure 500 ''Failed to transition task'', d1)"
    unfolding transitionTask_def using upd1 act by (simp add: Let_def)
  have 2: "getTask d1 i = Some task"
    unfolding d1 t by (rule getTask_after_update [OF old])
  have 3: "\<exists>old. getTask d i = Some old \<and>
            task_status task = upd (Option.bind status taskStatus_of) (task_status old)"
    by (simp add: t old set_task_def bind_task_fields(1) [OF q])
  have 4: "users d1 = users d" "activities d1 = activities d" by (simp_all add: d1)
  from 1 2 3 4 show ?thesis by simp
qed

theorem activity_failure_answers_500_witness:
  "(\<exists>task d1 e.
      updateTask db0 ''t1'' (no_changes\<lparr>pit_status := Some ''done''\<rparr>) = Inr (Some task, d1) \<and>
      createActivity d1 (status_changed ''dev-user-123'' (getTask db0 ''t1'') task
                           (Some ''done'') None) = Inl e \<and>
      transitionTask db0 ''dev-user-123'' ''t1'' (Some ''done'') None =
        (Failure 500 ''Failed to transition task'', d1) \<and>
      getTask d1 ''t1'' = Some task \<and> task_status task = S_done)"
proof -
  let ?p = "no_changes\<lparr>pit_status := Some ''done''\<rparr>"
  let ?old = "mk_task ''t1'' ''Plant trees'' S_todo (Some ''u3'') 100"
  define task where "task = set_task ?p (clock db0) ?old"
  define d1 where
    "d1 = db0\<lparr>tasks := map (\<lambda>x. if task_id x = ''t1'' then set_task ?p (clock db0) x else x)
                             (tasks db0),
              clock := Suc (clock db0)\<rparr>"
  have T0: "getTask db0 ''t1'' = Some ?old" by (simp add: db0_def getTask_def mk_task_def)
  have u: "updateTask db0 ''t1'' ?p = Inr (Some task, d1)"
    unfolding task_def d1_def
    by (rule updateTask_succeeds [OF T0 bind_task_done]) (simp_all add: ref_ok_def)
  have "\<not> user_exists d1 ''dev-user-123''"
    by (simp add: d1_def user_exists_def db0_def mk_user_def)
  then have a: "createActivity d1 (status_changed ''dev-user-123'' (getTask db0 ''t1'') task
                           (Some ''done'') None) = Inl ForeignKeyViolation"
    by (simp add: createActivity_def insert_activities_def status_changed_def)
  have s: "task_status task = S_done"
    by (simp add: task_def set_task_status_only)
  from activity_failure_answers_500 [OF u a] u a s show ?thesis
    by (intro exI [of _ task] exI [of _ d1] exI [of _ ForeignKeyViolation]) simp
qed

text \<open>
  A caller without a row in \<open>users\<close> moves the first task of the small database to done:
  the answer is the 500 failure, not the task, although the task is now done; the
  assignee has no points and no activity was recorded.
\<close>

theorem activity_failure_counterexample:
  "fst (transitionTask db0 ''dev-user-123'' ''t1'' (Some ''done'') None) =
     Failure 500 ''Failed to transition task'' \<and>
   map_option task_status (getTask (snd (transitionTask db0 ''dev-user-123'' ''t1''
     (Some ''done'') None)) ''t1'') = Some S_done \<and>
   map_option task_status (getTask db0 ''t1'') = Some S_todo \<and>
   points_of (snd (transitionTask db0 ''dev-user-123'' ''t1'' (Some ''done'') None)) ''u3'' = Some 0 \<and>
   activities (snd (transitionTask db0 ''dev-user-123'' ''t1'' (Some ''done'') None)) = []"
  by code_simp

subsection \<open>Activities recorded by the routes\<close>

lemma getTask_cong: "tasks d' = tasks d \<Longrightarrow> getTask d' i = getTask d i"
  by (simp add: getTask_def)

lemma user_exists_cong: "users d' = users d \<Longrightarrow> user_exists d' i = user_exists d i"
  by (simp add: user_exists_def)

lemma createActivity_logged:
  assumes "createActivity d a = Inr (r, d1)"
  shows "d1 = d\<lparr>activities := activities d @ [r], clock := Suc (clock d)\<rparr>"
    and "activity_userId r = ia_userId a"
    and "logged r = \<lparr>entry_type = ia_type a, entry_description = ia_description a,
                     entry_metadata = ia_metadata a, entry_projectId = ia_projectId a,
                     entry_taskId = ia_taskId a\<rparr>"
  using createActivity_Inr [OF assms] by (simp_all add: logged_def)

lemma logged_task_completed:
  assumes "createActivity d (task_completed T a) = Inr (r, d1)"
  shows "activity_userId r = a"
    and "logged r =
           \<lparr>entry_type = ''task_completed'',
            entry_description = ''Completed task \"'' @ task_title T @ ''\" and earned '' @
                                show_int (task_rewardPoints T) @ '' points'',
            entry_metadata = Some [(''taskTitle'', JString (task_title T)),
                                   (''pointsEarned'', JNumber (task_rewardPoints T))],
            entry_projectId = None, entry_taskId = Some (task_id T)\<rparr>"
  using createActivity_logged(2,3) [OF assms] by (simp_all add: task_completed_def)

lemma logged_status_changed:
  assumes "createActivity d (status_changed userId (Some T0) T status comment) = Inr (r, d1)"
  shows "activity_userId r = userId"
    and "logged r =
           \<lparr>entry_type = ''status_changed'',
            entry_description =
              ''Changed task status from '' @ taskStatus_str (task_status T0) @ '' to '' @
              (case status of None \<Rightarrow> ''undefined'' | Some s \<Rightarrow> s),
            entry_metadata = Some (
              [(''oldStatus'', JString (taskStatus_str (task_status T0)))] @
              (case status of None \<Rightarrow> [] | Some s \<Rightarrow> [(''newStatus'', JString s)]) @
              [(''comment'', case comment of None \<Rightarrow> JNull
                             | Some c \<Rightarrow> if c = [] then JNull else JString c)]),
            entry_projectId = None, entry_taskId = Some (task_id T)\<rparr>"
  using createActivity_logged(2,3) [OF assms]
  by (simp_all add: status_changed_def truthy_def upd_def split: option.splits)

lemma put_activities:
  assumes run: "putTask parse d userId i body = (Json x, d')"
  shows "\<exists>new. activities d' = activities d @ new \<and>
           (if completed_by d d' i
            then \<exists>T a. getTask d' i = Some T \<and> task_assigneeId T = Some a \<and>
                   map activity_userId new = [a] \<and>
                   map logged new =
                     [\<lparr>entry_type = ''task_completed'',
                       entry_description =
                         ''Completed task \"'' @ task_title T @ ''\" and earned '' @
                         show_int (task_rewardPoints T) @ '' points'',
                       entry_metadata = Some [(''taskTitle'', JString (task_title T)),
                                              (''pointsEarned'', JNumber (task_rewardPoints T))],
                       entry_projectId = None, entry_taskId = Some i\<rparr>]
            else new = [])"
proof -
  from run obtain p where p: "parse body = Some p"
    by (cases "parse body") (simp_all add: putTask_def)
  from run p obtain task d1 where u: "updateTask d i p = Inr (Some task, d1)"
    by (cases "updateTask d i p")
       (auto simp: putTask_def Let_def split: option.splits prod.splits)
  from updateTask_Inr [OF u] obtain old q where old: "getTask d i = Some old"
    and t: "task = set_task q (clock d) old"
    and d1: "d1 = d\<lparr>tasks := map (\<lambda>x. if task_id x = i then set_task q (clock d) x else x) (tasks d),
                  clock := Suc (clock d)\<rparr>"
    by blast
  have g1: "getTask d1 i = Some task" unfolding d1 t by (rule getTask_after_update [OF old])
  have id: "task_id task = i" using getTask_Some [OF old] t by simp
  have us1: "users d1 = users d" and ac1: "activities d1 = activities d" by (simp_all add: d1)
  let ?cond = "map_option task_status (getTask d i) \<noteq> Some S_done \<and>
               task_status task = S_done \<and> truthy (task_assigneeId task)"
  show ?thesis
  proof (cases ?cond)
    case False
    with run p u have d': "d' = d1" by (auto simp: putTask_def)
    have "\<not> completed_by d d' i"
      using False g1 unfolding d' completed_by_def by (auto simp: truthy_def split: option.splits)
    then show ?thesis by (simp add: d' ac1)
  next
    case True
    then obtain a where a: "task_assigneeId task = Some a" "a \<noteq> []"
      by (auto simp: truthy_def split: option.splits)
    show ?thesis
    proof (cases "getUser d1 a")
      case None
      with run p u True a have d': "d' = d1" by (auto simp: putTask_def)
      have "\<not> user_exists d a" using None getUser_None [of d1 a] user_exists_cong [OF us1] by simp
      then have "\<not> completed_by d d' i"
        using g1 a unfolding d' completed_by_def by simp
      then show ?thesis by (simp add: d' ac1)
    next
      case (Some assignee)
      let ?pts = "user_points assignee + task_rewardPoints task"
      from run p u True a Some obtain r0 d2 where
        up: "updateUserPoints d1 a ?pts = Inr (r0, d2)"
        by (cases "updateUserPoints d1 a ?pts") (auto simp: putTask_def Let_def)
      from run p u True a Some up obtain r where
        ca: "createActivity d2 (task_completed task a) = Inr (r, d')"
        by (cases "createActivity d2 (task_completed task a)")
           (auto simp: putTask_def Let_def)
      note lg = logged_task_completed [OF ca]
      have d': "d' = d2\<lparr>activities := activities d2 @ [r], clock := Suc (clock d2)\<rparr>"
        by (rule createActivity_logged(1) [OF ca])
      have ac: "activities d' = activities d @ [r]"
        by (simp add: d' frame_updateUserPoints [OF up] ac1)
      have gt: "getTask d' i = Some task"
        using g1 by (simp add: d' getTask_def frame_updateUserPoints [OF up])
      moreover have "user_exists d a"
        using Some getUser_None [of d1 a] user_exists_cong [OF us1] by simp
      ultimately have c: "completed_by d d' i"
        using True a unfolding completed_by_def by simp
      have "\<exists>T a. getTask d' i = Some T \<and> task_assigneeId T = Some a \<and>
                   map activity_userId [r] = [a] \<and>
                   map logged [r] =
                     [\<lparr>entry_type = ''task_completed'',
                       entry_description =
                         ''Completed task \"'' @ task_title T @ ''\" and earned '' @
                         show_int (task_rewardPoints T) @ '' points'',
                       entry_metadata = Some [(''taskTitle'', JString (task_title T)),
                                              (''pointsEarned'', JNumber (task_rewardPoints T))],
                       entry_projectId = None, entry_taskId = Some i\<rparr>]"
        using gt a(1) lg id by (intro exI [of _ task] exI [of _ a]) simp
      with c ac show ?thesis by (intro exI [of _ "[r]"]) simp
    qed
  qed
qed

lemma transition_activities:
  assumes run: "transitionTask d userId i status comment = (Json x, d')"
  shows "\<exists>new. activities d' = activities d @ new \<and>
           (\<exists>T0 T r1 rest.
              getTask d i = Some T0 \<and> getTask d' i = Some T \<and> new = r1 # rest \<and>
              activity_userId r1 = userId \<and>
              logged r1 =
                \<lparr>entry_type = ''status_changed'',
                 entry_description =
                   ''Changed task status from '' @ taskStatus_str (task_status T0) @ '' to '' @
                   (case status of None \<Rightarrow> ''undefined'' | Some s \<Rightarrow> s),
                 entry_metadata = Some (
                   [(''oldStatus'', JString (taskStatus_str (task_status T0)))] @
                   (case status of None \<Rightarrow> [] | Some s \<Rightarrow> [(''newStatus'', JString s)]) @
                   [(''comment'', case comment of None \<Rightarrow> JNull
                                  | Some c \<Rightarrow> if c = [] then JNull else JString c)]),
                 entry_projectId = None, entry_taskId = Some i\<rparr> \<and>
              (if completed_by d d' i
               then \<exists>a. task_assigneeId T = Some a \<and>
                      map activity_userId rest = [a] \<and>
                      map logged rest =
                        [\<lparr>entry_type = ''task_completed'',
                          entry_description =
                            ''Completed task \"'' @ task_title T @ ''\" and earned '' @
                            show_int (task_rewardPoints T) @ '' points'',
                          entry_metadata =
                            Some [(''taskTitle'', JString (task_title T)),
                                  (''pointsEarned'', JNumber (task_rewardPoints T))],
                          entry_projectId = None, entry_taskId = Some i\<rparr>]
               else rest = []))"
proof -
  let ?p = "no_changes\<lparr>pit_status := status\<rparr>"
  from run obtain task d1 where u: "updateTask d i ?p = Inr (Some task, d1)"
    by (cases "updateTask d i ?p")
       (auto simp: transitionTask_def Let_def split: option.splits prod.splits)
  from updateTask_Inr [OF u] obtain old q where old: "getTask d i = Some old"
    and q: "bind_task ?p = Inr q"
    and t: "task = set_task q (clock d) old"
    and d1: "d1 = d\<lparr>tasks := map (\<lambda>x. if task_id x = i then set_task q (clock d) x else x) (tasks d),
                  clock := Suc (clock d)\<rparr>"
    by blast
  have qs: "pit_status q = status" using bind_task_fields(1) [OF q] by simp
  have g1: "getTask d1 i = Some task" unfolding d1 t by (rule getTask_after_update [OF old])
  have id: "task_id task = i" using getTask_Some [OF old] t by simp
  have us1: "users d1 = users d" and ac1: "activities d1 = activities d" by (simp_all add: d1)
  from run u obtain r1 d2 where
    c1: "createActivity d1 (status_changed userId (Some old) task status comment) = Inr (r1, d2)"
    by (cases "createActivity d1 (status_changed userId (Some old) task status comment)")
       (auto simp: transitionTask_def Let_def old)
  note lg1 = logged_status_changed [OF c1]
  have d2: "d2 = d1\<lparr>activities := activities d1 @ [r1], clock := Suc (clock d1)\<rparr>"
    by (rule createActivity_logged(1) [OF c1])
  have g2: "getTask d2 i = Some task" using g1 by (simp add: d2 getTask_def)
  have us2: "users d2 = users d" and ac2: "activities d2 = activities d @ [r1]"
    by (simp_all add: d2 us1 ac1)
  have st: "task_status task = S_done \<longleftrightarrow>
            (status = Some ''done'' \<or> (Option.bind status taskStatus_of = None \<and> task_status old = S_done))"
    by (cases status) (auto simp: t qs set_task_def upd_def split: if_splits)
  have valid: "status \<noteq> None \<longrightarrow> Option.bind status taskStatus_of \<noteq> None"
    using bind_task_Inr [OF q] by (auto split: option.splits)
  let ?changed = "\<lparr>entry_type = ''status_changed'',
                 entry_description =
                   ''Changed task status from '' @ taskStatus_str (task_status old) @ '' to '' @
                   (case status of None \<Rightarrow> ''undefined'' | Some s \<Rightarrow> s),
                 entry_metadata = Some (
                   [(''oldStatus'', JString (taskStatus_str (task_status old)))] @
                   (case status of None \<Rightarrow> [] | Some s \<Rightarrow> [(''newStatus'', JString s)]) @
                   [(''comment'', case comment of None \<Rightarrow> JNull
                                  | Some c \<Rightarrow> if c = [] then JNull else JString c)]),
                 entry_projectId = None, entry_taskId = Some i\<rparr>"
  have first: "activity_userId r1 = userId" "logged r1 = ?changed"
    using lg1 id by simp_all
  let ?cond = "map_option task_status (getTask d i) \<noteq> Some S_done \<and>
               status = Some ''done'' \<and> truthy (task_assigneeId task)"
  have rest: "\<exists>rest. activities d' = activities d @ r1 # rest \<and> getTask d' i = Some task \<and>
              (if completed_by d d' i
               then \<exists>a. task_assigneeId task = Some a \<and>
                      map activity_userId rest = [a] \<and>
                      map logged rest =
                        [\<lparr>entry_type = ''task_completed'',
                          entry_description =
                            ''Completed task \"'' @ task_title task @ ''\" and earned '' @
                            show_int (task_rewardPoints task) @ '' points'',
                          entry_metadata =
                            Some [(''taskTitle'', JString (task_title task)),
                                  (''pointsEarned'', JNumber (task_rewardPoints task))],
                          entry_projectId = None, entry_taskId = Some i\<rparr>]
               else rest = [])"
  proof (cases ?cond)
    case False
    with run u c1 have d': "d' = d2" by (auto simp: transitionTask_def Let_def old)
    have "\<not> completed_by d d' i"
    proof
      assume c: "completed_by d d' i"
      then have "task_status old \<noteq> S_done" "task_status task = S_done"
        "truthy (task_assigneeId task)"
        using g2 old unfolding d' completed_by_def
        by (auto simp: truthy_def split: option.splits)
      with st valid have "status = Some ''done''" by (cases status) auto
      with False \<open>task_status old \<noteq> S_done\<close> \<open>truthy (task_assigneeId task)\<close> old
      show False by simp
    qed
    then show ?thesis using g2 by (intro exI [of _ "[]"]) (simp add: d' ac2)
  next
    case True
    then obtain a where a: "task_assigneeId task = Some a" "a \<noteq> []"
      by (auto simp: truthy_def split: option.splits)
    have done_: "task_status task = S_done" using True st by simp
    show ?thesis
    proof (cases "getUser d2 a")
      case None
      with run u c1 True a have d': "d' = d2" by (auto simp: transitionTask_def Let_def old)
      have "\<not> user_exists d a" using None getUser_None [of d2 a] user_exists_cong [OF us2] by simp
      then have "\<not> completed_by d d' i"
        using g2 a unfolding d' completed_by_def by simp
      then show ?thesis using g2 by (intro exI [of _ "[]"]) (simp add: d' ac2)
    next
      case (Some assignee)
      let ?pts = "user_points assignee + task_rewardPoints task"
      from run u c1 True a Some obtain r0 d3 where
        up: "updateUserPoints d2 a ?pts = Inr (r0, d3)"
        by (cases "updateUserPoints d2 a ?pts") (auto simp: transitionTask_def Let_def old)
      from run u c1 True a Some up obtain r2 where
        ca: "createActivity d3 (task_completed task a) = Inr (r2, d')"
        by (cases "createActivity d3 (task_completed task a)")
           (auto simp: transitionTask_def Let_def old)
      note lg = logged_task_completed [OF ca]
      have d': "d' = d3\<lparr>activities := activities d3 @ [r2], clock := Suc (clock d3)\<rparr>"
        by (rule createActivity_logged(1) [OF ca])
      have ac: "activities d' = activities d @ r1 # [r2]"
        by (simp add: d' frame_updateUserPoints [OF up] ac2)
      have gt: "getTask d' i = Some task"
        using g2 by (simp add: d' getTask_def frame_updateUserPoints [OF up])
      moreover have "user_exists d a"
        using Some getUser_None [of d2 a] user_exists_cong [OF us2] by simp
      ultimately have c: "completed_by d d' i"
        using True a done_ unfolding completed_by_def by simp
      have "\<exists>a. task_assigneeId task = Some a \<and>
                      map activity_userId [r2] = [a] \<and>
                      map logged [r2] =
                        [\<lparr>entry_type = ''task_completed'',
                          entry_description =
                            ''Completed task \"'' @ task_title task @ ''\" and earned '' @
                            show_int (task_rewardPoints task) @ '' points'',
                          entry_metadata =
                            Some [(''taskTitle'', JString (task_title task)),
                                  (''pointsEarned'', JNumber (task_rewardPoints task))],
                          entry_projectId = None, entry_taskId = Some i\<rparr>]"
        using a(1) lg id by (intro exI [of _ a]) simp
      with c ac gt show ?thesis by (intro exI [of _ "[r2]"]) simp
    qed
  qed
  then obtain rest where r: "activities d' = activities d @ r1 # rest" "getTask d' i = Some task"
      and tail: "if completed_by d d' i
               then \<exists>a. task_assigneeId task = Some a \<and>
                      map activity_userId rest = [a] \<and>
                      map logged rest =
                        [\<lparr>entry_type = ''task_completed'',
                          entry_description =
                            ''Completed task \"'' @ task_title task @ ''\" and earned '' @
                            show_int (task_rewardPoints task) @ '' points'',
                          entry_metadata =
                            Some [(''taskTitle'', JString (task_title task)),
                                  (''pointsEarned'', JNumber (task_rewardPoints task))],
                          entry_projectId = None, entry_taskId = Some i\<rparr>]
               else rest = []"
    by blast
  show ?thesis
    apply (rule exI [of _ "r1 # rest"])
    apply (rule conjI)
     apply (rule r(1))
    apply (rule exI [of _ old])
    apply (rule exI [of _ task])
    apply (rule exI [of _ r1])
    apply (rule exI [of _ rest])
    apply (intro conjI)
         apply (rule old)
        apply (rule r(2))
       apply (rule refl)
      apply (rule first(1))
     apply (rule first(2))
    apply (rule tail)
    done
qed

lemma createTask_Inr:
  assumes "createTask d t = Inr (task, d1)"
  shows "d1 = d\<lparr>tasks := tasks d @ [task], clock := Suc (clock d)\<rparr>"
  using assms unfolding createTask_def
  by (auto simp: Let_def split: if_splits option.splits)

lemma createTaskComment_Inr:
  assumes "createTaskComment d taskId userId content = Inr (c, d1)"
  shows "d1 = d\<lparr>taskComments := taskComments d @ [c], clock := Suc (clock d)\<rparr> \<and>
         comment_content c = content"
  using assms unfolding createTaskComment_def by (auto simp: Let_def split: if_splits)

lemma deleteTask_Inr:
  assumes "deleteTask d i = Inr d1"
  shows "d1 = d\<lparr>tasks := filter (\<lambda>t. task_id t \<noteq> i) (tasks d)\<rparr>"
  using assms unfolding deleteTask_def by (auto split: if_splits)

lemma project_activities:
  assumes run: "postProject parse d userId body = (Json x, d')"
  shows "\<exists>new. activities d' = activities d @ new \<and>
           (\<exists>P. projects d' = projects d @ [P] \<and>
              map activity_userId new = [userId] \<and>
              map logged new =
                [\<lparr>entry_type = ''project_created'',
                  entry_description = ''Created project \"'' @ project_name P @ ''\"'',
                  entry_metadata = Some [(''projectName'', JString (project_name P))],
                  entry_projectId = Some (project_id P), entry_taskId = None\<rparr>])"
proof -
  from run obtain p where p: "parse body = Some p"
    by (cases "parse body") (simp_all add: postProject_def)
  from run p obtain project d1 where cp: "createProject d (p\<lparr>ip_ownerId := userId\<rparr>) = Inr (project, d1)"
    by (cases "createProject d (p\<lparr>ip_ownerId := userId\<rparr>)") (auto simp: postProject_def)
  let ?ib = "\<lparr>ib_name = ''Main Board'', ib_description = Some ''Default project board'',
              ib_projectId = project_id project, ib_columns = None\<rparr>"
  from run p cp obtain b d2 where cb: "createBoard d1 ?ib = Inr (b, d2)"
    by (cases "createBoard d1 ?ib") (auto simp: postProject_def)
  let ?ia = "\<lparr>ia_userId = userId, ia_type = ''project_created'',
              ia_description = ''Created project \"'' @ project_name project @ ''\"'',
              ia_metadata = Some [(''projectName'', JString (project_name project))],
              ia_projectId = Some (project_id project), ia_taskId = None\<rparr>"
  from run p cp cb obtain r where ca: "createActivity d2 ?ia = Inr (r, d')"
    by (cases "createActivity d2 ?ia") (auto simp: postProject_def)
  from createProject_Inr [OF cp] createBoard_Inr [OF cb] createActivity_logged [OF ca]
  have "activities d' = activities d @ [r]" "projects d' = projects d @ [project]"
       "activity_userId r = userId"
       "logged r = \<lparr>entry_type = ''project_created'',
                  entry_description = ''Created project \"'' @ project_name project @ ''\"'',
                  entry_metadata = Some [(''projectName'', JString (project_name project))],
                  entry_projectId = Some (project_id project), entry_taskId = None\<rparr>"
    by simp_all
  then show ?thesis by (intro exI [of _ "[r]"] conjI exI [of _ project]) simp_all
qed

lemma project_update_activities:
  assumes run: "putProject parse d i body = (Json x, d')"
  shows "activities d' = activities d"
proof -
  from run obtain p where p: "parse body = Some p"
    by (cases "parse body") (simp_all add: putProject_def)
  from run p have "updateProject d i p = Inr (x, d')"
    by (cases "updateProject d i p") (auto simp: putProject_def)
  then show ?thesis
    unfolding updateProject_def
    by (auto simp: Let_def split: option.splits if_splits)
qed

lemma project_delete_activities:
  assumes run: "deleteProjectRoute d i = (Json x, d')"
  shows "activities d' = activities d"
proof -
  from run have "deleteProject d i = Inr d'"
    by (cases "deleteProject d i") (auto simp: deleteProjectRoute_def)
  then show ?thesis unfolding deleteProject_def by (auto split: if_splits)
qed

lemma board_activities:
  assumes run: "postBoard parse d projectId body = (Json x, d')"
  shows "activities d' = activities d"
proof -
  from run obtain b where b: "parse body = Some b"
    by (cases "parse body") (simp_all add: postBoard_def)
  from run b have cb: "createBoard d (b\<lparr>ib_projectId := projectId\<rparr>) = Inr (x, d')"
    by (cases "createBoard d (b\<lparr>ib_projectId := projectId\<rparr>)") (auto simp: postBoard_def)
  from createBoard_Inr [OF cb] show ?thesis by simp
qed

lemma task_activities:
  assumes run: "postTask parse d userId boardId body = (Json x, d')"
  shows "\<exists>new. activities d' = activities d @ new \<and>
           (\<exists>T. tasks d' = tasks d @ [T] \<and>
              map activity_userId new = [userId] \<and>
              map logged new =
                [\<lparr>entry_type = ''task_created'',
                  entry_description = ''Created task \"'' @ task_title T @ ''\"'',
                  entry_metadata = Some [(''taskTitle'', JString (task_title T))],
                  entry_projectId = None, entry_taskId = Some (task_id T)\<rparr>])"
proof -
  from run obtain t where t: "parse body = Some t"
    by (cases "parse body") (simp_all add: postTask_def)
  let ?t = "t\<lparr>it_boardId := boardId, it_reporterId := userId\<rparr>"
  from run t obtain task d1 where ct: "createTask d ?t = Inr (task, d1)"
    by (cases "createTask d ?t") (auto simp: postTask_def)
  let ?ia = "\<lparr>ia_userId = userId, ia_type = ''task_created'',
              ia_description = ''Created task \"'' @ task_title task @ ''\"'',
              ia_metadata = Some [(''taskTitle'', JString (task_title task))],
              ia_projectId = None, ia_taskId = Some (task_id task)\<rparr>"
  from run t ct obtain r where ca: "createActivity d1 ?ia = Inr (r, d')"
    by (cases "createActivity d1 ?ia") (auto simp: postTask_def)
  from createTask_Inr [OF ct] createActivity_logged [OF ca]
  have "activities d' = activities d @ [r]" "tasks d' = tasks d @ [task]"
       "activity_userId r = userId"
       "logged r = \<lparr>entry_type = ''task_created'',
                  entry_description = ''Created task \"'' @ task_title task @ ''\"'',
                  entry_metadata = Some [(''taskTitle'', JString (task_title task))],
                  entry_projectId = None, entry_taskId = Some (task_id task)\<rparr>"
    by simp_all
  then show ?thesis by (intro exI [of _ "[r]"] conjI exI [of _ task]) simp_all
qed

lemma delete_activities:
  assumes run: "deleteTaskRoute d i = (Json x, d')"
  shows "activities d' = activities d"
proof -
  from run have "deleteTask d i = Inr d'"
    by (cases "deleteTask d i") (auto simp: deleteTaskRoute_def)
  from deleteTask_Inr [OF this] show ?thesis by simp
qed

lemma assign_activities:
  assumes run: "assignTask d userId i assigneeId = (Json x, d')"
  shows "\<exists>new. activities d' = activities d @ new \<and>
           (if truthy (Option.bind assigneeId (\<lambda>a. a))
            then \<exists>T a. getTask d' i = Some T \<and> assigneeId = Some (Some a) \<and>
                   map activity_userId new = [userId] \<and>
                   map logged new =
                     [\<lparr>entry_type = ''task_assigned'',
                       entry_description = ''Assigned task \"'' @ task_title T @ ''\" to user'',
                       entry_metadata = Some [(''taskTitle'', JString (task_title T)),
                                              (''assigneeId'', JString a)],
                       entry_projectId = None, entry_taskId = Some i\<rparr>]
            else new = [])"
proof -
  let ?p = "no_changes\<lparr>pit_assigneeId := assigneeId\<rparr>"
  from run obtain ot d1 where u: "updateTask d i ?p = Inr (ot, d1)"
    by (cases "updateTask d i ?p") (auto simp: assignTask_def)
  have ac1: "activities d1 = activities d"
  proof (cases ot)
    case None
    with updateTask_Inr_None [OF u [unfolded None]] show ?thesis by simp
  next
    case (Some task)
    with updateTask_Inr [OF u [unfolded Some]] show ?thesis by auto
  qed
  show ?thesis
  proof (cases "truthy (Option.bind assigneeId (\<lambda>a. a))")
    case False
    with run u have "d' = d1" by (auto simp: assignTask_def split: option.splits)
    with False ac1 show ?thesis by simp
  next
    case True
    then obtain a where a: "assigneeId = Some (Some a)"
      by (cases assigneeId) (auto simp: truthy_def split: option.splits)
    from True run u obtain task where ot: "ot = Some task"
      by (cases ot) (auto simp: assignTask_def)
    from updateTask_Inr [OF u [unfolded ot]] obtain old q where old: "getTask d i = Some old"
      and t: "task = set_task q (clock d) old"
      and d1: "d1 = d\<lparr>tasks := map (\<lambda>x. if task_id x = i then set_task q (clock d) x else x) (tasks d),
                  clock := Suc (clock d)\<rparr>"
      by blast
    have g1: "getTask d1 i = Some task" unfolding d1 t by (rule getTask_after_update [OF old])
    have id: "task_id task = i" using getTask_Some [OF old] t by simp
    let ?ia = "\<lparr>ia_userId = userId, ia_type = ''task_assigned'',
                ia_description = ''Assigned task \"'' @ task_title task @ ''\" to user'',
                ia_metadata = Some [(''taskTitle'', JString (task_title task)),
                                    (''assigneeId'',
                                     JString (upd (Option.bind assigneeId (\<lambda>a. a)) []))],
                ia_projectId = None, ia_taskId = Some (task_id task)\<rparr>"
    from run u ot True obtain r where ca: "createActivity d1 ?ia = Inr (r, d')"
      by (cases "createActivity d1 ?ia") (auto simp: assignTask_def)
    note lg = createActivity_logged [OF ca]
    have ac: "activities d' = activities d @ [r]" using lg(1) ac1 by simp
    have gt: "getTask d' i = Some task" using g1 lg(1) by (simp add: getTask_def)
    have "\<exists>T a. getTask d' i = Some T \<and> assigneeId = Some (Some a) \<and>
                   map activity_userId [r] = [userId] \<and>
                   map logged [r] =
                     [\<lparr>entry_type = ''task_assigned'',
                       entry_description = ''Assigned task \"'' @ task_title T @ ''\" to user'',
                       entry_metadata = Some [(''taskTitle'', JString (task_title T)),
                                              (''assigneeId'', JString a)],
                       entry_projectId = None, entry_taskId = Some i\<rparr>]"
      using gt a lg(2,3) id by (intro exI [of _ task] exI [of _ a]) (simp add: upd_def)
    with True ac show ?thesis by (intro exI [of _ "[r]"]) simp
  qed
qed

lemma labels_activities:
  assumes run: "putLabels d userId i labels = (Json x, d')"
  shows "\<exists>new. activities d' = activities d @ new \<and>
           map activity_userId new = [userId] \<and>
           map logged new =
             [\<lparr>entry_type = ''labels_updated'',
               entry_description = ''Updated task labels'',
               entry_metadata = Some (case labels of None \<Rightarrow> []
                                      | Some None \<Rightarrow> [(''labels'', JNull)]
                                      | Some (Some ls) \<Rightarrow> [(''labels'', JStrings ls)]),
               entry_projectId = None, entry_taskId = Some i\<rparr>]"
proof -
  let ?p = "no_changes\<lparr>pit_labels := labels\<rparr>"
  from run obtain task d1 where u: "updateTask d i ?p = Inr (Some task, d1)"
    by (cases "updateTask d i ?p") (auto simp: putLabels_def split: option.splits)
  from updateTask_Inr [OF u] obtain old q where old: "getTask d i = Some old"
      and t: "task = set_task q (clock d) old"
      and d1: "d1 = d\<lparr>tasks := map (\<lambda>x. if task_id x = i then set_task q (clock d) x else x) (tasks d),
                  clock := Suc (clock d)\<rparr>"
    by blast
  have ac1: "activities d1 = activities d" by (simp add: d1)
  have id: "task_id task = i" using getTask_Some [OF old] t by simp
  let ?ia = "\<lparr>ia_userId = userId, ia_type = ''labels_updated'',
              ia_description = ''Updated task labels'',
              ia_metadata = Some (case labels of None \<Rightarrow> []
                                  | Some None \<Rightarrow> [(''labels'', JNull)]
                                  | Some (Some ls) \<Rightarrow> [(''labels'', JStrings ls)]),
              ia_projectId = None, ia_taskId = Some (task_id task)\<rparr>"
  from run u obtain r where ca: "createActivity d1 ?ia = Inr (r, d')"
    by (cases "createActivity d1 ?ia") (auto simp: putLabels_def)
  from createActivity_logged [OF ca] ac1 id
  have "activities d' = activities d @ [r]" "activity_userId r = userId"
       "logged r = \<lparr>entry_type = ''labels_updated'',
               entry_description = ''Updated task labels'',
               entry_metadata = Some (case labels of None \<Rightarrow> []
                                      | Some None \<Rightarrow> [(''labels'', JNull)]
                                      | Some (Some ls) \<Rightarrow> [(''labels'', JStrings ls)]),
               entry_projectId = None, entry_taskId = Some i\<rparr>"
    by simp_all
  then show ?thesis by (intro exI [of _ "[r]"] conjI) simp_all
qed

lemma comment_activities:
  assumes run: "postComment d userId taskId content = (Json x, d')"
  shows "\<exists>new. activities d' = activities d @ new \<and>
           (\<exists>C. taskComments d' = taskComments d @ [C] \<and>
              map activity_userId new = [userId] \<and>
              map logged new =
                [\<lparr>entry_type = ''comment_added'',
                  entry_description = ''Added comment to task'',
                  entry_metadata = Some [(''commentId'', JString (comment_id C))],
                  entry_projectId = None, entry_taskId = Some taskId\<rparr>])"
proof -
  from run have tr: "truthy (map_option trim content)"
    by (cases "truthy (map_option trim content)") (simp_all add: postComment_def)
  from run tr obtain c d1 where
    cc: "createTaskComment d taskId userId (trim (upd content [])) = Inr (c, d1)"
    by (cases "createTaskComment d taskId userId (trim (upd content []))")
       (auto simp: postComment_def)
  let ?ia = "\<lparr>ia_userId = userId, ia_type = ''comment_added'',
              ia_description = ''Added comment to task'',
              ia_metadata = Some [(''commentId'', JString (comment_id c))],
              ia_projectId = None, ia_taskId = Some taskId\<rparr>"
  from run tr cc obtain r where ca: "createActivity d1 ?ia = Inr (r, d')"
    by (cases "createActivity d1 ?ia") (auto simp: postComment_def)
  from createTaskComment_Inr [OF cc] createActivity_logged [OF ca]
  have "activities d' = activities d @ [r]" "taskComments d' = taskComments d @ [c]"
       "activity_userId r = userId"
       "logged r = \<lparr>entry_type = ''comment_added'',
                  entry_description = ''Added comment to task'',
                  entry_metadata = Some [(''commentId'', JString (comment_id c))],
                  entry_projectId = None, entry_taskId = Some taskId\<rparr>"
    by simp_all
  then show ?thesis by (intro exI [of _ "[r]"] conjI exI [of _ c]) simp_all
qed

lemma createTaskDependency_logged:
  assumes "createTaskDependency d t x = Inr (dep, d')"
  shows "\<exists>a. activities d' = activities d @ [a] \<and>
           logged a = \<lparr>entry_type = ''dependency_created'',
                        entry_description = ''Task dependency created'',
                        entry_metadata = Some [(''dependsOnTaskId'', JString x)],
                        entry_projectId = None, entry_taskId = Some t\<rparr>"
  using assms unfolding createTaskDependency_def insert_activities_def
  by (auto simp: Let_def logged_def split: if_splits)

lemma dependency_activities:
  assumes run: "postDependency d userId i dependsOnTaskId = (Json x, d')"
  shows "\<exists>new. activities d' = activities d @ new \<and>
           (\<exists>y. dependsOnTaskId = Some y \<and>
              map logged new =
                [\<lparr>entry_type = ''dependency_created'',
                  entry_description = ''Task dependency created'',
                  entry_metadata = Some [(''dependsOnTaskId'', JString y)],
                  entry_projectId = None, entry_taskId = Some i\<rparr>])"
proof -
  from run have tr: "truthy dependsOnTaskId"
    by (cases "truthy dependsOnTaskId") (simp_all add: postDependency_def)
  then obtain y where y: "dependsOnTaskId = Some y"
    by (cases dependsOnTaskId) (simp_all add: truthy_def)
  from run tr have cd: "createTaskDependency d i y = Inr (x, d')"
    by (cases "createTaskDependency d i y") (auto simp: postDependency_def y upd_def)
  from createTaskDependency_logged [OF cd] obtain a where
    "activities d' = activities d @ [a]"
    "logged a = \<lparr>entry_type = ''dependency_created'',
                        entry_description = ''Task dependency created'',
                        entry_metadata = Some [(''dependsOnTaskId'', JString y)],
                        entry_projectId = None, entry_taskId = Some i\<rparr>"
    by (elim conjE exE)
  then show ?thesis using y by (intro exI [of _ "[a]"] conjI exI [of _ y]) simp_all
qed

lemma okE: "ok r \<Longrightarrow> (\<And>x. r = Json x \<Longrightarrow> thesis) \<Longrightarrow> thesis"
  by (cases r) (simp_all add: ok_def)

text \<open>
  C3. A request that is answered with its result appends to the activity log and changes
  no earlier record. A project creation, a task creation, a label update and a comment
  append exactly one record under the caller's id; an assignment appends one record
  under the caller's id when the assignee id is truthy and none otherwise; a dependency
  appends one record; a project update, a project deletion, a board creation and a task
  deletion append none; a generic task update appends one record, under the assignee's
  id, when it completes a task whose assignee has a user row, and none otherwise; a
  transition appends one record under the caller's id, followed by a second under the
  assignee's id when it completes such a task. Each record carries the type tag of its
  event, the description interpolated from the inputs, the metadata of the event and the
  project or task it belongs to, as listed below.
\<close>

theorem activities_recorded_per_request:
  assumes run: "handle pp ppp pb pt ppt d req = (True, d')"
  shows "\<exists>new. activities d' = activities d @ new \<and>
     (case req of
        POST_projects userId body \<Rightarrow>
          \<exists>P. projects d' = projects d @ [P] \<and>
              map activity_userId new = [userId] \<and>
              map logged new =
                [\<lparr>entry_type = ''project_created'',
                  entry_description = ''Created project \"'' @ project_name P @ ''\"'',
                  entry_metadata = Some [(''projectName'', JString (project_name P))],
                  entry_projectId = Some (project_id P), entry_taskId = None\<rparr>]
      | PUT_project i body \<Rightarrow> new = []
      | DELETE_project i \<Rightarrow> new = []
      | POST_boards projectId body \<Rightarrow> new = []
      | POST_tasks userId boardId body \<Rightarrow>
          \<exists>T. tasks d' = tasks d @ [T] \<and>
              map activity_userId new = [userId] \<and>
              map logged new =
                [\<lparr>entry_type = ''task_created'',
                  entry_description = ''Created task \"'' @ task_title T @ ''\"'',
                  entry_metadata = Some [(''taskTitle'', JString (task_title T))],
                  entry_projectId = None, entry_taskId = Some (task_id T)\<rparr>]
      | PUT_task userId i body \<Rightarrow>
          if completed_by d d' i
          then \<exists>T a. getTask d' i = Some T \<and> task_assigneeId T = Some a \<and>
                 map activity_userId new = [a] \<and>
                 map logged new =
                   [\<lparr>entry_type = ''task_completed'',
                     entry_description =
                       ''Completed task \"'' @ task_title T @ ''\" and earned '' @
                       show_int (task_rewardPoints T) @ '' points'',
                     entry_metadata = Some [(''taskTitle'', JString (task_title T)),
                                            (''pointsEarned'', JNumber (task_rewardPoints T))],
                     entry_projectId = None, entry_taskId = Some i\<rparr>]
          else new = []
      | DELETE_task i \<Rightarrow> new = []
      | PUT_assign userId i assigneeId \<Rightarrow>
          if truthy (Option.bind assigneeId (\<lambda>a. a))
          then \<exists>T a. getTask d' i = Some T \<and> assigneeId = Some (Some a) \<and>
                 map activity_userId new = [userId] \<and>
                 map logged new =
                   [\<lparr>entry_type = ''task_assigned'',
                     entry_description = ''Assigned task \"'' @ task_title T @ ''\" to user'',
                     entry_metadata = Some [(''taskTitle'', JString (task_title T)),
                                            (''assigneeId'', JString a)],
                     entry_projectId = None, entry_taskId = Some i\<rparr>]
          else new = []
      | PUT_transition userId i status comment \<Rightarrow>
          \<exists>T0 T r1 rest.
            getTask d i = Some T0 \<and> getTask d' i = Some T \<and> new = r1 # rest \<and>
            activity_userId r1 = userId \<and>
            logged r1 =
              \<lparr>entry_type = ''status_changed'',
               entry_description =
                 ''Changed task status from '' @ taskStatus_str (task_status T0) @ '' to '' @
                 (case status of None \<Rightarrow> ''undefined'' | Some s \<Rightarrow> s),
               entry_metadata = Some (
                 [(''oldStatus'', JString (taskStatus_str (task_status T0)))] @
                 (case status of None \<Rightarrow> [] | Some s \<Rightarrow> [(''newStatus'', JString s)]) @
                 [(''comment'', case comment of None \<Rightarrow> JNull
                                | Some c \<Rightarrow> if c = [] then JNull else JString c)]),
               entry_projectId = None, entry_taskId = Some i\<rparr> \<and>
            (if completed_by d d' i
             then \<exists>a. task_assigneeId T = Some a \<and>
                    map activity_userId rest = [a] \<and>
                    map logged rest =
                      [\<lparr>entry_type = ''task_completed'',
                        entry_description =
                          ''Completed task \"'' @ task_title T @ ''\" and earned '' @
                          show_int (task_rewardPoints T) @ '' points'',
                        entry_metadata =
                          Some [(''taskTitle'', JString (task_title T)),
                                (''pointsEarned'', JNumber (task_rewardPoints T))],
                        entry_projectId = None, entry_taskId = Some i\<rparr>]
             else rest = [])
      | PUT_labels userId i labels \<Rightarrow>
          map activity_userId new = [userId] \<and>
          map logged new =
            [\<lparr>entry_type = ''labels_updated'',
              entry_description = ''Updated task labels'',
              entry_metadata = Some (case labels of None \<Rightarrow> []
                                     | Some None \<Rightarrow> [(''labels'', JNull)]
                                     | Some (Some ls) \<Rightarrow> [(''labels'', JStrings ls)]),
              entry_projectId = None, entry_taskId = Some i\<rparr>]
      | POST_comments userId taskId content \<Rightarrow>
          \<exists>C. taskComments d' = taskComments d @ [C] \<and>
              map activity_userId new = [userId] \<and>
              map logged new =
                [\<lparr>entry_type = ''comment_added'',
                  entry_description = ''Added comment to task'',
                  entry_metadata = Some [(''commentId'', JString (comment_id C))],
                  entry_projectId = None, entry_taskId = Some taskId\<rparr>]
      | POST_dependencies userId i dependsOnTaskId \<Rightarrow>
          \<exists>y. dependsOnTaskId = Some y \<and>
              map logged new =
                [\<lparr>entry_type = ''dependency_created'',
                  entry_description = ''Task dependency created'',
                  entry_metadata = Some [(''dependsOnTaskId'', JString y)],
                  entry_projectId = None, entry_taskId = Some i\<rparr>])"
proof (cases req)
  case (POST_projects userId body)
  obtain r where r: "postProject pp d userId body = (r, d')" "ok r"
    using run unfolding POST_projects by (cases "postProject pp d userId body") simp
  from r(2) obtain x where "r = Json x" by (rule okE)
  from project_activities [OF r(1) [unfolded this]] show ?thesis
    unfolding POST_projects request.case .
next
  case (PUT_project i body)
  obtain r where r: "putProject ppp d i body = (r, d')" "ok r"
    using run unfolding PUT_project by (cases "putProject ppp d i body") simp
  from r(2) obtain x where "r = Json x" by (rule okE)
  from project_update_activities [OF r(1) [unfolded this]] show ?thesis
    unfolding PUT_project by simp
next
  case (DELETE_project i)
  obtain r where r: "deleteProjectRoute d i = (r, d')" "ok r"
    using run unfolding DELETE_project by (cases "deleteProjectRoute d i") simp
  from r(2) obtain x where "r = Json x" by (rule okE)
  from project_delete_activities [OF r(1) [unfolded this]] show ?thesis
    unfolding DELETE_project by simp
next
  case (POST_boards projectId body)
  obtain r where r: "postBoard pb d projectId body = (r, d')" "ok r"
    using run unfolding POST_boards by (cases "postBoard pb d projectId body") simp
  from r(2) obtain x where "r = Json x" by (rule okE)
  from board_activities [OF r(1) [unfolded this]] show ?thesis unfolding POST_boards by simp
next
  case (POST_tasks userId boardId body)
  obtain r where r: "postTask pt d userId boardId body = (r, d')" "ok r"
    using run unfolding POST_tasks by (cases "postTask pt d userId boardId body") simp
  from r(2) obtain x where "r = Json x" by (rule okE)
  from task_activities [OF r(1) [unfolded this]] show ?thesis
    unfolding POST_tasks request.case .
next
  case (PUT_task userId i body)
  obtain r where r: "putTask ppt d userId i body = (r, d')" "ok r"
    using run unfolding PUT_task by (cases "putTask ppt d userId i body") simp
  from r(2) obtain x where "r = Json x" by (rule okE)
  from put_activities [OF r(1) [unfolded this]] show ?thesis
    unfolding PUT_task request.case .
next
  case (DELETE_task i)
  obtain r where r: "deleteTaskRoute d i = (r, d')" "ok r"
    using run unfolding DELETE_task by (cases "deleteTaskRoute d i") simp
  from r(2) obtain x where "r = Json x" by (rule okE)
  from delete_activities [OF r(1) [unfolded this]] show ?thesis unfolding DELETE_task by simp
next
  case (PUT_assign userId i assigneeId)
  obtain r where r: "assignTask d userId i assigneeId = (r, d')" "ok r"
    using run unfolding PUT_assign by (cases "assignTask d userId i assigneeId") simp
  from r(2) obtain x where "r = Json x" by (rule okE)
  from assign_activities [OF r(1) [unfolded this]] show ?thesis
    unfolding PUT_assign request.case .
next
  case (PUT_transition userId i status comment)
  obtain r where r: "transitionTask d userId i status comment = (r, d')" "ok r"
    using run unfolding PUT_transition by (cases "transitionTask d userId i status comment") simp
  from r(2) obtain x where "r = Json x" by (rule okE)
  from transition_activities [OF r(1) [unfolded this]] show ?thesis
    unfolding PUT_transition request.case .
next
  case (PUT_labels userId i labels)
  obtain r where r: "putLabels d userId i labels = (r, d')" "ok r"
    using run unfolding PUT_labels by (cases "putLabels d userId i labels") simp
  from r(2) obtain x where "r = Json x" by (rule okE)
  from labels_activities [OF r(1) [unfolded this]] show ?thesis
    unfolding PUT_labels request.case .
next
  case (POST_comments userId taskId content)
  obtain r where r: "postComment d userId taskId content = (r, d')" "ok r"
    using run unfolding POST_comments by (cases "postComment d userId taskId content") simp
  from r(2) obtain x where "r = Json x" by (rule okE)
  from comment_activities [OF r(1) [unfolded this]] show ?thesis
    unfolding POST_comments request.case .
next
  case (POST_dependencies userId i dependsOnTaskId)
  obtain r where r: "postDependency d userId i dependsOnTaskId = (r, d')" "ok r"
    using run unfolding POST_dependencies by (cases "postDependency d userId i dependsOnTaskId") simp
  from r(2) obtain x where "r = Json x" by (rule okE)
  from dependency_activities [OF r(1) [unfolded this]] show ?thesis
    unfolding POST_dependencies request.case .
qed

theorem activities_recorded_per_request_witness:
  "\<exists>d'. handle (\<lambda>b. None) (\<lambda>b. None) (\<lambda>b. None) (\<lambda>b. None) (\<lambda>b. None) db0
           (PUT_transition ''u1'' ''t1'' (Some ''done'') (Some ''planted'') :: string request) =
           (True, d') \<and>
        completed_by db0 d' ''t1'' \<and>
        map activity_userId (activities d') = [''u1'', ''u3''] \<and>
        map logged (activities d') =
          [\<lparr>entry_type = ''status_changed'',
            entry_description = ''Changed task status from todo to done'',
            entry_metadata = Some [(''oldStatus'', JString ''todo''),
                                   (''newStatus'', JString ''done''),
                                   (''comment'', JString ''planted'')],
            entry_projectId = None, entry_taskId = Some ''t1''\<rparr>,
           \<lparr>entry_type = ''task_completed'',
            entry_description = ''Completed task \"Plant trees\" and earned 100 points'',
            entry_metadata = Some [(''taskTitle'', JString ''Plant trees''),
                                   (''pointsEarned'', JNumber 100)],
            entry_projectId = None, entry_taskId = Some ''t1''\<rparr>]"
proof -
  let ?h = "handle (\<lambda>b. None) (\<lambda>b. None) (\<lambda>b. None) (\<lambda>b. None) (\<lambda>b. None) db0
              (PUT_transition ''u1'' ''t1'' (Some ''done'') (Some ''planted'') :: string request)"
  have "fst ?h = True \<and> completed_by db0 (snd ?h) ''t1'' \<and>
        map_option (\<lambda>t. taskStatus_str (task_status t)) (getTask db0 ''t1'') = Some ''todo'' \<and>
        map_option (\<lambda>t. (task_title t, task_rewardPoints t, task_assigneeId t))
          (getTask (snd ?h) ''t1'') = Some (''Plant trees'', 100, Some ''u3'') \<and>
        show_int 100 = ''100''"
    by code_simp
  then obtain d' where run: "?h = (True, d')" and c: "completed_by db0 d' ''t1''"
    and old: "map_option (\<lambda>t. taskStatus_str (task_status t)) (getTask db0 ''t1'') = Some ''todo''"
    and new: "map_option (\<lambda>t. (task_title t, task_rewardPoints t, task_assigneeId t))
          (getTask d' ''t1'') = Some (''Plant trees'', 100, Some ''u3'')"
    and sh: "show_int 100 = ''100''"
    by (cases ?h) simp
  have e: "activities db0 = []" by (simp add: db0_def)
  from activities_recorded_per_request [OF run]
  have "map activity_userId (activities d') = [''u1'', ''u3''] \<and>
        map logged (activities d') =
          [\<lparr>entry_type = ''status_changed'',
            entry_description = ''Changed task status from todo to done'',
            entry_metadata = Some [(''oldStatus'', JString ''todo''),
                                   (''newStatus'', JString ''done''),
                                   (''comment'', JString ''planted'')],
            entry_projectId = None, entry_taskId = Some ''t1''\<rparr>,
           \<lparr>entry_type = ''task_completed'',
            entry_description = ''Completed task \"Plant trees\" and earned 100 points'',
            entry_metadata = Some [(''taskTitle'', JString ''Plant trees''),
                                   (''pointsEarned'', JNumber 100)],
            entry_projectId = None, entry_taskId = Some ''t1''\<rparr>]"
    using c old new sh e by auto
  with run c show ?thesis by (intro exI [of _ d']) simp
qed

text \<open>
  On the small database, whose activity log is empty: renaming a task, creating a board
  and deleting a task are answered with their results and record nothing; completing an
  assigned task through the transition route records two activities, the second under
  the id of the assignee, not of the caller.
\<close>

theorem activities_not_one_counterexample:
  "map_prod id (\<lambda>d'. map activity_type (activities d'))
     (handle (\<lambda>b. None) (\<lambda>b. None) (\<lambda>b. None) (\<lambda>b. None)
        (\<lambda>b. Some (no_changes\<lparr>pit_title := Some b\<rparr>))
        db0 (PUT_task ''u1'' ''t1'' ''Plant more trees'')) = (True, []) \<and>
   map_prod id (\<lambda>d'. map activity_type (activities d'))
     (handle (\<lambda>b. None) (\<lambda>b. None)
        (\<lambda>b. Some \<lparr>ib_name = b, ib_description = None, ib_projectId = [], ib_columns = None\<rparr>)
        (\<lambda>b. None) (\<lambda>b. None)
        db0 (POST_boards ''p1'' ''Sprint board'')) = (True, []) \<and>
   map_prod id (\<lambda>d'. map activity_type (activities d'))
     (handle (\<lambda>b. None) (\<lambda>b. None) (\<lambda>b. None) (\<lambda>b. None) (\<lambda>b. None)
        db0 (DELETE_task ''t2'' :: string request)) = (True, []) \<and>
   map_prod id (\<lambda>d'. map (\<lambda>a. (activity_type a, activity_userId a)) (activities d'))
     (handle (\<lambda>b. None) (\<lambda>b. None) (\<lambda>b. None) (\<lambda>b. None) (\<lambda>b. None)
        db0 (PUT_transition ''u1'' ''t1'' (Some ''done'') None :: string request)) =
     (True, [(''status_changed'', ''u1''), (''task_completed'', ''u3'')]) \<and>
   activities db0 = []"
  by code_simp

subsection \<open>Two completions at once\<close>

lemma steps_Responded [simp]: "steps n (Responded r, d) = (Responded r, d)"
  by (induction n) simp_all

lemma steps_award:
  "steps 3 (Award_getUser msg task a, d) =
     (case getUser d a of
        None \<Rightarrow> (Responded (Json task), d)
      | Some assignee \<Rightarrow>
          (case updateUserPoints d a (user_points assignee + task_rewardPoints task) of
             Inl e \<Rightarrow> (Responded (Failure 500 msg), d)
           | Inr (_, d2) \<Rightarrow>
               (case createActivity d2 (task_completed task a) of
                  Inl e \<Rightarrow> (Responded (Failure 500 msg), d2)
                | Inr (_, d3) \<Rightarrow> (Responded (Json task), d3))))"
  by (simp add: eval_nat_numeral Let_def split: option.splits sum.splits prod.splits)

text \<open>A request that runs alone does what its handler does.\<close>

lemma steps_putTask:
  "steps 5 (Put_getTask i taskData, d) =
     (Responded (fst (putTask Some d userId i taskData)), snd (putTask Some d userId i taskData))"
proof -
  have 2: "steps 5 (Put_getTask i taskData, d) = steps 3 (step d (Put_updateTask i taskData (getTask d i)))"
    by (simp add: eval_nat_numeral)
  show ?thesis
    unfolding 2 putTask_def
    by (auto simp: steps_award Let_def split: option.splits sum.splits prod.splits)
qed

lemma steps_transitionTask:
  "steps 6 (Transition_getTask userId i status comment, d) =
     (Responded (fst (transitionTask d userId i status comment)),
      snd (transitionTask d userId i status comment))"
proof -
  have 2: "steps 6 (Transition_getTask userId i status comment, d) =
           steps 4 (step d (Transition_updateTask userId i status comment (getTask d i)))"
    by (simp add: eval_nat_numeral)
  have 3: "steps 4 (Transition_createActivity userId oldTask task status comment, d1) =
           steps 3 (step d1 (Transition_createActivity userId oldTask task status comment))"
    for oldTask task d1
    by (simp add: eval_nat_numeral)
  show ?thesis
    unfolding 2 transitionTask_def
    by (auto simp: 3 steps_award Let_def split: option.splits sum.splits prod.splits)
qed

lemma interleave_first:
  "interleave (replicate n True @ sched) (t1, t2, d) =
     interleave sched (fst (steps n (t1, d)), t2, snd (steps n (t1, d)))"
proof (induction n arbitrary: t1 d)
  case 0
  then show ?case by simp
next
  case (Suc n)
  obtain t1' d' where s: "step d t1 = (t1', d')" by (cases "step d t1")
  show ?case using Suc [of t1' d'] by (simp add: s)
qed

lemma interleave_second:
  "interleave (replicate n False @ sched) (t1, t2, d) =
     interleave sched (t1, fst (steps n (t2, d)), snd (steps n (t2, d)))"
proof (induction n arbitrary: t2 d)
  case 0
  then show ?case by simp
next
  case (Suc n)
  obtain t2' d' where s: "step d t2 = (t2', d')" by (cases "step d t2")
  show ?case using Suc [of t2' d'] by (simp add: s)
qed

text \<open>Two generic updates, one after the other, are the two handlers in a row.\<close>

lemma updates_one_after_the_other:
  "interleave (first_then_second 5) (Put_getTask i p, Put_getTask j q, d) =
     (Responded (fst (putTask Some d userId i p)),
      Responded (fst (putTask Some (snd (putTask Some d userId i p)) userId' j q)),
      snd (putTask Some (snd (putTask Some d userId i p)) userId' j q))"
proof -
  have "interleave (first_then_second 5) (Put_getTask i p, Put_getTask j q, d) =
        interleave (replicate 5 False @ [])
          (Responded (fst (putTask Some d userId i p)), Put_getTask j q,
           snd (putTask Some d userId i p))"
    unfolding first_then_second_def interleave_first
    by (simp only: steps_putTask [of i p d userId] fst_conv snd_conv append_Nil2)
  also have "\<dots> = (Responded (fst (putTask Some d userId i p)),
      Responded (fst (putTask Some (snd (putTask Some d userId i p)) userId' j q)),
      snd (putTask Some (snd (putTask Some d userId i p)) userId' j q))"
    unfolding interleave_second
    by (simp only: steps_putTask [of j q _ userId'] fst_conv snd_conv interleave.simps)
  finally show ?thesis .
qed

lemma update_schedules:
  "outcome (interleave (first_then_second 5) (update_done ''t1'', update_done ''t2'', db0)) =
     (Some 150, True, True)"
  "outcome (interleave (second_then_first 5) (update_done ''t1'', update_done ''t2'', db0)) =
     (Some 150, True, True)"
  "outcome (interleave (both_read_first_writes_first 3)
              (update_done ''t1'', update_done ''t2'', db0)) = (Some 50, True, True)"
  "outcome (interleave (both_read_second_writes_first 3)
              (update_done ''t1'', update_done ''t2'', db0)) = (Some 100, True, True)"
  by code_simp+

lemma transition_schedules:
  "outcome (interleave (first_then_second 6)
              (transition_done ''t1'', transition_done ''t2'', db0)) = (Some 150, True, True)"
  "outcome (interleave (second_then_first 6)
              (transition_done ''t1'', transition_done ''t2'', db0)) = (Some 150, True, True)"
  "outcome (interleave (both_read_first_writes_first 4)
              (transition_done ''t1'', transition_done ''t2'', db0)) = (Some 50, True, True)"
  "outcome (interleave (both_read_second_writes_first 4)
              (transition_done ''t1'', transition_done ''t2'', db0)) = (Some 100, True, True)"
  by code_simp+

text \<open>
  C8. The award is a read of the assignee's row and a later, separate write of the total
  computed from it; nothing isolates the two. Two tasks worth 100 and 50 points, assigned
  to the same user with 0 points, are completed by two requests. When one request runs to
  its end before the other starts (which is the two handlers in a row), the user ends with
  150 points. When both requests have read the user before either writes, both answer
  with their task and the user ends with the total written last: 50 or 100 points. This
  holds for the generic update and for the transition route.
\<close>

theorem concurrent_awards_lose_update:
  "interleave (first_then_second 5) (Put_getTask i p, Put_getTask j q, d) =
     (Responded (fst (putTask Some d userId i p)),
      Responded (fst (putTask Some (snd (putTask Some d userId i p)) userId' j q)),
      snd (putTask Some (snd (putTask Some d userId i p)) userId' j q)) \<and>
   outcome (interleave (first_then_second 5) (update_done ''t1'', update_done ''t2'', db0)) =
     (Some 150, True, True) \<and>
   outcome (interleave (second_then_first 5) (update_done ''t1'', update_done ''t2'', db0)) =
     (Some 150, True, True) \<and>
   outcome (interleave (both_read_first_writes_first 3)
              (update_done ''t1'', update_done ''t2'', db0)) = (Some 50, True, True) \<and>
   outcome (interleave (both_read_second_writes_first 3)
              (update_done ''t1'', update_done ''t2'', db0)) = (Some 100, True, True) \<and>
   outcome (interleave (first_then_second 6)
              (transition_done ''t1'', transition_done ''t2'', db0)) = (Some 150, True, True) \<and>
   outcome (interleave (second_then_first 6)
              (transition_done ''t1'', transition_done ''t2'', db0)) = (Some 150, True, True) \<and>
   outcome (interleave (both_read_first_writes_first 4)
              (transition_done ''t1'', transition_done ''t2'', db0)) = (Some 50, True, True) \<and>
   outcome (interleave (both_read_second_writes_first 4)
              (transition_done ''t1'', transition_done ''t2'', db0)) = (Some 100, True, True)"
  by (intro conjI updates_one_after_the_other update_schedules transition_schedules)

text \<open>
  The schedule spelled out for the generic update: each request reads its task, updates
  it and reads the user (who has 0 points); then the first writes 100 and logs, then the
  second writes 50 and logs.
\<close>

theorem concurrent_awards_counterexample:
  "points_of db0 ''u3'' = Some 0 \<and>
   map (\<lambda>t. (task_id t, task_assigneeId t, task_rewardPoints t)) (tasks db0) =
     [(''t1'', Some ''u3'', 100), (''t2'', Some ''u3'', 50)] \<and>
   (case interleave [True, True, True, False, False, False, True, True, False, False]
           (Put_getTask ''t1'' (no_changes\<lparr>pit_status := Some ''done''\<rparr>),
            Put_getTask ''t2'' (no_changes\<lparr>pit_status := Some ''done''\<rparr>), db0) of
      (r1, r2, d') \<Rightarrow>
        (points_of d' ''u3'', map task_status (tasks d'),
         case r1 of Responded (Json t) \<Rightarrow> task_id t | _ \<Rightarrow> [],
         case r2 of Responded (Json t) \<Rightarrow> task_id t | _ \<Rightarrow> [])) =
     (Some 50, [S_done, S_done], ''t1'', ''t2'')"
  by code_simp

end
